theory Spec2Isabelle
  imports Complex_Main
begin

section \<open>Tensors and the tensor-library operations the models call\<close>

text \<open>
  The two model classes are written against a tensor library. Its operations are
  described here by what they compute on rank-1 and rank-2 tensors, in exact real
  arithmetic (the library computes in 32-bit floating point; rounding is not modelled).
  A rank-1 tensor is a list of reals, a rank-2 tensor a list of rows. Every exception the
  library raises on a bad argument is a value of \<open>tf_error\<close>.
\<close>

type_synonym vec = "real list"
type_synonym mat = "real list list"

datatype tf_error =
    IndexOutOfRange
  | OneHotDepth
  | ShapesMustMatch
  | InferredShapeMismatch
  | InputIncompatible
  | InnerDimMismatch
  | BroadcastIncompatible
  | AxisOutOfRange
  | ShapeNotIntegers

text \<open>
  The library runs on a backend. The backends differ in one place that matters here: a
  gather with an index outside the table raises on the CPU backend and reads a row of
  zeros on the WebGL backend (the default in a browser).
\<close>

datatype backend = Cpu | Webgl

fun seq_results :: "(tf_error + 'a) list \<Rightarrow> tf_error + 'a list" where
  "seq_results [] = Inr []"
| "seq_results (r # rs) =
     (case r of
        Inl e \<Rightarrow> Inl e
      | Inr x \<Rightarrow> (case seq_results rs of Inl e \<Rightarrow> Inl e | Inr xs \<Rightarrow> Inr (x # xs)))"

definition dot :: "vec \<Rightarrow> vec \<Rightarrow> real" where
  "dot u v = sum_list (map2 (*) u v)"

subsection \<open>Elementwise product with broadcasting, and the sum over the last axis\<close>

datatype tensor = Scalar real | Vec vec | Mat mat

definition mul_row :: "vec \<Rightarrow> vec \<Rightarrow> tf_error + vec" where
  "mul_row u v =
     (if length u = length v then Inr (map2 (*) u v)
      else if length u = 1 then Inr (map (\<lambda>y. hd u * y) v)
      else if length v = 1 then Inr (map (\<lambda>x. x * hd v) u)
      else Inl BroadcastIncompatible)"

definition mul_rows :: "mat \<Rightarrow> mat \<Rightarrow> tf_error + mat" where
  "mul_rows a b =
     (if length a = length b then seq_results (map2 mul_row a b)
      else if length a = 1 then seq_results (map (\<lambda>y. mul_row (hd a) y) b)
      else if length b = 1 then seq_results (map (\<lambda>x. mul_row x (hd b)) a)
      else Inl BroadcastIncompatible)"

fun tf_mul :: "tensor \<Rightarrow> tensor \<Rightarrow> tf_error + tensor" where
  "tf_mul (Scalar a) (Scalar b) = Inr (Scalar (a * b))"
| "tf_mul (Scalar a) (Vec v) = Inr (Vec (map (\<lambda>y. a * y) v))"
| "tf_mul (Vec u) (Scalar b) = Inr (Vec (map (\<lambda>x. x * b) u))"
| "tf_mul (Scalar a) (Mat m) = Inr (Mat (map (map (\<lambda>y. a * y)) m))"
| "tf_mul (Mat m) (Scalar b) = Inr (Mat (map (map (\<lambda>x. x * b)) m))"
| "tf_mul (Vec u) (Vec v) = map_sum id Vec (mul_row u v)"
| "tf_mul (Mat a) (Vec v) = map_sum id Mat (mul_rows a [v])"
| "tf_mul (Vec u) (Mat b) = map_sum id Mat (mul_rows [u] b)"
| "tf_mul (Mat a) (Mat b) = map_sum id Mat (mul_rows a b)"

text \<open>\<open>tf.sum(t, -1)\<close>: the sum over the last axis; a scalar has no axis.\<close>

fun tf_sum_last :: "tensor \<Rightarrow> tf_error + tensor" where
  "tf_sum_last (Scalar a) = Inl AxisOutOfRange"
| "tf_sum_last (Vec v) = Inr (Scalar (sum_list v))"
| "tf_sum_last (Mat m) = Inr (Vec (map sum_list m))"

text \<open>
  \<open>score(userEmbeddings, itemEmbeddings)\<close>, the same in both classes:
  \<open>tf.sum(tf.mul(userEmbeddings, itemEmbeddings), -1)\<close>.
\<close>

definition score :: "tensor \<Rightarrow> tensor \<Rightarrow> tf_error + tensor" where
  "score userEmbeddings itemEmbeddings =
     (case tf_mul userEmbeddings itemEmbeddings of
        Inl e \<Rightarrow> Inl e
      | Inr p \<Rightarrow> tf_sum_last p)"

text \<open>Two tensors have equal shape: both vectors of one width, or both matrices with
  the same number of rows, every row of one common width.\<close>

fun same_shape :: "tensor \<Rightarrow> tensor \<Rightarrow> bool" where
  "same_shape (Vec u) (Vec v) = (length u = length v)"
| "same_shape (Mat a) (Mat b) =
     (length a = length b \<and> list_all2 (\<lambda>x y. length x = length y) a b)"
| "same_shape _ _ = False"

text \<open>The per-row dot product of two tensors of equal shape.\<close>

fun rowwise_dot :: "tensor \<Rightarrow> tensor \<Rightarrow> tensor" where
  "rowwise_dot (Vec u) (Vec v) = Scalar (dot u v)"
| "rowwise_dot (Mat a) (Mat b) = Vec (map2 dot a b)"
| "rowwise_dot s t = s"

subsection \<open>Index arguments\<close>

text \<open>
  An index is a JavaScript number; the models are given whole numbers, which are integers
  here. A number that becomes an entry of an int32 tensor is reduced modulo
  \<open>2\<^sup>3\<^sup>2\<close> = 4294967296 into the range from \<open>-2\<^sup>3\<^sup>1\<close> = -2147483648 to
  \<open>2\<^sup>3\<^sup>1 - 1\<close>.
\<close>

definition to_int32 :: "int \<Rightarrow> int" where
  "to_int32 n = (n + 2147483648) mod 4294967296 - 2147483648"

text \<open>
  An argument that holds indices is a JavaScript array of numbers or an int32 tensor
  made from one by \<open>tf.tensor1d(xs, 'int32')\<close>. An operation that takes indices makes an
  int32 tensor of an array and takes a tensor as it is. Only the array has a \<open>length\<close>
  property: on a tensor, \<open>.length\<close> is \<open>undefined\<close>.
\<close>

datatype indices = JsArray "int list" | Tensor1d "int list"

definition tf_tensor1d_int32 :: "int list \<Rightarrow> indices" where
  "tf_tensor1d_int32 xs = Tensor1d (map to_int32 xs)"

fun index_values :: "indices \<Rightarrow> int list" where
  "index_values (JsArray xs) = map to_int32 xs"
| "index_values (Tensor1d xs) = xs"

fun js_length :: "indices \<Rightarrow> nat option" where
  "js_length (JsArray xs) = Some (length xs)"
| "js_length (Tensor1d xs) = None"

subsection \<open>Gather, matrix product, one-hot labels, softmax cross-entropy\<close>

text \<open>
  \<open>tf.gather(table, indices)\<close> reads the rows of \<open>table\<close> at the int32 values of
  \<open>indices\<close>; \<open>d\<close> is the table's second dimension. An index outside the table
  (negative, or not below the number of rows) raises on the CPU backend and reads as a
  row of zeros on the WebGL backend.
\<close>

definition in_table :: "mat \<Rightarrow> int \<Rightarrow> bool" where
  "in_table table i = (0 \<le> i \<and> i < int (length table))"

definition tf_gather :: "backend \<Rightarrow> nat \<Rightarrow> mat \<Rightarrow> indices \<Rightarrow> tf_error + mat" where
  "tf_gather be d table indices =
     (if list_all (in_table table) (index_values indices)
      then Inr (map (\<lambda>i. table ! nat i) (index_values indices))
      else (case be of
              Cpu \<Rightarrow> Inl IndexOutOfRange
            | Webgl \<Rightarrow>
                Inr (map (\<lambda>i. if in_table table i then table ! nat i else replicate d 0)
                       (index_values indices))))"

text \<open>
  \<open>tf.matMul(a, b, false, true)\<close>: entry \<open>(i, j)\<close> is the sum over \<open>k\<close> of
  \<open>a[i][k] * b[j][k]\<close>. The inner dimensions must agree.
\<close>

definition tf_matMul_transposeB :: "mat \<Rightarrow> mat \<Rightarrow> tf_error + mat" where
  "tf_matMul_transposeB a b =
     (if list_all (\<lambda>u. list_all (\<lambda>v. length u = length v) b) a
      then Inr (map (\<lambda>u. map (\<lambda>v. dot u v) b) a)
      else Inl InnerDimMismatch)"

definition tf_range :: "nat \<Rightarrow> nat \<Rightarrow> nat list" where
  "tf_range start stop = [start..<stop]"

text \<open>\<open>tf.oneHot(indices, depth)\<close>; the library rejects a depth below 2.\<close>

definition tf_oneHot :: "nat list \<Rightarrow> nat \<Rightarrow> tf_error + mat" where
  "tf_oneHot indices depth =
     (if depth < 2 then Inl OneHotDepth
      else Inr (map (\<lambda>i. map (\<lambda>j. if j = i then 1 else 0) [0..<depth]) indices))"

definition logSumExp :: "vec \<Rightarrow> real" where
  "logSumExp z = ln (sum_list (map exp z))"

text \<open>
  \<open>tf.losses.softmaxCrossEntropy(labels, logits)\<close> with its default arguments (no
  weights, no label smoothing, reduction by the number of rows): the shapes must match;
  the loss of a row is the sum over its columns of \<open>- label * (logit - logSumExp row)\<close>;
  the result is the sum of the row losses divided by their number.
\<close>

definition row_loss :: "vec \<Rightarrow> vec \<Rightarrow> real" where
  "row_loss l z = sum_list (map2 (\<lambda>li zi. - ((zi - logSumExp z) * li)) l z)"

definition tf_softmaxCrossEntropy :: "mat \<Rightarrow> mat \<Rightarrow> tf_error + real" where
  "tf_softmaxCrossEntropy labels logits =
     (if length labels = length logits \<and> list_all2 (\<lambda>l z. length l = length z) labels logits
      then Inr (sum_list (map2 row_loss labels logits) / real (length logits))
      else Inl ShapesMustMatch)"

text \<open>\<open>tf.dot(a, u)\<close> of a matrix and a vector: one dot product per row.\<close>

definition tf_dot :: "mat \<Rightarrow> vec \<Rightarrow> tf_error + vec" where
  "tf_dot a u =
     (if list_all (\<lambda>r. length r = length u) a then Inr (map (\<lambda>r. dot r u) a)
      else Inl InnerDimMismatch)"

text \<open>\<open>t.squeeze()\<close> of a one-row matrix drops every dimension of size 1.\<close>

definition squeeze_row :: "vec \<Rightarrow> tensor" where
  "squeeze_row r = (case r of [x] \<Rightarrow> Scalar x | _ \<Rightarrow> Vec r)"

subsection \<open>Gradients of the in-batch softmax loss\<close>

text \<open>
  \<open>optimizer.computeGradients(loss)\<close> evaluates the loss and differentiates it with
  respect to the trainable variables. The derivatives are written out here: the loss
  with respect to the logits, the product \<open>a b\<^sup>T\<close> with respect to both factors, and a
  gather with respect to its table (a sum of the gathered rows' gradients per index, so
  a row no index names has gradient zero).
\<close>

definition vadd :: "vec \<Rightarrow> vec \<Rightarrow> vec" where
  "vadd u v = map2 (+) u v"

definition vscale :: "real \<Rightarrow> vec \<Rightarrow> vec" where
  "vscale c v = map (\<lambda>x. c * x) v"

definition weighted_sum :: "nat \<Rightarrow> vec \<Rightarrow> mat \<Rightarrow> vec" where
  "weighted_sum d ws rows =
     foldr (\<lambda>(w, r) acc. vadd (vscale w r) acc) (zip ws rows) (replicate d 0)"

definition softmax :: "vec \<Rightarrow> vec" where
  "softmax z = map (\<lambda>x. exp (x - logSumExp z)) z"

definition grad_logits :: "mat \<Rightarrow> mat \<Rightarrow> mat" where
  "grad_logits labels logits =
     map2 (\<lambda>l z. map2 (\<lambda>li p. (p - li) / real (length logits)) l (softmax z)) labels logits"

definition grad_matMul_left :: "nat \<Rightarrow> mat \<Rightarrow> mat \<Rightarrow> mat" where
  "grad_matMul_left d dlogits b = map (\<lambda>row. weighted_sum d row b) dlogits"

definition grad_matMul_right :: "nat \<Rightarrow> mat \<Rightarrow> mat \<Rightarrow> mat" where
  "grad_matMul_right d dlogits a =
     map (\<lambda>j. weighted_sum d (map (\<lambda>row. row ! j) dlogits) a)
       [0..<(case dlogits of [] \<Rightarrow> 0 | row # _ \<Rightarrow> length row)]"

definition grad_gather :: "nat \<Rightarrow> nat \<Rightarrow> int list \<Rightarrow> mat \<Rightarrow> mat" where
  "grad_gather n d indices drows =
     map (\<lambda>r. foldr vadd (map snd (filter (\<lambda>(i, g). i = int r) (zip indices drows)))
                 (replicate d 0))
       [0..<n]"

subsection \<open>The Adam optimizer\<close>

text \<open>
  \<open>tf.train.adam(0.001)\<close>. The optimizer keeps, for every variable it has updated, the
  first and second moment of that variable's gradient, both starting as zeros of the
  variable's shape, and the running powers \<open>accBeta1\<close>, \<open>accBeta2\<close>. The library
  keeps the moments by the position of the variable among those that have a gradient;
  these are the same variables in the same order at every step of a model, and the
  moments are kept here under the variable's name. \<open>epsilon\<close> is the backend's.
\<close>

record adam =
  learningRate :: real
  beta1 :: real
  beta2 :: real
  epsilon :: real
  accBeta1 :: real
  accBeta2 :: real
  slots :: "string \<Rightarrow> (mat \<times> mat) option"

definition tf_train_adam :: "real \<Rightarrow> real \<Rightarrow> adam" where
  "tf_train_adam lr eps =
     \<lparr>learningRate = lr, beta1 = 9 / 10, beta2 = 999 / 1000, epsilon = eps,
      accBeta1 = 9 / 10, accBeta2 = 999 / 1000, slots = (\<lambda>name. None)\<rparr>"

definition zerosLike :: "mat \<Rightarrow> mat" where
  "zerosLike x = map (\<lambda>r. replicate (length r) 0) x"

definition newFirstMoment :: "adam \<Rightarrow> mat \<Rightarrow> mat \<Rightarrow> mat" where
  "newFirstMoment opt firstMoment gradient =
     map2 (map2 (\<lambda>m g. m * beta1 opt + g * (1 - beta1 opt))) firstMoment gradient"

definition newSecondMoment :: "adam \<Rightarrow> mat \<Rightarrow> mat \<Rightarrow> mat" where
  "newSecondMoment opt secondMoment gradient =
     map2 (map2 (\<lambda>v g. v * beta2 opt + g * g * (1 - beta2 opt))) secondMoment gradient"

definition adam_newValue_elem :: "adam \<Rightarrow> real \<Rightarrow> real \<Rightarrow> real \<Rightarrow> real" where
  "adam_newValue_elem opt x m v =
     (m / (1 - accBeta1 opt)) / (sqrt (v / (1 - accBeta2 opt)) + epsilon opt)
       * (- learningRate opt) + x"

definition adam_newValue :: "adam \<Rightarrow> mat \<Rightarrow> mat \<Rightarrow> mat \<Rightarrow> mat" where
  "adam_newValue opt x m v =
     map2 (\<lambda>xr (mr, vr). map2 (\<lambda>xe (me, ve). adam_newValue_elem opt xe me ve) xr (zip mr vr))
       x (zip m v)"

text \<open>One variable's share of \<open>applyGradients\<close>: the new value and the stored moments.\<close>

definition adam_apply_var :: "adam \<Rightarrow> string \<Rightarrow> mat \<Rightarrow> mat \<Rightarrow> mat \<times> adam" where
  "adam_apply_var opt name x gradient =
     (let (firstMoment, secondMoment) =
            (case slots opt name of None \<Rightarrow> (zerosLike x, zerosLike x) | Some s \<Rightarrow> s);
          m = newFirstMoment opt firstMoment gradient;
          v = newSecondMoment opt secondMoment gradient
      in (adam_newValue opt x m v, opt\<lparr>slots := (slots opt)(name \<mapsto> (m, v))\<rparr>))"

text \<open>After the last variable, the running powers advance.\<close>

definition adam_finish :: "adam \<Rightarrow> adam" where
  "adam_finish opt =
     opt\<lparr>accBeta1 := accBeta1 opt * beta1 opt, accBeta2 := accBeta2 opt * beta2 opt\<rparr>"

section \<open>BasicTwoTowerModel\<close>

record basic_model =
  numUsers :: nat
  numItems :: nat
  embeddingDim :: nat
  userEmbeddings :: mat
  itemEmbeddings :: mat
  optimizer :: adam

text \<open>
  The constructor. \<open>randomNormal name i j\<close> is the value drawn for entry \<open>(i, j)\<close> of
  the table called \<open>name\<close>; \<open>eps\<close> is the backend's epsilon.
\<close>

definition table_of :: "(nat \<Rightarrow> nat \<Rightarrow> real) \<Rightarrow> nat \<Rightarrow> nat \<Rightarrow> mat" where
  "table_of entry n d = map (\<lambda>i. map (\<lambda>j. entry i j) [0..<d]) [0..<n]"

definition BasicTwoTowerModel ::
  "(string \<Rightarrow> nat \<Rightarrow> nat \<Rightarrow> real) \<Rightarrow> real \<Rightarrow> nat \<Rightarrow> nat \<Rightarrow> nat \<Rightarrow> basic_model" where
  "BasicTwoTowerModel randomNormal eps nUsers nItems embDim =
     \<lparr>numUsers = nUsers, numItems = nItems, embeddingDim = embDim,
      userEmbeddings = table_of (randomNormal ''basic_user_embeddings'') nUsers embDim,
      itemEmbeddings = table_of (randomNormal ''basic_item_embeddings'') nItems embDim,
      optimizer = tf_train_adam (1 / 1000) eps\<rparr>"

definition basic_userForward :: "backend \<Rightarrow> basic_model \<Rightarrow> indices \<Rightarrow> tf_error + mat" where
  "basic_userForward be m userIndices =
     tf_gather be (embeddingDim m) (userEmbeddings m) userIndices"

definition basic_itemForward :: "backend \<Rightarrow> basic_model \<Rightarrow> indices \<Rightarrow> tf_error + mat" where
  "basic_itemForward be m itemIndices =
     tf_gather be (embeddingDim m) (itemEmbeddings m) itemIndices"

text \<open>
  The closure \<open>loss\<close> of \<open>trainStep\<close>, from the two towers' outputs on; \<open>batch\<close> is
  \<open>userIndices.length\<close>.
\<close>

definition in_batch_loss :: "nat \<Rightarrow> mat \<Rightarrow> mat \<Rightarrow> tf_error + real" where
  "in_batch_loss batch userEmbs itemEmbs =
     (case tf_matMul_transposeB userEmbs itemEmbs of
        Inl e \<Rightarrow> Inl e
      | Inr logits \<Rightarrow>
          (case tf_oneHot (tf_range 0 batch) batch of
             Inl e \<Rightarrow> Inl e
           | Inr labels \<Rightarrow> tf_softmaxCrossEntropy labels logits))"

text \<open>
  The closure \<open>loss\<close>: it reads the index tensors \<open>userTensor\<close> and \<open>itemTensor\<close> that
  \<open>trainStep\<close> has made of its arguments, and the length \<open>batch\<close> of \<open>userIndices\<close>.
\<close>

definition basic_loss ::
  "backend \<Rightarrow> basic_model \<Rightarrow> indices \<Rightarrow> indices \<Rightarrow> nat \<Rightarrow> tf_error + real" where
  "basic_loss be m userTensor itemTensor batch =
     (case basic_userForward be m userTensor of
        Inl e \<Rightarrow> Inl e
      | Inr userEmbs \<Rightarrow>
          (case basic_itemForward be m itemTensor of
             Inl e \<Rightarrow> Inl e
           | Inr itemEmbs \<Rightarrow> in_batch_loss batch userEmbs itemEmbs))"

text \<open>The gradient of the loss with respect to the two towers' outputs.\<close>

definition in_batch_grads :: "nat \<Rightarrow> nat \<Rightarrow> mat \<Rightarrow> mat \<Rightarrow> mat \<times> mat" where
  "in_batch_grads d batch userEmbs itemEmbs =
     (let logits = map (\<lambda>u. map (\<lambda>v. dot u v) itemEmbs) userEmbs;
          labels = map (\<lambda>i. map (\<lambda>j. if j = i then 1 else 0) [0..<batch]) [0..<batch];
          dlogits = grad_logits labels logits
      in (grad_matMul_left d dlogits itemEmbs, grad_matMul_right d dlogits userEmbs))"

definition basic_grads ::
  "backend \<Rightarrow> basic_model \<Rightarrow> indices \<Rightarrow> indices \<Rightarrow> nat \<Rightarrow> mat \<times> mat" where
  "basic_grads be m userTensor itemTensor batch =
     (case (basic_userForward be m userTensor, basic_itemForward be m itemTensor) of
        (Inr userEmbs, Inr itemEmbs) \<Rightarrow>
          (let (dU, dI) = in_batch_grads (embeddingDim m) batch userEmbs itemEmbs
           in (grad_gather (length (userEmbeddings m)) (embeddingDim m)
                 (index_values userTensor) dU,
               grad_gather (length (itemEmbeddings m)) (embeddingDim m)
                 (index_values itemTensor) dI))
      | _ \<Rightarrow> (zerosLike (userEmbeddings m), zerosLike (itemEmbeddings m)))"

definition basic_applyGradients :: "basic_model \<Rightarrow> mat \<times> mat \<Rightarrow> basic_model" where
  "basic_applyGradients m grads =
     (let (u, opt1) = adam_apply_var (optimizer m) ''basic_user_embeddings''
                        (userEmbeddings m) (fst grads);
          (i, opt2) = adam_apply_var opt1 ''basic_item_embeddings''
                        (itemEmbeddings m) (snd grads)
      in m\<lparr>userEmbeddings := u, itemEmbeddings := i, optimizer := adam_finish opt2\<rparr>)"

text \<open>
  \<open>trainStep(userIndices, itemIndices)\<close>: the result (the loss value, or the error raised
  while computing it) and the model after the call. The two arrays are made into int32
  tensors first. When the loss raises, \<open>applyGradients\<close> is not reached.
\<close>

definition basic_trainStep ::
  "backend \<Rightarrow> basic_model \<Rightarrow> int list \<Rightarrow> int list \<Rightarrow> (tf_error + real) \<times> basic_model" where
  "basic_trainStep be m userIndices itemIndices =
     (let userTensor = tf_tensor1d_int32 userIndices;
          itemTensor = tf_tensor1d_int32 itemIndices
      in case basic_loss be m userTensor itemTensor (length userIndices) of
           Inl e \<Rightarrow> (Inl e, m)
         | Inr value \<Rightarrow>
             (Inr value,
              basic_applyGradients m
                (basic_grads be m userTensor itemTensor (length userIndices))))"

text \<open>\<open>getUserEmbedding(userIndex)\<close> hands \<open>userForward\<close> the array \<open>[userIndex]\<close>.\<close>

definition basic_getUserEmbedding ::
  "backend \<Rightarrow> basic_model \<Rightarrow> int \<Rightarrow> (tf_error + tensor) \<times> basic_model" where
  "basic_getUserEmbedding be m userIndex =
     (case basic_userForward be m (JsArray [userIndex]) of
        Inl e \<Rightarrow> (Inl e, m)
      | Inr rows \<Rightarrow> (Inr (squeeze_row (concat rows)), m))"

definition basic_getScoresForAllItems ::
  "basic_model \<Rightarrow> vec \<Rightarrow> (tf_error + vec) \<times> basic_model" where
  "basic_getScoresForAllItems m userEmbedding =
     (tf_dot (itemEmbeddings m) userEmbedding, m)"

section \<open>DeepTwoTowerModel\<close>

subsection \<open>Dense layers\<close>

text \<open>
  \<open>tf.layers.dense({units, activation, useBias, kernelInitializer})\<close> fixes a layer's
  configuration. The constructor call names no input width: the layer creates its
  weights the first time it is applied, a kernel of shape \<open>[input width, units]\<close> drawn
  by the kernel initializer and, when \<open>useBias\<close> is set, a bias of \<open>units\<close> zeros (the
  default bias initializer). Until then \<open>weights\<close> is \<open>None\<close>.
\<close>

datatype activation = Relu | Linear

datatype initializer = GlorotNormal | Zeros

record dense_weights =
  kernel :: mat
  bias :: vec

record dense =
  layerName :: string
  units :: nat
  activation :: activation
  useBias :: bool
  kernelInitializer :: initializer
  weights :: "dense_weights option"

definition tf_layers_dense :: "string \<Rightarrow> nat \<Rightarrow> activation \<Rightarrow> bool \<Rightarrow> initializer \<Rightarrow> dense" where
  "tf_layers_dense name n act b init =
     \<lparr>layerName = name, units = n, activation = act, useBias = b,
      kernelInitializer = init, weights = None\<rparr>"

text \<open>
  \<open>draw init name i j\<close> is the value the initializer \<open>init\<close> draws for entry \<open>(i, j)\<close>
  of the kernel of the layer called \<open>name\<close>.
\<close>

type_synonym draws = "initializer \<Rightarrow> string \<Rightarrow> nat \<Rightarrow> nat \<Rightarrow> real"

definition build :: "draws \<Rightarrow> dense \<Rightarrow> nat \<Rightarrow> dense_weights" where
  "build draw l inputDim =
     \<lparr>kernel = table_of (draw (kernelInitializer l) (layerName l)) inputDim (units l),
      bias = replicate (units l) 0\<rparr>"

definition activate :: "activation \<Rightarrow> vec \<Rightarrow> vec" where
  "activate act z = (case act of Relu \<Rightarrow> map (\<lambda>x. max 0 x) z | Linear \<Rightarrow> z)"

text \<open>The value before the activation: \<open>row \<cdot> kernel + bias\<close>.\<close>

definition preactivation :: "dense \<Rightarrow> dense_weights \<Rightarrow> vec \<Rightarrow> vec" where
  "preactivation l w row =
     (let z = weighted_sum (units l) row (kernel w)
      in if useBias l then vadd z (bias w) else z)"

definition dense_call :: "dense \<Rightarrow> dense_weights \<Rightarrow> mat \<Rightarrow> mat" where
  "dense_call l w x = map (\<lambda>row. activate (activation l) (preactivation l w row)) x"

text \<open>
  \<open>layer.apply(x)\<close>, for an input whose last dimension is \<open>inputDim\<close>: builds the layer
  if it has no weights yet; rejects an input whose width is not the kernel's number of
  rows. Returns the result and the layer after the call.
\<close>

definition weights_or_build :: "draws \<Rightarrow> dense \<Rightarrow> nat \<Rightarrow> dense_weights" where
  "weights_or_build draw l inputDim =
     (case weights l of None \<Rightarrow> build draw l inputDim | Some w \<Rightarrow> w)"

definition dense_apply ::
  "draws \<Rightarrow> dense \<Rightarrow> nat \<Rightarrow> mat \<Rightarrow> (tf_error + mat) \<times> dense" where
  "dense_apply draw l inputDim x =
     (let w = weights_or_build draw l inputDim;
          l' = l\<lparr>weights := Some w\<rparr>
      in if inputDim = length (kernel w) \<and> list_all (\<lambda>row. length row = length (kernel w)) x
         then (Inr (dense_call l w x), l')
         else (Inl InputIncompatible, l'))"

text \<open>
  The derivatives of a layer's output with respect to its kernel, its bias and its
  input, given the derivative \<open>dy\<close> of the loss with respect to the output. The
  derivative of ReLU passes \<open>dy\<close> where the value before the activation is positive.
\<close>

definition grad_activation :: "activation \<Rightarrow> vec \<Rightarrow> vec \<Rightarrow> vec" where
  "grad_activation act z dy =
     (case act of Relu \<Rightarrow> map2 (\<lambda>zi di. if 0 < zi then di else 0) z dy | Linear \<Rightarrow> dy)"

definition grad_preactivation :: "dense \<Rightarrow> dense_weights \<Rightarrow> mat \<Rightarrow> mat \<Rightarrow> mat" where
  "grad_preactivation l w x dy =
     map2 (\<lambda>row d. grad_activation (activation l) (preactivation l w row) d) x dy"

definition grad_kernel :: "dense \<Rightarrow> dense_weights \<Rightarrow> mat \<Rightarrow> mat \<Rightarrow> mat" where
  "grad_kernel l w x dy =
     (let dz = grad_preactivation l w x dy
      in map (\<lambda>k. weighted_sum (units l) (map (\<lambda>row. row ! k) x) dz)
           [0..<length (kernel w)])"

definition grad_bias :: "dense \<Rightarrow> dense_weights \<Rightarrow> mat \<Rightarrow> mat \<Rightarrow> vec" where
  "grad_bias l w x dy =
     foldr vadd (grad_preactivation l w x dy) (replicate (units l) 0)"

definition grad_input :: "dense \<Rightarrow> dense_weights \<Rightarrow> mat \<Rightarrow> mat \<Rightarrow> mat" where
  "grad_input l w x dy =
     map (\<lambda>d. map (\<lambda>krow. dot d krow) (kernel w)) (grad_preactivation l w x dy)"

subsection \<open>The model\<close>

record deep_model =
  d_numUsers :: nat
  d_numItems :: nat
  d_embeddingDim :: nat
  numGenres :: nat
  d_userEmbeddings :: mat
  d_itemEmbeddings :: mat
  userHiddenLayer :: dense
  userOutputLayer :: dense
  itemHiddenLayer :: dense
  itemOutputLayer :: dense
  d_optimizer :: adam

text \<open>
  The constructor. The library names the dense layers in the order of their creation.
\<close>

definition DeepTwoTowerModel ::
  "(string \<Rightarrow> nat \<Rightarrow> nat \<Rightarrow> real) \<Rightarrow> real \<Rightarrow> nat \<Rightarrow> nat \<Rightarrow> nat \<Rightarrow> nat \<Rightarrow> deep_model" where
  "DeepTwoTowerModel randomNormal eps nUsers nItems embDim nGenres =
     \<lparr>d_numUsers = nUsers, d_numItems = nItems, d_embeddingDim = embDim,
      numGenres = nGenres,
      d_userEmbeddings = table_of (randomNormal ''deep_user_embeddings'') nUsers embDim,
      d_itemEmbeddings = table_of (randomNormal ''deep_item_embeddings'') nItems embDim,
      userHiddenLayer = tf_layers_dense ''dense_Dense1'' (embDim * 2) Relu True GlorotNormal,
      userOutputLayer = tf_layers_dense ''dense_Dense2'' embDim Linear True GlorotNormal,
      itemHiddenLayer = tf_layers_dense ''dense_Dense3'' (embDim * 2) Relu True GlorotNormal,
      itemOutputLayer = tf_layers_dense ''dense_Dense4'' embDim Linear True GlorotNormal,
      d_optimizer = tf_train_adam (1 / 1000) eps\<rparr>"

text \<open>
  \<open>tf.tensor2d(values, [rows, cols])\<close> of an array of arrays; \<open>rows\<close> is \<open>None\<close> when
  the expression given for it is \<open>undefined\<close>, and such a shape is rejected. Otherwise
  the shape read off the values, their number and the length of the first of them, must
  be the shape given; the lengths of the other rows are not looked at. An empty array
  fits every shape without entries. The tensor holds the values of all the rows, one row
  after the other, and reads them back \<open>cols\<close> at a time. (Where the values run out
  before the shape is filled, the library reads NaN; the reals have no NaN, and the
  missing entries are 0 here.)
\<close>

fun rows_of :: "nat \<Rightarrow> nat \<Rightarrow> vec \<Rightarrow> mat" where
  "rows_of 0 cols flat = []"
| "rows_of (Suc n) cols flat =
     (take cols flat @ replicate (cols - length flat) 0) # rows_of n cols (drop cols flat)"

definition tf_tensor2d :: "mat \<Rightarrow> nat option \<Rightarrow> nat \<Rightarrow> tf_error + mat" where
  "tf_tensor2d values rows cols =
     (case rows of
        None \<Rightarrow> Inl ShapeNotIntegers
      | Some n \<Rightarrow>
          (case values of
             [] \<Rightarrow> if n * cols = 0 then Inr (replicate n []) else Inl InferredShapeMismatch
           | first # _ \<Rightarrow>
               if length values = n \<and> length first = cols
               then Inr (rows_of n cols (concat values)) else Inl InferredShapeMismatch))"

text \<open>\<open>tf.concat([a, b], 1)\<close>: the rows of \<open>a\<close> followed, row by row, by those of
  \<open>b\<close>.\<close>

definition tf_concat1 :: "mat \<Rightarrow> mat \<Rightarrow> tf_error + mat" where
  "tf_concat1 a b =
     (if length a = length b then Inr (map2 (@) a b) else Inl ShapesMustMatch)"

text \<open>
  \<open>userForward(userIndices)\<close>: the result and the model after the call (a layer applied
  for the first time has been built).
\<close>

definition userForward ::
  "backend \<Rightarrow> draws \<Rightarrow> deep_model \<Rightarrow> indices \<Rightarrow> (tf_error + mat) \<times> deep_model" where
  "userForward be draw m userIndices =
     (case tf_gather be (d_embeddingDim m) (d_userEmbeddings m) userIndices of
        Inl e \<Rightarrow> (Inl e, m)
      | Inr userEmbs \<Rightarrow>
          (case dense_apply draw (userHiddenLayer m) (d_embeddingDim m) userEmbs of
             (Inl e, h) \<Rightarrow> (Inl e, m\<lparr>userHiddenLayer := h\<rparr>)
           | (Inr hidden, h) \<Rightarrow>
               (case dense_apply draw (userOutputLayer m) (units h) hidden of
                  (r, out) \<Rightarrow> (r, m\<lparr>userHiddenLayer := h, userOutputLayer := out\<rparr>))))"

text \<open>
  \<open>itemForward(itemIndices, genreFeatures)\<close>. The number of rows of the genre tensor
  is \<open>itemIndices.length\<close>.
\<close>

definition itemForward ::
  "backend \<Rightarrow> draws \<Rightarrow> deep_model \<Rightarrow> indices \<Rightarrow> mat \<Rightarrow> (tf_error + mat) \<times> deep_model" where
  "itemForward be draw m itemIndices genreFeatures =
     (case tf_gather be (d_embeddingDim m) (d_itemEmbeddings m) itemIndices of
        Inl e \<Rightarrow> (Inl e, m)
      | Inr itemEmbs \<Rightarrow>
          (case tf_tensor2d genreFeatures (js_length itemIndices) (numGenres m) of
             Inl e \<Rightarrow> (Inl e, m)
           | Inr genreTensor \<Rightarrow>
               (case tf_concat1 itemEmbs genreTensor of
                  Inl e \<Rightarrow> (Inl e, m)
                | Inr combined \<Rightarrow>
                    (case dense_apply draw (itemHiddenLayer m)
                            (d_embeddingDim m + numGenres m) combined of
                       (Inl e, h) \<Rightarrow> (Inl e, m\<lparr>itemHiddenLayer := h\<rparr>)
                     | (Inr hidden, h) \<Rightarrow>
                         (case dense_apply draw (itemOutputLayer m) (units h) hidden of
                            (r, out) \<Rightarrow>
                              (r, m\<lparr>itemHiddenLayer := h, itemOutputLayer := out\<rparr>))))))"

text \<open>
  The closure \<open>loss\<close> of \<open>trainStep\<close>: its value and the model after running it. It
  hands the towers the index tensors \<open>userTensor\<close> and \<open>itemTensor\<close> that \<open>trainStep\<close>
  has made of its arguments; \<open>batch\<close> is \<open>userIndices.length\<close>.
\<close>

definition deep_loss ::
  "backend \<Rightarrow> draws \<Rightarrow> deep_model \<Rightarrow> indices \<Rightarrow> indices \<Rightarrow> nat \<Rightarrow> mat
     \<Rightarrow> (tf_error + real) \<times> deep_model" where
  "deep_loss be draw m userTensor itemTensor batch genreFeatures =
     (case userForward be draw m userTensor of
        (Inl e, m1) \<Rightarrow> (Inl e, m1)
      | (Inr userEmbs, m1) \<Rightarrow>
          (case itemForward be draw m1 itemTensor genreFeatures of
             (Inl e, m2) \<Rightarrow> (Inl e, m2)
           | (Inr itemEmbs, m2) \<Rightarrow> (in_batch_loss batch userEmbs itemEmbs, m2)))"

text \<open>
  The gradients of the loss with respect to a tower's two layers and its input, given
  the gradient \<open>dy\<close> with respect to the tower's output.
\<close>

definition tower_call :: "dense \<Rightarrow> dense \<Rightarrow> mat \<Rightarrow> mat" where
  "tower_call h out x =
     (case (weights h, weights out) of
        (Some wh, Some wo) \<Rightarrow> dense_call out wo (dense_call h wh x)
      | _ \<Rightarrow> [])"

record tower_grads =
  g_hiddenKernel :: mat
  g_hiddenBias :: vec
  g_outputKernel :: mat
  g_outputBias :: vec
  g_input :: mat

definition tower_backward :: "dense \<Rightarrow> dense \<Rightarrow> mat \<Rightarrow> mat \<Rightarrow> tower_grads" where
  "tower_backward h out x dy =
     (case (weights h, weights out) of
        (Some wh, Some wo) \<Rightarrow>
          (let hidden = dense_call h wh x;
               dhidden = grad_input out wo hidden dy
           in \<lparr>g_hiddenKernel = grad_kernel h wh x dhidden,
               g_hiddenBias = grad_bias h wh x dhidden,
               g_outputKernel = grad_kernel out wo hidden dy,
               g_outputBias = grad_bias out wo hidden dy,
               g_input = grad_input h wh x dhidden\<rparr>)
      | _ \<Rightarrow> \<lparr>g_hiddenKernel = [], g_hiddenBias = [], g_outputKernel = [],
              g_outputBias = [], g_input = []\<rparr>)"

record deep_grads =
  g_userEmbeddings :: mat
  g_itemEmbeddings :: mat
  g_userTower :: tower_grads
  g_itemTower :: tower_grads

text \<open>
  The gradients of \<open>loss\<close> at a model whose layers \<open>loss\<close> has built, computed from
  the same forward pass. The gradient with respect to an embedding table is the
  gather's: the gradient of the tower's input (for the item tower its first
  \<open>embeddingDim\<close> columns, the rest belonging to the genre features) summed per index.
\<close>

definition deep_grads ::
  "backend \<Rightarrow> deep_model \<Rightarrow> indices \<Rightarrow> indices \<Rightarrow> nat \<Rightarrow> mat \<Rightarrow> deep_grads" where
  "deep_grads be m userTensor itemTensor batch genreFeatures =
     (let d = d_embeddingDim m;
          userEmbs = (case tf_gather be d (d_userEmbeddings m) userTensor of
                        Inl e \<Rightarrow> [] | Inr x \<Rightarrow> x);
          itemEmbs = (case tf_gather be d (d_itemEmbeddings m) itemTensor of
                        Inl e \<Rightarrow> [] | Inr x \<Rightarrow> x);
          genreTensor = (case tf_tensor2d genreFeatures (js_length itemTensor) (numGenres m) of
                           Inl e \<Rightarrow> [] | Inr x \<Rightarrow> x);
          combined = map2 (@) itemEmbs genreTensor;
          (dU, dI) = in_batch_grads d batch
                       (tower_call (userHiddenLayer m) (userOutputLayer m) userEmbs)
                       (tower_call (itemHiddenLayer m) (itemOutputLayer m) combined);
          gu = tower_backward (userHiddenLayer m) (userOutputLayer m) userEmbs dU;
          gi = tower_backward (itemHiddenLayer m) (itemOutputLayer m) combined dI
      in \<lparr>g_userEmbeddings =
            grad_gather (length (d_userEmbeddings m)) d (index_values userTensor) (g_input gu),
          g_itemEmbeddings =
            grad_gather (length (d_itemEmbeddings m)) d (index_values itemTensor)
              (map (take d) (g_input gi)),
          g_userTower = gu, g_itemTower = gi\<rparr>)"

text \<open>
  \<open>computeGradients\<close> lists the trainable variables before it runs \<open>loss\<close>, so a layer
  that \<open>loss\<close> builds in this very step is not among them and keeps the weights it was
  built with; \<open>before\<close> is the layer as it was when the step began.
\<close>

definition train_layer :: "adam \<Rightarrow> dense \<Rightarrow> dense \<Rightarrow> mat \<Rightarrow> vec \<Rightarrow> dense \<times> adam" where
  "train_layer opt before l gKernel gBias =
     (case (weights before, weights l) of
        (Some w0, Some w) \<Rightarrow>
          (let (k, opt1) = adam_apply_var opt (layerName l @ ''/kernel'') (kernel w) gKernel;
               (b, opt2) = (if useBias l
                            then adam_apply_var opt1 (layerName l @ ''/bias'') [bias w] [gBias]
                            else ([bias w], opt1))
           in (l\<lparr>weights := Some \<lparr>kernel = k, bias = concat b\<rparr>\<rparr>, opt2))
      | _ \<Rightarrow> (l, opt))"

definition deep_applyGradients :: "deep_model \<Rightarrow> deep_model \<Rightarrow> deep_grads \<Rightarrow> deep_model" where
  "deep_applyGradients m0 m g =
     (let (u, opt1) = adam_apply_var (d_optimizer m) ''deep_user_embeddings''
                        (d_userEmbeddings m) (g_userEmbeddings g);
          (i, opt2) = adam_apply_var opt1 ''deep_item_embeddings''
                        (d_itemEmbeddings m) (g_itemEmbeddings g);
          (uh, opt3) = train_layer opt2 (userHiddenLayer m0) (userHiddenLayer m)
                         (g_hiddenKernel (g_userTower g)) (g_hiddenBias (g_userTower g));
          (uo, opt4) = train_layer opt3 (userOutputLayer m0) (userOutputLayer m)
                         (g_outputKernel (g_userTower g)) (g_outputBias (g_userTower g));
          (ih, opt5) = train_layer opt4 (itemHiddenLayer m0) (itemHiddenLayer m)
                         (g_hiddenKernel (g_itemTower g)) (g_hiddenBias (g_itemTower g));
          (io, opt6) = train_layer opt5 (itemOutputLayer m0) (itemOutputLayer m)
                         (g_outputKernel (g_itemTower g)) (g_outputBias (g_itemTower g))
      in m\<lparr>d_userEmbeddings := u, d_itemEmbeddings := i,
           userHiddenLayer := uh, userOutputLayer := uo,
           itemHiddenLayer := ih, itemOutputLayer := io,
           d_optimizer := adam_finish opt6\<rparr>)"

text \<open>
  \<open>trainStep(userIndices, itemIndices, genreFeatures)\<close>: the result and the model after
  the call. The two index arrays are made into int32 tensors first. When the loss
  raises, \<open>applyGradients\<close> is not reached.
\<close>

definition deep_trainStep ::
  "backend \<Rightarrow> draws \<Rightarrow> deep_model \<Rightarrow> int list \<Rightarrow> int list \<Rightarrow> mat
     \<Rightarrow> (tf_error + real) \<times> deep_model" where
  "deep_trainStep be draw m userIndices itemIndices genreFeatures =
     (let userTensor = tf_tensor1d_int32 userIndices;
          itemTensor = tf_tensor1d_int32 itemIndices
      in case deep_loss be draw m userTensor itemTensor (length userIndices) genreFeatures of
           (Inl e, m2) \<Rightarrow> (Inl e, m2)
         | (Inr value, m2) \<Rightarrow>
             (Inr value,
              deep_applyGradients m m2
                (deep_grads be m2 userTensor itemTensor (length userIndices) genreFeatures)))"

text \<open>\<open>getUserEmbedding(userIndex)\<close> hands \<open>userForward\<close> the array \<open>[userIndex]\<close>.\<close>

definition deep_getUserEmbedding ::
  "backend \<Rightarrow> draws \<Rightarrow> deep_model \<Rightarrow> int \<Rightarrow> (tf_error + tensor) \<times> deep_model" where
  "deep_getUserEmbedding be draw m userIndex =
     (case userForward be draw m (JsArray [userIndex]) of
        (Inl e, m1) \<Rightarrow> (Inl e, m1)
      | (Inr rows, m1) \<Rightarrow> (Inr (squeeze_row (concat rows)), m1))"

text \<open>
  The loop of \<open>getScoresForAllItems\<close>, for a chunk size \<open>batchSize\<close> (the source fixes
  it at 100; it is positive): \<open>i\<close> is the loop counter and \<open>allScores\<close> the scores
  pushed so far. The item tower is handed the array \<open>batchIndices\<close>.
\<close>

function scoreBatches ::
  "backend \<Rightarrow> draws \<Rightarrow> vec \<Rightarrow> nat \<Rightarrow> nat \<Rightarrow> nat \<Rightarrow> vec \<Rightarrow> deep_model
     \<Rightarrow> (tf_error + vec) \<times> deep_model" where
  "scoreBatches be draw userEmbedding batchSize numBatches i allScores m =
     (if i < numBatches then
        (let start = i * batchSize;
             end = min (start + batchSize) (d_numItems m);
             batchIndices = map (\<lambda>j. int (start + j)) [0..<end - start];
             batchGenreFeatures = map (\<lambda>x. replicate (numGenres m) 0) batchIndices
         in case itemForward be draw m (JsArray batchIndices) batchGenreFeatures of
              (Inl e, m1) \<Rightarrow> (Inl e, m1)
            | (Inr batchItemEmbs, m1) \<Rightarrow>
                (case tf_dot batchItemEmbs userEmbedding of
                   Inl e \<Rightarrow> (Inl e, m1)
                 | Inr batchScores \<Rightarrow>
                     scoreBatches be draw userEmbedding batchSize numBatches (Suc i)
                       (allScores @ batchScores) m1))
      else (Inr allScores, m))"
  by pat_completeness auto
termination
  by (relation "measure (\<lambda>(be, draw, u, batchSize, numBatches, i, allScores, m). numBatches - i)")
     auto

declare scoreBatches.simps [simp del]

text \<open>\<open>Math.ceil(n / batchSize)\<close> for a positive \<open>batchSize\<close>.\<close>

definition ceil_div :: "nat \<Rightarrow> nat \<Rightarrow> nat" where
  "ceil_div n batchSize = (n + batchSize - 1) div batchSize"

definition scoresInBatchesOf ::
  "nat \<Rightarrow> backend \<Rightarrow> draws \<Rightarrow> deep_model \<Rightarrow> vec \<Rightarrow> (tf_error + vec) \<times> deep_model" where
  "scoresInBatchesOf batchSize be draw m userEmbedding =
     scoreBatches be draw userEmbedding batchSize (ceil_div (d_numItems m) batchSize) 0 [] m"

definition deep_getScoresForAllItems ::
  "backend \<Rightarrow> draws \<Rightarrow> deep_model \<Rightarrow> vec \<Rightarrow> (tf_error + vec) \<times> deep_model" where
  "deep_getScoresForAllItems be draw m userEmbedding =
     scoresInBatchesOf 100 be draw m userEmbedding"

section \<open>Well-formed models and the vocabulary of the specification\<close>

text \<open>A table of \<open>n\<close> rows, each of width \<open>d\<close>.\<close>

definition has_shape :: "mat \<Rightarrow> nat \<Rightarrow> nat \<Rightarrow> bool" where
  "has_shape x n d = (length x = n \<and> list_all (\<lambda>r. length r = d) x)"

text \<open>The moments the optimizer keeps under \<open>name\<close>, if any, have the variable's shape.\<close>

definition slot_shape :: "adam \<Rightarrow> string \<Rightarrow> nat \<Rightarrow> nat \<Rightarrow> bool" where
  "slot_shape opt name n d =
     (case slots opt name of
        None \<Rightarrow> True
      | Some (m, v) \<Rightarrow> has_shape m n d \<and> has_shape v n d)"

definition wf_basic :: "basic_model \<Rightarrow> bool" where
  "wf_basic m =
     (has_shape (userEmbeddings m) (numUsers m) (embeddingDim m)
      \<and> has_shape (itemEmbeddings m) (numItems m) (embeddingDim m)
      \<and> slot_shape (optimizer m) ''basic_user_embeddings'' (numUsers m) (embeddingDim m)
      \<and> slot_shape (optimizer m) ''basic_item_embeddings'' (numItems m) (embeddingDim m))"

text \<open>
  The softmax cross-entropy of a row of logits against the one-hot label at column
  \<open>i\<close>, and its mean over the rows of a square matrix of logits with row \<open>i\<close> labelled
  at column \<open>i\<close>.
\<close>

definition cross_entropy_onehot :: "vec \<Rightarrow> nat \<Rightarrow> real" where
  "cross_entropy_onehot z i = - ln (exp (z ! i) / sum_list (map exp z))"

definition mean_diagonal_cross_entropy :: "mat \<Rightarrow> real" where
  "mean_diagonal_cross_entropy logits =
     sum_list (map (\<lambda>i. cross_entropy_onehot (logits ! i) i) [0..<length logits])
       / real (length logits)"

text \<open>
  A layer's weights, once built for inputs of width \<open>inputDim\<close>, have the shapes
  \<open>[inputDim, units]\<close> and \<open>[units]\<close>.
\<close>

definition wf_layer :: "dense \<Rightarrow> nat \<Rightarrow> bool" where
  "wf_layer l inputDim =
     (case weights l of
        None \<Rightarrow> True
      | Some w \<Rightarrow> has_shape (kernel w) inputDim (units l) \<and> length (bias w) = units l)"

text \<open>The configuration the constructor gives a layer never changes.\<close>

definition configured :: "dense \<Rightarrow> string \<Rightarrow> nat \<Rightarrow> activation \<Rightarrow> bool" where
  "configured l name n act =
     (layerName l = name \<and> units l = n \<and> activation l = act \<and> useBias l
      \<and> kernelInitializer l = GlorotNormal)"

text \<open>
  A well-formed deep model: the tables have the shapes the constructor gave them, the
  layers their configuration, and the weights of a built layer their shapes. The item
  table has at most \<open>2\<^sup>3\<^sup>1\<close> rows, so that every one of its rows has an int32 index
  (\<open>getScoresForAllItems\<close> names the rows by the indices from 0 to \<open>numItems - 1\<close>, and
  the gather reads them as int32 numbers).
\<close>

definition wf_deep :: "deep_model \<Rightarrow> bool" where
  "wf_deep m =
     (has_shape (d_userEmbeddings m) (d_numUsers m) (d_embeddingDim m)
      \<and> has_shape (d_itemEmbeddings m) (d_numItems m) (d_embeddingDim m)
      \<and> d_numItems m \<le> 2147483648
      \<and> configured (userHiddenLayer m) ''dense_Dense1'' (d_embeddingDim m * 2) Relu
      \<and> configured (userOutputLayer m) ''dense_Dense2'' (d_embeddingDim m) Linear
      \<and> configured (itemHiddenLayer m) ''dense_Dense3'' (d_embeddingDim m * 2) Relu
      \<and> configured (itemOutputLayer m) ''dense_Dense4'' (d_embeddingDim m) Linear
      \<and> wf_layer (userHiddenLayer m) (d_embeddingDim m)
      \<and> wf_layer (userOutputLayer m) (d_embeddingDim m * 2)
      \<and> wf_layer (itemHiddenLayer m) (d_embeddingDim m + numGenres m)
      \<and> wf_layer (itemOutputLayer m) (d_embeddingDim m * 2))"

text \<open>A layer after its first application to inputs of width \<open>inputDim\<close>.\<close>

definition built :: "draws \<Rightarrow> dense \<Rightarrow> nat \<Rightarrow> dense" where
  "built draw l inputDim = l\<lparr>weights := Some (weights_or_build draw l inputDim)\<rparr>"

definition user_layers_built :: "draws \<Rightarrow> deep_model \<Rightarrow> deep_model" where
  "user_layers_built draw m =
     m\<lparr>userHiddenLayer := built draw (userHiddenLayer m) (d_embeddingDim m),
       userOutputLayer := built draw (userOutputLayer m) (units (userHiddenLayer m))\<rparr>"

definition item_layers_built :: "draws \<Rightarrow> deep_model \<Rightarrow> deep_model" where
  "item_layers_built draw m =
     m\<lparr>itemHiddenLayer := built draw (itemHiddenLayer m) (d_embeddingDim m + numGenres m),
       itemOutputLayer := built draw (itemOutputLayer m) (units (itemHiddenLayer m))\<rparr>"

text \<open>
  One row through a tower: the hidden layer, then the output layer, each computing
  \<open>activation (row \<cdot> kernel + bias)\<close>.
\<close>

definition layer_row :: "dense \<Rightarrow> vec \<Rightarrow> vec" where
  "layer_row l row =
     (case weights l of
        None \<Rightarrow> []
      | Some w \<Rightarrow> activate (activation l) (vadd (weighted_sum (units l) row (kernel w)) (bias w)))"

definition user_tower_row :: "draws \<Rightarrow> deep_model \<Rightarrow> vec \<Rightarrow> vec" where
  "user_tower_row draw m row =
     layer_row (userOutputLayer (user_layers_built draw m))
       (layer_row (userHiddenLayer (user_layers_built draw m)) row)"

definition item_tower_row :: "draws \<Rightarrow> deep_model \<Rightarrow> vec \<Rightarrow> vec \<Rightarrow> vec" where
  "item_tower_row draw m row genres =
     layer_row (itemOutputLayer (item_layers_built draw m))
       (layer_row (itemHiddenLayer (item_layers_built draw m)) (row @ genres))"

text \<open>
  What a gather reads at int32 indices when it does not raise, and when it does not
  raise: always on the WebGL backend, and on the CPU backend when every index is inside
  the table.
\<close>

definition read_rows :: "nat \<Rightarrow> mat \<Rightarrow> int list \<Rightarrow> mat" where
  "read_rows d table indices =
     map (\<lambda>i. if in_table table i then table ! nat i else replicate d 0) indices"

definition gather_ok :: "backend \<Rightarrow> mat \<Rightarrow> int list \<Rightarrow> bool" where
  "gather_ok be table indices = (be = Webgl \<or> list_all (in_table table) indices)"

section \<open>Example models\<close>

text \<open>
  A model of three users and four items with embeddings of width two, as the constructor
  builds it from fixed draws, and its deep counterpart with 19 genres.
\<close>

definition example_randomNormal :: "string \<Rightarrow> nat \<Rightarrow> nat \<Rightarrow> real" where
  "example_randomNormal name i j = (real i + 1) * (real j + 2) / 100"

definition example_draw :: draws where
  "example_draw init name i j = (real i - real j) / 10"

definition example_basic :: basic_model where
  "example_basic = BasicTwoTowerModel example_randomNormal (1 / 10000000) 3 4 2"

definition example_deep :: deep_model where
  "example_deep = DeepTwoTowerModel example_randomNormal (1 / 10000000) 3 4 2 19"

section \<open>Parameters that a call leaves alone\<close>

text \<open>
  A call keeps a layer that takes inputs of width \<open>inputDim\<close> when the layer is the
  same afterwards, or is the layer built (\<open>built draw l inputDim\<close> is \<open>l\<close> itself when
  \<open>l\<close> has weights, and \<open>l\<close> with the weights the initializer draws when it has
  none). A call keeps the parameters of a deep model when it keeps the four layers and
  every other field is the same afterwards: both embedding tables, the optimizer with
  its moments, and the sizes.
\<close>

definition layer_kept :: "draws \<Rightarrow> nat \<Rightarrow> dense \<Rightarrow> dense \<Rightarrow> bool" where
  "layer_kept draw inputDim l l' = (l' = l \<or> l' = built draw l inputDim)"

definition params_kept :: "draws \<Rightarrow> deep_model \<Rightarrow> deep_model \<Rightarrow> bool" where
  "params_kept draw m m' =
     (layer_kept draw (d_embeddingDim m) (userHiddenLayer m) (userHiddenLayer m')
      \<and> layer_kept draw (units (userHiddenLayer m)) (userOutputLayer m) (userOutputLayer m')
      \<and> layer_kept draw (d_embeddingDim m + numGenres m) (itemHiddenLayer m)
            (itemHiddenLayer m')
      \<and> layer_kept draw (units (itemHiddenLayer m)) (itemOutputLayer m) (itemOutputLayer m')
      \<and> m'\<lparr>userHiddenLayer := userHiddenLayer m, userOutputLayer := userOutputLayer m,
            itemHiddenLayer := itemHiddenLayer m, itemOutputLayer := itemOutputLayer m\<rparr> = m)"

definition all_built :: "deep_model \<Rightarrow> bool" where
  "all_built m =
     (weights (userHiddenLayer m) \<noteq> None \<and> weights (userOutputLayer m) \<noteq> None
      \<and> weights (itemHiddenLayer m) \<noteq> None \<and> weights (itemOutputLayer m) \<noteq> None)"

text \<open>
  A batch the tensor library rejects while the loss is computed: an empty batch, lists
  of different lengths, or an index whose int32 value is outside its table on a backend
  that checks.
\<close>

definition rejected_batch :: "backend \<Rightarrow> mat \<Rightarrow> mat \<Rightarrow> int list \<Rightarrow> int list \<Rightarrow> bool" where
  "rejected_batch be users items userIndices itemIndices =
     (userIndices = [] \<or> length itemIndices \<noteq> length userIndices
      \<or> \<not> gather_ok be users (map to_int32 userIndices)
      \<or> \<not> gather_ok be items (map to_int32 itemIndices))"

text \<open>The deep example model after both towers have been applied once.\<close>

definition example_deep_built :: deep_model where
  "example_deep_built =
     item_layers_built example_draw (user_layers_built example_draw example_deep)"

section \<open>The towers and the all-items scores, as the specification words them\<close>

text \<open>
  A row through a hidden layer of \<open>hiddenUnits\<close> units with ReLU activation and bias,
  then an output layer of \<open>outUnits\<close> units with identity activation and bias.
\<close>

definition two_layer_row :: "dense_weights \<Rightarrow> dense_weights \<Rightarrow> nat \<Rightarrow> nat \<Rightarrow> vec \<Rightarrow> vec" where
  "two_layer_row hw ow hiddenUnits outUnits x =
     vadd (weighted_sum outUnits
             (map (\<lambda>z. max 0 z) (vadd (weighted_sum hiddenUnits x (kernel hw)) (bias hw)))
             (kernel ow))
          (bias ow)"

text \<open>
  The score of item \<open>j\<close> for a user embedding: the dot product of the user embedding
  with the item tower's row for the item's base embedding followed by \<open>numGenres\<close>
  zeros.
\<close>

definition item_score :: "draws \<Rightarrow> deep_model \<Rightarrow> vec \<Rightarrow> nat \<Rightarrow> real" where
  "item_score draw m userEmbedding j =
     dot (item_tower_row draw m (d_itemEmbeddings m ! j) (replicate (numGenres m) 0))
       userEmbedding"

text \<open>
  The scores computed in one piece: the item tower applied to all item indices at once
  with zero genre features, then one dot product of the result with the user embedding.
\<close>

definition unchunked_scores :: "backend \<Rightarrow> draws \<Rightarrow> deep_model \<Rightarrow> vec \<Rightarrow> tf_error + vec" where
  "unchunked_scores be draw m userEmbedding =
     (case itemForward be draw m (JsArray (map int [0..<d_numItems m]))
             (replicate (d_numItems m) (replicate (numGenres m) 0)) of
        (Inl e, m1) \<Rightarrow> Inl e
      | (Inr itemEmbs, m1) \<Rightarrow> tf_dot itemEmbs userEmbedding)"

text \<open>
  Two deep models with the same item tower: the same item table, item layers and sizes.
\<close>

definition same_item_tower :: "deep_model \<Rightarrow> deep_model \<Rightarrow> bool" where
  "same_item_tower a b =
     (d_itemEmbeddings a = d_itemEmbeddings b \<and> itemHiddenLayer a = itemHiddenLayer b
      \<and> itemOutputLayer a = itemOutputLayer b \<and> d_numItems a = d_numItems b
      \<and> numGenres a = numGenres b \<and> d_embeddingDim a = d_embeddingDim b)"

section \<open>Rows a training step leaves alone\<close>

text \<open>
  A batch the step accepts: at least two pairs, as many items as users, and gathers that
  do not raise at the int32 values of the indices.
\<close>

definition accepted_batch :: "backend \<Rightarrow> mat \<Rightarrow> mat \<Rightarrow> int list \<Rightarrow> int list \<Rightarrow> bool" where
  "accepted_batch be users items userIndices itemIndices =
     (2 \<le> length userIndices \<and> length itemIndices = length userIndices
      \<and> gather_ok be users (map to_int32 userIndices)
      \<and> gather_ok be items (map to_int32 itemIndices))"

text \<open>
  The first moment the optimizer keeps for row \<open>r\<close> of the variable \<open>name\<close> is zero:
  no moments are kept yet for the variable (as before the first step), or the row of the
  first moment is all zeros.
\<close>

definition first_moment_zero :: "adam \<Rightarrow> string \<Rightarrow> nat \<Rightarrow> bool" where
  "first_moment_zero opt name r =
     (case slots opt name of
        None \<Rightarrow> True
      | Some (m, v) \<Rightarrow> list_all (\<lambda>x. x = 0) (m ! r))"

text \<open>The moments \<open>applyGradients\<close> starts from for a variable: those kept under
  its name, or zeros of its shape.\<close>

definition slot_or_zeros :: "adam \<Rightarrow> string \<Rightarrow> mat \<Rightarrow> mat \<times> mat" where
  "slot_or_zeros opt name x =
     (case slots opt name of None \<Rightarrow> (zerosLike x, zerosLike x) | Some s \<Rightarrow> s)"

text \<open>The basic example model after one training step on the batch (0,0), (1,1).\<close>

definition example_basic_after_step :: basic_model where
  "example_basic_after_step = snd (basic_trainStep Cpu example_basic [0, 1] [0, 1])"

text \<open>
  The gradients \<open>trainStep\<close> computes for the two tables of the basic model.
\<close>

definition basic_user_gradient :: "backend \<Rightarrow> basic_model \<Rightarrow> int list \<Rightarrow> int list \<Rightarrow> mat" where
  "basic_user_gradient be m userIndices itemIndices =
     fst (basic_grads be m (tf_tensor1d_int32 userIndices) (tf_tensor1d_int32 itemIndices)
            (length userIndices))"

definition basic_item_gradient :: "backend \<Rightarrow> basic_model \<Rightarrow> int list \<Rightarrow> int list \<Rightarrow> mat" where
  "basic_item_gradient be m userIndices itemIndices =
     snd (basic_grads be m (tf_tensor1d_int32 userIndices) (tf_tensor1d_int32 itemIndices)
            (length userIndices))"

text \<open>
  The optimizer as the library keeps it: a positive learning rate, decay rates and
  running powers strictly between 0 and 1, a positive epsilon, and no negative entry in
  a second moment. The constructor's optimizer is such when the backend's epsilon is
  positive, and a training step keeps it so.
\<close>

definition moments_sound :: "adam \<Rightarrow> string \<Rightarrow> bool" where
  "moments_sound opt name =
     (case slots opt name of
        None \<Rightarrow> True
      | Some (m, v) \<Rightarrow> list_all (list_all (\<lambda>x. 0 \<le> x)) v)"

definition optimizer_sound :: "adam \<Rightarrow> bool" where
  "optimizer_sound opt =
     (0 < learningRate opt \<and> 0 < beta1 opt \<and> beta1 opt < 1 \<and> 0 < beta2 opt \<and> beta2 opt < 1
      \<and> 0 < accBeta1 opt \<and> accBeta1 opt < 1 \<and> 0 < accBeta2 opt \<and> accBeta2 opt < 1
      \<and> 0 < epsilon opt
      \<and> moments_sound opt ''basic_user_embeddings''
      \<and> moments_sound opt ''basic_item_embeddings'')"

section \<open>The scorer\<close>

lemma map2_mult_commute: "map2 (*) u v = map2 (*) v (u :: real list)"
proof (induction u arbitrary: v)
  case Nil then show ?case by simp
next
  case (Cons a u) then show ?case by (cases v) (simp_all add: mult.commute)
qed

lemma dot_commute: "dot u v = dot v u"
  by (simp add: dot_def map2_mult_commute [of u v])

lemma seq_results_all_Inr: "seq_results (map Inr xs) = Inr xs"
  by (induction xs) simp_all

lemma mul_rows_same_shape:
  assumes "length a = length b" "list_all2 (\<lambda>x y. length x = length y) a b"
  shows "mul_rows a b = Inr (map2 (map2 (*)) a b)"
proof -
  from assms(2) have "map2 mul_row a b = map Inr (map2 (map2 (*)) a b)"
    by (induction a b rule: list_all2_induct) (simp_all add: mul_row_def)
  then have "seq_results (map2 mul_row a b) = Inr (map2 (map2 (*)) a b)"
    by (simp only: seq_results_all_Inr)
  then show ?thesis unfolding mul_rows_def using assms(1) by (simp only: if_True simp_thms)
qed

lemma map_sum_list_map2:
  "map sum_list (map2 (map2 (*)) a b) = map2 dot a (b :: mat)"
proof (induction a arbitrary: b)
  case Nil then show ?case by simp
next
  case (Cons x a) then show ?case by (cases b) (simp_all add: dot_def)
qed

lemma score_same_shape:
  assumes "same_shape u v"
  shows "score u v = Inr (rowwise_dot u v)"
proof (cases u)
  case (Scalar a)
  with assms show ?thesis by (cases v) (simp_all add: score_def)
next
  case (Vec x)
  with assms show ?thesis by (cases v) (simp_all add: score_def mul_row_def dot_def)
next
  case (Mat a)
  with assms obtain b where v: "v = Mat b" by (cases v) simp_all
  from assms Mat v have "mul_rows a b = Inr (map2 (map2 (*)) a b)"
    by (simp add: mul_rows_same_shape)
  then have "score u v = Inr (Vec (map sum_list (map2 (map2 (*)) a b)))"
    by (simp add: score_def Mat v)
  then show ?thesis by (simp only: map_sum_list_map2 Mat v rowwise_dot.simps)
qed

lemma same_shape_sym: "same_shape u v \<Longrightarrow> same_shape v u"
proof (cases u; cases v)
  fix a b assume "u = Mat a" "v = Mat b" "same_shape u v"
  then show "same_shape v u"
    using list_all2_conv_all_nth [of "\<lambda>x y. length x = length y" a b]
          list_all2_conv_all_nth [of "\<lambda>x y. length x = length y" b a]
    by simp
qed simp_all

lemma map2_dot_commute: "map2 dot a b = map2 dot b a"
proof (induction a arbitrary: b)
  case Nil then show ?case by simp
next
  case (Cons x a) then show ?case by (cases b) (simp_all add: dot_commute)
qed

lemma rowwise_dot_commute: "same_shape u v \<Longrightarrow> rowwise_dot u v = rowwise_dot v u"
  by (cases u; cases v) (simp_all add: dot_commute map2_dot_commute mult.commute)

text \<open>
  C8. For two embeddings of equal shape (vectors of one width, or matrices of the same
  shape) the scorer returns the per-row dot product, and the result does not depend on
  the order of the two arguments.
\<close>

theorem score_commutes:
  assumes "same_shape u v"
  shows "score u v = score v u \<and> score u v = Inr (rowwise_dot u v)"
  using assms score_same_shape [of u v] score_same_shape [of v u]
        same_shape_sym [of u v] rowwise_dot_commute [of u v]
  by simp

theorem score_commutes_witness:
  "same_shape (Mat [[1, 2], [3, 4]]) (Mat [[5, 6], [7, 8]])
   \<and> score (Mat [[1, 2], [3, 4]]) (Mat [[5, 6], [7, 8]])
       = score (Mat [[5, 6], [7, 8]]) (Mat [[1, 2], [3, 4]])
   \<and> score (Mat [[1, 2], [3, 4]]) (Mat [[5, 6], [7, 8]]) = Inr (Vec [17, 53])"
proof -
  have s: "same_shape (Mat [[1, 2], [3, 4]]) (Mat [[5, 6], [7, 8]])" by simp
  have d: "rowwise_dot (Mat [[1, 2], [3, 4]]) (Mat [[5, 6], [7, 8]]) = Vec [17, 53]"
    by (simp add: dot_def)
  show ?thesis using score_commutes [OF s] s unfolding d by blast
qed

section \<open>The loss of a training step\<close>

lemma to_int32_id: "0 \<le> n \<Longrightarrow> n < 2147483648 \<Longrightarrow> to_int32 n = n"
  by (simp add: to_int32_def)

lemma to_int32_nat: "n < 2147483648 \<Longrightarrow> to_int32 (int n) = int n"
  by (simp add: to_int32_id)

lemma index_values_tensor1d [simp]: "index_values (tf_tensor1d_int32 xs) = map to_int32 xs"
  by (simp add: tf_tensor1d_int32_def)

lemma js_length_tensor1d [simp]: "js_length (tf_tensor1d_int32 xs) = None"
  by (simp add: tf_tensor1d_int32_def)

lemma sum_list_exp_pos: "z \<noteq> [] \<Longrightarrow> 0 < sum_list (map exp (z :: real list))"
proof (induction z)
  case Nil then show ?case by simp
next
  case (Cons x z)
  have "0 \<le> sum_list (map exp z)" by (intro sum_list_nonneg) auto
  moreover have "0 < exp x" by simp
  ultimately have "0 < exp x + sum_list (map exp z)" by (rule add_pos_nonneg [rotated])
  then show ?case by simp
qed

lemma zip_onehot:
  assumes "length z = n"
  shows "zip (map (\<lambda>j. if j = i then 1 else (0::real)) [0..<n]) z
         = map (\<lambda>j. (if j = i then 1 else 0, z ! j)) [0..<n]"
  using assms by (intro nth_equalityI) simp_all

lemma row_loss_onehot:
  assumes "length z = n" "i < n"
  shows "row_loss (map (\<lambda>j. if j = i then 1 else 0) [0..<n]) z = logSumExp z - z ! i"
proof -
  have "row_loss (map (\<lambda>j. if j = i then 1 else 0) [0..<n]) z
        = sum_list (map (\<lambda>j. - ((z ! j - logSumExp z) * (if j = i then 1 else 0))) [0..<n])"
    unfolding row_loss_def zip_onehot [OF assms(1)] by (simp add: comp_def)
  also have "\<dots> = (\<Sum>j = 0..<n. if j = i then logSumExp z - z ! j else 0)"
    unfolding interv_sum_list_conv_sum_set_nat by (intro sum.cong) auto
  also have "\<dots> = logSumExp z - z ! i"
    using assms(2) by (simp add: sum.delta)
  finally show ?thesis .
qed

lemma cross_entropy_onehot_eq:
  assumes "z \<noteq> []"
  shows "cross_entropy_onehot z i = logSumExp z - z ! i"
  using sum_list_exp_pos [OF assms]
  by (simp add: cross_entropy_onehot_def logSumExp_def ln_div)

lemma tf_matMul_same_width:
  assumes "list_all (\<lambda>r. length r = d) a" "list_all (\<lambda>r. length r = d) b"
  shows "tf_matMul_transposeB a b = Inr (map (\<lambda>u. map (\<lambda>v. dot u v) b) a)"
proof -
  have "list_all (\<lambda>u. list_all (\<lambda>v. length u = length v) b) a"
    using assms by (auto simp: list_all_iff)
  then show ?thesis by (simp add: tf_matMul_transposeB_def)
qed

lemma in_batch_loss_eq:
  assumes "2 \<le> n" "length a = n" "length b = n"
    "list_all (\<lambda>r. length r = d) a" "list_all (\<lambda>r. length r = d) b"
  shows "in_batch_loss n a b
         = Inr (mean_diagonal_cross_entropy (map (\<lambda>u. map (\<lambda>v. dot u v) b) a))"
proof -
  let ?L = "map (\<lambda>u. map (\<lambda>v. dot u v) b) a"
  let ?labels = "map (\<lambda>i. map (\<lambda>j. if j = i then 1 else (0::real)) [0..<n]) [0..<n]"
  have len: "length ?L = n" using assms by simp
  have rows: "\<And>i. i < n \<Longrightarrow> length (?L ! i) = n" using assms by simp
  have shape: "list_all2 (\<lambda>l z. length l = length z) ?labels ?L"
    using assms by (simp add: list_all2_conv_all_nth)
  have "map2 row_loss ?labels ?L = map (\<lambda>i. row_loss (?labels ! i) (?L ! i)) [0..<n]"
    using len by (intro nth_equalityI) simp_all
  also have "\<dots> = map (\<lambda>i. cross_entropy_onehot (?L ! i) i) [0..<n]"
  proof (intro map_cong refl)
    fix i assume "i \<in> set [0..<n]"
    then have i: "i < n" by simp
    have ne: "?L ! i \<noteq> []" using rows [OF i] assms(1) by auto
    show "row_loss (?labels ! i) (?L ! i) = cross_entropy_onehot (?L ! i) i"
      using row_loss_onehot [OF rows [OF i] i] cross_entropy_onehot_eq [OF ne] i by simp
  qed
  finally have losses: "map2 row_loss ?labels ?L
      = map (\<lambda>i. cross_entropy_onehot (?L ! i) i) [0..<n]" .
  have "tf_softmaxCrossEntropy ?labels ?L = Inr (mean_diagonal_cross_entropy ?L)"
    unfolding tf_softmaxCrossEntropy_def mean_diagonal_cross_entropy_def losses
    using shape len by simp
  then show ?thesis
    using assms(1) tf_matMul_same_width [OF assms(4,5)]
    by (simp add: in_batch_loss_def tf_oneHot_def tf_range_def)
qed

section \<open>Dense layers and the towers\<close>

lemma length_vadd: "length (vadd u v) = min (length u) (length v)"
  by (simp add: vadd_def)

lemma length_weighted_sum:
  "list_all (\<lambda>r. length r = d) rows \<Longrightarrow> length (weighted_sum d ws rows) = d"
proof (induction rows arbitrary: ws)
  case Nil then show ?case by (simp add: weighted_sum_def)
next
  case (Cons r rows)
  show ?case
  proof (cases ws)
    case Nil then show ?thesis by (simp add: weighted_sum_def)
  next
    case (Cons w ws')
    with Cons.IH [of ws'] Cons.prems show ?thesis
      by (simp add: weighted_sum_def length_vadd vscale_def)
  qed
qed

lemma length_activate: "length (activate act z) = length z"
  by (cases act) (simp_all add: activate_def)

lemma wf_layer_built:
  "wf_layer l n \<Longrightarrow> wf_layer (built draw l n) n"
  by (auto simp: wf_layer_def built_def weights_or_build_def build_def has_shape_def
      table_of_def list_all_iff split: option.splits)

lemma built_fields [simp]:
  "units (built draw l n) = units l" "layerName (built draw l n) = layerName l"
  "activation (built draw l n) = activation l" "useBias (built draw l n) = useBias l"
  "kernelInitializer (built draw l n) = kernelInitializer l"
  "weights (built draw l n) = Some (weights_or_build draw l n)"
  by (simp_all add: built_def)

lemma built_idem: "built draw (built draw l n) n' = built draw l n"
  by (simp add: built_def weights_or_build_def)

lemma weights_or_build_shape:
  assumes "wf_layer l n"
  shows "has_shape (kernel (weights_or_build draw l n)) n (units l)"
    and "length (bias (weights_or_build draw l n)) = units l"
  using assms
  by (auto simp: wf_layer_def weights_or_build_def build_def has_shape_def
      table_of_def list_all_iff split: option.splits)

lemma dense_call_row:
  "useBias l \<Longrightarrow> dense_call l w x = map (layer_row (l\<lparr>weights := Some w\<rparr>)) x"
  by (simp add: dense_call_def layer_row_def preactivation_def)

lemma dense_apply_ok:
  assumes "wf_layer l n" "list_all (\<lambda>r. length r = n) x" "useBias l"
  shows "dense_apply draw l n x = (Inr (map (layer_row (built draw l n)) x), built draw l n)"
  using assms weights_or_build_shape [OF assms(1), of draw]
  by (simp add: dense_apply_def Let_def has_shape_def dense_call_row built_def)

lemma length_layer_row:
  assumes "wf_layer l n" "weights l \<noteq> None"
  shows "length (layer_row l row) = units l"
  using assms
  by (auto simp: layer_row_def wf_layer_def has_shape_def length_activate length_vadd
      length_weighted_sum)

lemma tf_gather_ok:
  "gather_ok be t (index_values idx) \<Longrightarrow> tf_gather be d t idx = Inr (read_rows d t (index_values idx))"
  by (cases be) (auto simp: tf_gather_def gather_ok_def read_rows_def list_all_iff)

lemma tf_gather_fail:
  "\<not> gather_ok be t (index_values idx) \<Longrightarrow> tf_gather be d t idx = Inl IndexOutOfRange"
  by (cases be) (auto simp: tf_gather_def gather_ok_def)

lemma read_rows_in_range:
  "list_all (in_table t) idx \<Longrightarrow> read_rows d t idx = map (\<lambda>i. t ! nat i) idx"
  by (simp add: read_rows_def list_all_iff)

lemma read_rows_shape:
  "has_shape t n d \<Longrightarrow> has_shape (read_rows d t idx) (length idx) d"
  by (auto simp: has_shape_def read_rows_def list_all_iff in_table_def)

lemma length_rows_of [simp]: "length (rows_of n cols flat) = n"
  by (induction n arbitrary: flat) simp_all

lemma rows_of_widths: "list_all (\<lambda>r. length r = cols) (rows_of n cols flat)"
  by (induction n arbitrary: flat) auto

lemma rows_of_uniform:
  "list_all (\<lambda>r. length r = cols) vs \<Longrightarrow> rows_of (length vs) cols (concat vs) = vs"
  by (induction vs) simp_all

lemma tf_tensor2d_shape:
  "tf_tensor2d gf (Some n) g = Inr gt \<Longrightarrow> has_shape gt n g"
  using rows_of_widths [of g n "concat gf"]
  by (auto simp: tf_tensor2d_def has_shape_def list_all_iff split: list.splits if_splits)

lemma tf_tensor2d_uniform:
  assumes "gf \<noteq> []" "list_all (\<lambda>r. length r = w) gf"
  shows "tf_tensor2d gf (Some n) g
     = (if length gf = n \<and> w = g then Inr gf else Inl InferredShapeMismatch)"
proof (cases gf)
  case Nil
  with assms(1) show ?thesis by simp
next
  case (Cons first rest)
  with assms(2) have w: "length first = w" by simp
  show ?thesis
  proof (cases "length gf = n \<and> w = g")
    case True
    then have "rows_of n g (concat gf) = gf" using rows_of_uniform [of g gf] assms(2) by auto
    with True w Cons show ?thesis by (simp add: tf_tensor2d_def)
  next
    case False
    with w Cons show ?thesis by (auto simp: tf_tensor2d_def)
  qed
qed

lemma tf_tensor2d_undefined [simp]: "tf_tensor2d gf None g = Inl ShapeNotIntegers"
  by (simp add: tf_tensor2d_def)

lemma wf_deep_user_layers_built: "wf_deep m \<Longrightarrow> wf_deep (user_layers_built draw m)"
  by (simp add: wf_deep_def user_layers_built_def configured_def wf_layer_built)

lemma wf_deep_item_layers_built: "wf_deep m \<Longrightarrow> wf_deep (item_layers_built draw m)"
  by (simp add: wf_deep_def item_layers_built_def configured_def wf_layer_built)

lemma layer_row_built_width:
  assumes "wf_layer l n"
  shows "length (layer_row (built draw l n) row) = units l"
  using length_layer_row [OF wf_layer_built [OF assms, of draw], of row] by simp

lemma userForward_ok:
  assumes "wf_deep m" "gather_ok be (d_userEmbeddings m) (index_values us)"
  shows "userForward be draw m us
         = (Inr (map (user_tower_row draw m)
                   (read_rows (d_embeddingDim m) (d_userEmbeddings m) (index_values us))),
            user_layers_built draw m)"
proof -
  let ?d = "d_embeddingDim m"
  let ?x = "read_rows ?d (d_userEmbeddings m) (index_values us)"
  let ?h = "built draw (userHiddenLayer m) ?d"
  from assms(1) have wh: "wf_layer (userHiddenLayer m) ?d" "useBias (userHiddenLayer m)"
    and wo: "wf_layer (userOutputLayer m) (?d * 2)" "useBias (userOutputLayer m)"
    and un: "units (userHiddenLayer m) = ?d * 2"
    by (simp_all add: wf_deep_def configured_def)
  from assms(1) have "has_shape (d_userEmbeddings m) (d_numUsers m) ?d"
    by (simp add: wf_deep_def)
  then have "has_shape ?x (length (index_values us)) ?d" by (rule read_rows_shape)
  then have x: "list_all (\<lambda>r. length r = ?d) ?x" by (simp add: has_shape_def)
  have h: "dense_apply draw (userHiddenLayer m) ?d ?x = (Inr (map (layer_row ?h) ?x), ?h)"
    by (rule dense_apply_ok [OF wh(1) x wh(2)])
  have hx: "list_all (\<lambda>r. length r = ?d * 2) (map (layer_row ?h) ?x)"
    using layer_row_built_width [OF wh(1), of draw] un by (simp add: list_all_iff)
  have o: "dense_apply draw (userOutputLayer m) (?d * 2) (map (layer_row ?h) ?x)
           = (Inr (map (layer_row (built draw (userOutputLayer m) (?d * 2)))
                    (map (layer_row ?h) ?x)),
              built draw (userOutputLayer m) (?d * 2))"
    by (rule dense_apply_ok [OF wo(1) hx wo(2)])
  have rows: "map (layer_row (built draw (userOutputLayer m) (?d * 2))) (map (layer_row ?h) ?x)
              = map (user_tower_row draw m) ?x"
    by (simp add: user_tower_row_def user_layers_built_def un comp_def)
  show ?thesis
    unfolding userForward_def tf_gather_ok [OF assms(2)] rows [symmetric]
    by (simp add: h o un user_layers_built_def del: map_map)
qed

lemma userForward_fail:
  "\<not> gather_ok be (d_userEmbeddings m) (index_values us)
   \<Longrightarrow> userForward be draw m us = (Inl IndexOutOfRange, m)"
  by (simp add: userForward_def tf_gather_fail)

lemma itemForward_ok:
  assumes "wf_deep m" "gather_ok be (d_itemEmbeddings m) (map to_int32 idx)"
    "tf_tensor2d gf (Some (length idx)) (numGenres m) = Inr gt"
  shows "itemForward be draw m (JsArray idx) gf
         = (Inr (map2 (item_tower_row draw m)
                   (read_rows (d_embeddingDim m) (d_itemEmbeddings m) (map to_int32 idx)) gt),
            item_layers_built draw m)"
proof -
  let ?d = "d_embeddingDim m"
  let ?g = "numGenres m"
  let ?e = "read_rows ?d (d_itemEmbeddings m) (map to_int32 idx)"
  let ?x = "map2 (@) ?e gt"
  let ?h = "built draw (itemHiddenLayer m) (?d + ?g)"
  from assms(1) have wh: "wf_layer (itemHiddenLayer m) (?d + ?g)" "useBias (itemHiddenLayer m)"
    and wo: "wf_layer (itemOutputLayer m) (?d * 2)" "useBias (itemOutputLayer m)"
    and un: "units (itemHiddenLayer m) = ?d * 2"
    by (simp_all add: wf_deep_def configured_def)
  from assms(1) have "has_shape (d_itemEmbeddings m) (d_numItems m) ?d"
    by (simp add: wf_deep_def)
  then have "has_shape ?e (length (map to_int32 idx)) ?d" by (rule read_rows_shape)
  then have e: "has_shape ?e (length idx) ?d" by simp
  have gok: "gather_ok be (d_itemEmbeddings m) (index_values (JsArray idx))"
    using assms(2) by simp
  have g: "has_shape gt (length idx) ?g" by (rule tf_tensor2d_shape [OF assms(3)])
  have cat: "tf_concat1 ?e gt = Inr ?x" using e g by (simp add: tf_concat1_def has_shape_def)
  have x: "list_all (\<lambda>r. length r = ?d + ?g) ?x"
    using e g by (auto simp: has_shape_def list_all_iff dest!: set_zip_leftD set_zip_rightD
        elim!: in_set_zipE)
  have h: "dense_apply draw (itemHiddenLayer m) (?d + ?g) ?x = (Inr (map (layer_row ?h) ?x), ?h)"
    by (rule dense_apply_ok [OF wh(1) x wh(2)])
  have hx: "list_all (\<lambda>r. length r = ?d * 2) (map (layer_row ?h) ?x)"
    using layer_row_built_width [OF wh(1), of draw] un by (simp add: list_all_iff)
  have o: "dense_apply draw (itemOutputLayer m) (?d * 2) (map (layer_row ?h) ?x)
           = (Inr (map (layer_row (built draw (itemOutputLayer m) (?d * 2)))
                    (map (layer_row ?h) ?x)),
              built draw (itemOutputLayer m) (?d * 2))"
    by (rule dense_apply_ok [OF wo(1) hx wo(2)])
  have rows: "map (layer_row (built draw (itemOutputLayer m) (?d * 2))) (map (layer_row ?h) ?x)
              = map2 (item_tower_row draw m) ?e gt"
    by (simp add: item_tower_row_def item_layers_built_def un comp_def zip_map_fst_snd
        map_zip_map2 case_prod_unfold)
  show ?thesis
    unfolding itemForward_def js_length.simps
      tf_gather_ok [OF gok] index_values.simps assms(3) rows [symmetric]
    by (simp add: cat h o un item_layers_built_def del: map_map)
qed

lemma itemForward_of_tensor:
  "itemForward be draw m (Tensor1d idx) gf
   = (Inl (if gather_ok be (d_itemEmbeddings m) idx then ShapeNotIntegers else IndexOutOfRange), m)"
  by (cases "gather_ok be (d_itemEmbeddings m) idx")
     (simp_all add: itemForward_def tf_gather_ok tf_gather_fail)

lemma item_tower_row_two_layer:
  assumes "wf_deep m"
  shows "item_tower_row draw m e g
         = two_layer_row
             (weights_or_build draw (itemHiddenLayer m) (d_embeddingDim m + numGenres m))
             (weights_or_build draw (itemOutputLayer m) (d_embeddingDim m * 2))
             (d_embeddingDim m * 2) (d_embeddingDim m) (e @ g)"
  using assms
  by (simp add: item_tower_row_def item_layers_built_def layer_row_def two_layer_row_def
      wf_deep_def configured_def activate_def)

lemma user_tower_row_two_layer:
  assumes "wf_deep m"
  shows "user_tower_row draw m e
         = two_layer_row
             (weights_or_build draw (userHiddenLayer m) (d_embeddingDim m))
             (weights_or_build draw (userOutputLayer m) (d_embeddingDim m * 2))
             (d_embeddingDim m * 2) (d_embeddingDim m) e"
  using assms
  by (simp add: user_tower_row_def user_layers_built_def layer_row_def two_layer_row_def
      wf_deep_def configured_def activate_def)

lemma has_shape_table_of: "has_shape (table_of f n d) n d"
  by (simp add: has_shape_def table_of_def list_all_iff)

lemma wf_basic_constructor: "wf_basic (BasicTwoTowerModel rn eps nu ni d)"
  by (simp add: wf_basic_def BasicTwoTowerModel_def has_shape_table_of slot_shape_def
      tf_train_adam_def)

lemma wf_deep_constructor:
  "ni \<le> 2147483648 \<Longrightarrow> wf_deep (DeepTwoTowerModel rn eps nu ni d g)"
  by (simp add: wf_deep_def DeepTwoTowerModel_def has_shape_table_of configured_def
      tf_layers_dense_def wf_layer_def)

lemma item_tower_row_user_layers_built [simp]:
  "item_tower_row draw (user_layers_built draw m) = item_tower_row draw m"
  by (intro ext) (simp add: item_tower_row_def item_layers_built_def user_layers_built_def)

lemma user_layers_built_fields [simp]:
  "d_embeddingDim (user_layers_built draw m) = d_embeddingDim m"
  "numGenres (user_layers_built draw m) = numGenres m"
  "d_numItems (user_layers_built draw m) = d_numItems m"
  "d_numUsers (user_layers_built draw m) = d_numUsers m"
  "d_itemEmbeddings (user_layers_built draw m) = d_itemEmbeddings m"
  "d_userEmbeddings (user_layers_built draw m) = d_userEmbeddings m"
  "d_optimizer (user_layers_built draw m) = d_optimizer m"
  "itemHiddenLayer (user_layers_built draw m) = itemHiddenLayer m"
  "itemOutputLayer (user_layers_built draw m) = itemOutputLayer m"
  by (simp_all add: user_layers_built_def)

lemma item_layers_built_fields [simp]:
  "d_embeddingDim (item_layers_built draw m) = d_embeddingDim m"
  "numGenres (item_layers_built draw m) = numGenres m"
  "d_numItems (item_layers_built draw m) = d_numItems m"
  "d_numUsers (item_layers_built draw m) = d_numUsers m"
  "d_itemEmbeddings (item_layers_built draw m) = d_itemEmbeddings m"
  "d_userEmbeddings (item_layers_built draw m) = d_userEmbeddings m"
  "d_optimizer (item_layers_built draw m) = d_optimizer m"
  "userHiddenLayer (item_layers_built draw m) = userHiddenLayer m"
  "userOutputLayer (item_layers_built draw m) = userOutputLayer m"
  by (simp_all add: item_layers_built_def)

lemma user_tower_row_width:
  assumes "wf_deep m"
  shows "length (user_tower_row draw m row) = d_embeddingDim m"
proof -
  from assms have "wf_layer (userOutputLayer m) (d_embeddingDim m * 2)"
    "units (userOutputLayer m) = d_embeddingDim m" "units (userHiddenLayer m) = d_embeddingDim m * 2"
    by (simp_all add: wf_deep_def configured_def)
  then show ?thesis
    using layer_row_built_width [of "userOutputLayer m" "d_embeddingDim m * 2" draw]
    by (simp add: user_tower_row_def user_layers_built_def)
qed

lemma item_tower_row_width:
  assumes "wf_deep m"
  shows "length (item_tower_row draw m row g) = d_embeddingDim m"
proof -
  from assms have "wf_layer (itemOutputLayer m) (d_embeddingDim m * 2)"
    "units (itemOutputLayer m) = d_embeddingDim m" "units (itemHiddenLayer m) = d_embeddingDim m * 2"
    by (simp_all add: wf_deep_def configured_def)
  then show ?thesis
    using layer_row_built_width [of "itemOutputLayer m" "d_embeddingDim m * 2" draw]
    by (simp add: item_tower_row_def item_layers_built_def)
qed

lemma nth_dot_matrix:
  "i < length a \<Longrightarrow> j < length b \<Longrightarrow> map (\<lambda>u. map (\<lambda>v. dot u v) b) a ! i ! j = dot (a ! i) (b ! j)"
  by simp

lemma basic_loss_ok:
  assumes "gather_ok be (userEmbeddings m) (index_values ut)"
    "gather_ok be (itemEmbeddings m) (index_values it)"
  shows "basic_loss be m ut it n
         = in_batch_loss n (read_rows (embeddingDim m) (userEmbeddings m) (index_values ut))
             (read_rows (embeddingDim m) (itemEmbeddings m) (index_values it))"
  by (simp add: basic_loss_def basic_userForward_def basic_itemForward_def
      tf_gather_ok [OF assms(1)] tf_gather_ok [OF assms(2)])

lemma basic_loss_value:
  assumes "2 \<le> n" "length (index_values ut) = n" "length (index_values it) = n" "wf_basic m"
    "gather_ok be (userEmbeddings m) (index_values ut)"
    "gather_ok be (itemEmbeddings m) (index_values it)"
  shows "basic_loss be m ut it n
         = Inr (mean_diagonal_cross_entropy
                  (map (\<lambda>u. map (\<lambda>v. dot u v)
                                (read_rows (embeddingDim m) (itemEmbeddings m) (index_values it)))
                     (read_rows (embeddingDim m) (userEmbeddings m) (index_values ut))))"
proof -
  let ?d = "embeddingDim m"
  let ?U = "read_rows ?d (userEmbeddings m) (index_values ut)"
  let ?V = "read_rows ?d (itemEmbeddings m) (index_values it)"
  from assms(4) have "has_shape ?U (length (index_values ut)) ?d"
    "has_shape ?V (length (index_values it)) ?d"
    by (auto simp: wf_basic_def intro: read_rows_shape)
  then have "list_all (\<lambda>r. length r = ?d) ?U" "list_all (\<lambda>r. length r = ?d) ?V"
    "length ?U = n" "length ?V = n"
    using assms(2,3) by (simp_all add: has_shape_def)
  then show ?thesis
    using basic_loss_ok [OF assms(5,6)] in_batch_loss_eq [OF assms(1)] by simp
qed

text \<open>
  On a batch the step accepts, \<open>trainStep\<close> of the basic model returns the mean
  cross-entropy of the logits against the diagonal, and applies the gradients.
\<close>

lemma basic_trainStep_accepted_value:
  assumes "wf_basic m" "accepted_batch be (userEmbeddings m) (itemEmbeddings m) us idx"
  shows "basic_trainStep be m us idx
         = (Inr (mean_diagonal_cross_entropy
                   (map (\<lambda>u. map (\<lambda>v. dot u v)
                      (read_rows (embeddingDim m) (itemEmbeddings m) (map to_int32 idx)))
                      (read_rows (embeddingDim m) (userEmbeddings m) (map to_int32 us)))),
            basic_applyGradients m
              (basic_grads be m (tf_tensor1d_int32 us) (tf_tensor1d_int32 idx) (length us)))"
proof -
  from assms(2) have a: "2 \<le> length us" "length idx = length us"
    "gather_ok be (userEmbeddings m) (index_values (tf_tensor1d_int32 us))"
    "gather_ok be (itemEmbeddings m) (index_values (tf_tensor1d_int32 idx))"
    by (simp_all add: accepted_batch_def)
  have "basic_loss be m (tf_tensor1d_int32 us) (tf_tensor1d_int32 idx) (length us)
        = Inr (mean_diagonal_cross_entropy
                 (map (\<lambda>u. map (\<lambda>v. dot u v)
                    (read_rows (embeddingDim m) (itemEmbeddings m) (map to_int32 idx)))
                    (read_rows (embeddingDim m) (userEmbeddings m) (map to_int32 us))))"
    using basic_loss_value [OF a(1) _ _ assms(1) a(3,4)] a(2) by simp
  then show ?thesis by (simp add: basic_trainStep_def Let_def)
qed

section \<open>Facts about the example models\<close>

lemma example_basic_fields:
  "numUsers example_basic = 3" "numItems example_basic = 4" "embeddingDim example_basic = 2"
  "userEmbeddings example_basic = [[2/100, 3/100], [4/100, 6/100], [6/100, 9/100]]"
  "itemEmbeddings example_basic
     = [[2/100, 3/100], [4/100, 6/100], [6/100, 9/100], [8/100, 12/100]]"
  "optimizer example_basic = tf_train_adam (1 / 1000) (1 / 10000000)"
  by (simp_all add: example_basic_def BasicTwoTowerModel_def table_of_def
      example_randomNormal_def upt_rec)

lemma example_deep_fields:
  "d_numUsers example_deep = 3" "d_numItems example_deep = 4" "d_embeddingDim example_deep = 2"
  "numGenres example_deep = 19"
  "d_userEmbeddings example_deep = [[2/100, 3/100], [4/100, 6/100], [6/100, 9/100]]"
  "d_itemEmbeddings example_deep
     = [[2/100, 3/100], [4/100, 6/100], [6/100, 9/100], [8/100, 12/100]]"
  by (simp_all add: example_deep_def DeepTwoTowerModel_def table_of_def
      example_randomNormal_def upt_rec)

lemma wf_example_basic: "wf_basic example_basic"
  unfolding example_basic_def by (rule wf_basic_constructor)

lemma wf_example_deep: "wf_deep example_deep"
  unfolding example_deep_def by (rule wf_deep_constructor) simp

lemma tf_tensor2d_zeros:
  "tf_tensor2d (replicate n (replicate g 0)) (Some n) g = Inr (replicate n (replicate g 0))"
proof (cases n)
  case 0
  then show ?thesis by (simp add: tf_tensor2d_def)
next
  case (Suc k)
  then have "replicate n (replicate g (0::real)) \<noteq> []" by simp
  then show ?thesis
    using tf_tensor2d_uniform [of "replicate n (replicate g 0)" g n g]
    by (simp add: list_all_iff)
qed

lemma wf_example_deep_built: "wf_deep example_deep_built"
  unfolding example_deep_built_def
  by (intro wf_deep_item_layers_built wf_deep_user_layers_built wf_example_deep)

lemma all_built_example_deep_built: "all_built example_deep_built"
  by (simp add: example_deep_built_def all_built_def item_layers_built_def user_layers_built_def)

lemma example_deep_built_fields:
  "d_numUsers example_deep_built = 3" "d_numItems example_deep_built = 4"
  "d_embeddingDim example_deep_built = 2" "numGenres example_deep_built = 19"
  "d_userEmbeddings example_deep_built = d_userEmbeddings example_deep"
  "d_itemEmbeddings example_deep_built = d_itemEmbeddings example_deep"
  by (simp_all add: example_deep_built_def example_deep_fields)

lemma example_deep_unbuilt:
  "weights (itemHiddenLayer example_deep) = None" "weights (itemOutputLayer example_deep) = None"
  "weights (userHiddenLayer example_deep) = None" "weights (userOutputLayer example_deep) = None"
  by (simp_all add: example_deep_def DeepTwoTowerModel_def tf_layers_dense_def)

lemma example_lengths: "length [1, 2 :: real] = d_embeddingDim example_deep"
  "length [1, 2 :: real] = embeddingDim example_basic"
  by (simp_all add: example_deep_fields example_basic_fields)

section \<open>Failing steps and read-only calls\<close>

lemma dense_apply_built: "dense_apply draw l n x = (r, l') \<Longrightarrow> l' = built draw l n"
  by (auto simp: dense_apply_def Let_def built_def split: if_splits)

lemma built_of_built: "weights l \<noteq> None \<Longrightarrow> built draw l n = l"
  by (cases l) (auto simp: built_def weights_or_build_def)

lemma layer_kept_refl [simp]: "layer_kept draw n l l"
  by (simp add: layer_kept_def)

lemma layer_kept_trans:
  "layer_kept draw n a b \<Longrightarrow> layer_kept draw n b c \<Longrightarrow> layer_kept draw n a c"
  by (auto simp: layer_kept_def built_idem)

lemma layer_kept_built: "layer_kept draw n l (built draw l n)"
  by (simp add: layer_kept_def)

lemma layer_kept_same: "layer_kept draw n l l' \<Longrightarrow> weights l \<noteq> None \<Longrightarrow> l' = l"
  by (auto simp: layer_kept_def built_of_built)

lemma layer_kept_units: "layer_kept draw n l l' \<Longrightarrow> units l' = units l"
  by (auto simp: layer_kept_def)

lemma params_kept_refl [simp]: "params_kept draw m m"
  by (simp add: params_kept_def)

lemma params_kept_fields:
  assumes "params_kept draw m m'"
  shows "d_userEmbeddings m' = d_userEmbeddings m" "d_itemEmbeddings m' = d_itemEmbeddings m"
    "d_optimizer m' = d_optimizer m" "d_numUsers m' = d_numUsers m" "d_numItems m' = d_numItems m"
    "d_embeddingDim m' = d_embeddingDim m" "numGenres m' = numGenres m"
  using assms by (cases m; cases m'; simp add: params_kept_def)+

lemma params_kept_trans:
  assumes "params_kept draw a b" "params_kept draw b c"
  shows "params_kept draw a c"
proof -
  note f = params_kept_fields [OF assms(1)]
  from assms(1) have u: "units (userHiddenLayer b) = units (userHiddenLayer a)"
    "units (itemHiddenLayer b) = units (itemHiddenLayer a)"
    by (auto simp: params_kept_def dest: layer_kept_units)
  from assms have
    "layer_kept draw (d_embeddingDim a) (userHiddenLayer a) (userHiddenLayer c)"
    "layer_kept draw (units (userHiddenLayer a)) (userOutputLayer a) (userOutputLayer c)"
    "layer_kept draw (d_embeddingDim a + numGenres a) (itemHiddenLayer a) (itemHiddenLayer c)"
    "layer_kept draw (units (itemHiddenLayer a)) (itemOutputLayer a) (itemOutputLayer c)"
    unfolding params_kept_def f u by (blast intro: layer_kept_trans)+
  moreover from assms have
    "c\<lparr>userHiddenLayer := userHiddenLayer a, userOutputLayer := userOutputLayer a,
       itemHiddenLayer := itemHiddenLayer a, itemOutputLayer := itemOutputLayer a\<rparr> = a"
    by (cases a; cases b; cases c) (simp add: params_kept_def)
  ultimately show ?thesis by (simp add: params_kept_def)
qed

lemma params_kept_all_built: "params_kept draw m m' \<Longrightarrow> all_built m \<Longrightarrow> m' = m"
  by (cases m; cases m') (auto simp: params_kept_def all_built_def dest: layer_kept_same)

lemma dense_apply_kept:
  assumes "dense_apply draw l n x = (r, l')"
  shows "layer_kept draw n l l'" and "r = Inr y \<Longrightarrow> length y = length x"
  using assms dense_apply_built [OF assms]
  by (auto simp: dense_apply_def Let_def dense_call_def layer_kept_def split: if_splits)

lemma tf_gather_length: "tf_gather be d t idx = Inr y \<Longrightarrow> length y = length (index_values idx)"
  by (auto simp: tf_gather_def split: if_splits backend.splits)

lemma userForward_kept:
  assumes "userForward be draw m us = (r, m')"
  shows "params_kept draw m m'" and "r = Inr y \<Longrightarrow> length y = length (index_values us)"
proof -
  show "params_kept draw m m'"
    using assms
    by (auto simp: userForward_def params_kept_def layer_kept_def
        split: sum.splits prod.splits dest!: dense_apply_built)
  show "r = Inr y \<Longrightarrow> length y = length (index_values us)"
    using assms
    by (auto simp: userForward_def split: sum.splits prod.splits
        dest!: dense_apply_kept(2) tf_gather_length)
qed

lemma itemForward_kept:
  assumes "itemForward be draw m idx gf = (r, m')"
  shows "params_kept draw m m'" and "r = Inr y \<Longrightarrow> length y = length (index_values idx)"
proof -
  show "params_kept draw m m'"
    using assms
    by (auto simp: itemForward_def params_kept_def layer_kept_def
        split: sum.splits prod.splits dest!: dense_apply_built)
  show "r = Inr y \<Longrightarrow> length y = length (index_values idx)"
    using assms
    by (auto simp: itemForward_def tf_concat1_def
        split: sum.splits prod.splits if_splits
        dest!: dense_apply_kept(2) tf_gather_length)
qed

lemma in_batch_loss_rejects:
  assumes "length a = n" "n < 2 \<or> length b \<noteq> n"
  shows "\<exists>e. in_batch_loss n a b = Inl e"
proof (cases "n < 2")
  case True
  then show ?thesis
    by (simp add: in_batch_loss_def tf_oneHot_def split: sum.splits)
next
  case False
  with assms(2) have b: "length b \<noteq> n" and n: "0 < n" by auto
  have "tf_softmaxCrossEntropy
          (map (\<lambda>i. map (\<lambda>j. if j = i then 1 else 0) [0..<n]) [0..<n])
          (map (\<lambda>u. map (\<lambda>v. dot u v) b) a) = Inl ShapesMustMatch"
    using b n assms(1)
    by (auto simp: tf_softmaxCrossEntropy_def list_all2_conv_all_nth)
  then show ?thesis
    using False
    by (auto simp: in_batch_loss_def tf_oneHot_def tf_range_def tf_matMul_transposeB_def
        split: sum.splits)
qed

lemma basic_loss_rejects:
  assumes "length (index_values ut) = n"
    "n < 2 \<or> length (index_values it) \<noteq> n
     \<or> \<not> gather_ok be (userEmbeddings m) (index_values ut)
     \<or> \<not> gather_ok be (itemEmbeddings m) (index_values it)"
  shows "\<exists>e. basic_loss be m ut it n = Inl e"
proof (cases "gather_ok be (userEmbeddings m) (index_values ut)
              \<and> gather_ok be (itemEmbeddings m) (index_values it)")
  case True
  with assms have "n < 2 \<or> length (index_values it) \<noteq> n" by simp
  then have "\<exists>e. in_batch_loss n
                   (read_rows (embeddingDim m) (userEmbeddings m) (index_values ut))
                   (read_rows (embeddingDim m) (itemEmbeddings m) (index_values it)) = Inl e"
    using assms(1) by (intro in_batch_loss_rejects) (simp_all add: read_rows_def)
  then show ?thesis
    using True
    by (simp add: basic_loss_def basic_userForward_def basic_itemForward_def tf_gather_ok)
next
  case False
  then show ?thesis
    by (auto simp: basic_loss_def basic_userForward_def basic_itemForward_def tf_gather_fail
        split: sum.splits)
qed

lemma deep_loss_kept:
  assumes "deep_loss be draw m ut it n gf = (r, m')"
  shows "params_kept draw m m'"
proof (cases "userForward be draw m ut")
  case (Pair ru m1)
  note u = userForward_kept(1) [OF Pair]
  show ?thesis
  proof (cases ru)
    case (Inl e)
    with assms Pair u show ?thesis by (simp add: deep_loss_def)
  next
    case (Inr U)
    obtain ri m2 where i: "itemForward be draw m1 it gf = (ri, m2)" by force
    have "params_kept draw m m2" using u itemForward_kept(1) [OF i] by (rule params_kept_trans)
    moreover have "m' = m2" using assms Pair Inr i by (cases ri) (simp_all add: deep_loss_def)
    ultimately show ?thesis by simp
  qed
qed

text \<open>
  Handed an index tensor, \<open>itemForward\<close> raises: at the gather, or at the genre tensor
  whose number of rows it reads off the tensor's \<open>length\<close>. So the loss closure of the
  deep model, which hands it one, never returns a value.
\<close>

lemma deep_loss_raises:
  "\<exists>e. fst (deep_loss be draw m ut (tf_tensor1d_int32 idx) n gf) = Inl e"
proof (cases "userForward be draw m ut")
  case (Pair ru m1)
  show ?thesis
  proof (cases ru)
    case (Inl e)
    with Pair show ?thesis by (simp add: deep_loss_def)
  next
    case (Inr U)
    with Pair show ?thesis
      by (simp add: deep_loss_def tf_tensor1d_int32_def itemForward_of_tensor)
  qed
qed

lemma deep_trainStep_eq_loss:
  "deep_trainStep be draw m us idx gf
   = deep_loss be draw m (tf_tensor1d_int32 us) (tf_tensor1d_int32 idx) (length us) gf"
proof (cases "deep_loss be draw m (tf_tensor1d_int32 us) (tf_tensor1d_int32 idx) (length us) gf")
  case (Pair r m')
  with deep_loss_raises [of be draw m "tf_tensor1d_int32 us" idx "length us" gf]
  obtain e where "r = Inl e" by auto
  with Pair show ?thesis by (simp add: deep_trainStep_def Let_def)
qed

lemma deep_loss_value:
  assumes "wf_deep m" "gather_ok be (d_userEmbeddings m) (index_values ut)"
  shows "deep_loss be draw m ut (tf_tensor1d_int32 idx) n gf
         = (Inl (if gather_ok be (d_itemEmbeddings m) (map to_int32 idx) then ShapeNotIntegers
                 else IndexOutOfRange),
            user_layers_built draw m)"
  by (simp add: deep_loss_def userForward_ok [OF assms] tf_tensor1d_int32_def
      itemForward_of_tensor user_layers_built_def)

lemma scoreBatches_kept:
  "scoreBatches be draw u bs nb i acc m = (r, m') \<Longrightarrow> params_kept draw m m'"
proof (induction be draw u bs nb i acc m rule: scoreBatches.induct)
  case (1 be draw u bs nb i acc m)
  show ?case
  proof (cases "i < nb")
    case False
    with "1.prems" show ?thesis by (subst (asm) scoreBatches.simps) simp
  next
    case True
    define idx where
      "idx = map (\<lambda>j. int (i * bs + j)) [0..<min (i * bs + bs) (d_numItems m) - i * bs]"
    define gf where "gf = map (\<lambda>x. replicate (numGenres m) (0::real)) idx"
    obtain ri m1 where f: "itemForward be draw m (JsArray idx) gf = (ri, m1)" by force
    have k1: "params_kept draw m m1" by (rule itemForward_kept(1) [OF f])
    show ?thesis
    proof (cases ri)
      case (Inl e)
      with "1.prems" True f k1 show ?thesis
        by (subst (asm) scoreBatches.simps) (simp add: Let_def idx_def gf_def)
    next
      case (Inr E)
      show ?thesis
      proof (cases "tf_dot E u")
        case (Inl e)
        with "1.prems" True f k1 Inr show ?thesis
          by (subst (asm) scoreBatches.simps) (simp add: Let_def idx_def gf_def)
      next
        case s: (Inr s)
        from "1.prems" True f Inr s
        have "scoreBatches be draw u bs nb (Suc i) (acc @ s) m1 = (r, m')"
          by (subst (asm) scoreBatches.simps) (simp add: Let_def idx_def gf_def)
        then have "params_kept draw m1 m'"
          by (rule "1.IH" [OF True refl refl refl refl f [unfolded idx_def gf_def, symmetric] Inr s])
        with k1 show ?thesis by (rule params_kept_trans)
      qed
    qed
  qed
qed

lemma itemForward_bad_genres:
  assumes "gather_ok be (d_itemEmbeddings m) (map to_int32 idx)"
    "tf_tensor2d gf (Some (length idx)) (numGenres m) = Inl e"
  shows "itemForward be draw m (JsArray idx) gf = (Inl e, m)"
proof -
  have "gather_ok be (d_itemEmbeddings m) (index_values (JsArray idx))" using assms(1) by simp
  then show ?thesis by (simp add: itemForward_def tf_gather_ok assms(2))
qed

section \<open>Scoring all items\<close>

lemma ceil_div_start:
  assumes "0 < bs" "i < ceil_div n bs"
  shows "i * bs < n"
proof (rule ccontr)
  assume "\<not> i * bs < n"
  then have "n + bs - 1 < (i + 1) * bs" using assms(1) by simp
  then have "(n + bs - 1) div bs < i + 1"
    using assms(1) by (simp add: div_less_iff_less_mult)
  with assms(2) show False by (simp add: ceil_div_def)
qed

lemma ceil_div_end:
  assumes "0 < bs" "\<not> i < ceil_div n bs"
  shows "n \<le> i * bs"
proof -
  from assms(2) have "(n + bs - 1) div bs \<le> i" by (simp add: ceil_div_def)
  then have "(n + bs - 1) div bs * bs \<le> i * bs" by simp
  moreover have "n + bs - 1 < (n + bs - 1) div bs * bs + bs"
    using assms(1) div_mult_mod_eq [of "n + bs - 1" bs] mod_less_divisor [of bs "n + bs - 1"]
    by linarith
  ultimately show ?thesis using assms(1) by linarith
qed

lemma item_layers_built_idem:
  "wf_deep m \<Longrightarrow> item_layers_built draw (item_layers_built draw m) = item_layers_built draw m"
  by (simp add: item_layers_built_def built_idem)

lemma item_tower_row_built [simp]:
  "item_tower_row draw (item_layers_built draw m) = item_tower_row draw m"
  by (intro ext) (simp add: item_tower_row_def item_layers_built_def built_idem)

lemma item_score_built [simp]:
  "item_score draw (item_layers_built draw m) u = item_score draw m u"
  by (intro ext) (simp add: item_score_def)

text \<open>
  The indices from 0 to \<open>2\<^sup>3\<^sup>1 - 1\<close> are their own int32 values. The number
  \<open>2\<^sup>3\<^sup>1\<close> is not: as an int32 number it is negative, and a gather reads it in no
  table.
\<close>

lemma gather_beyond_int32:
  "to_int32 2147483648 = - 2147483648"
  "tf_gather Cpu d table (JsArray [2147483648]) = Inl IndexOutOfRange"
  by (simp_all add: to_int32_def tf_gather_def in_table_def)

lemma itemForward_zero_genres:
  assumes "wf_deep m" "b \<le> d_numItems m" "a < b" "length u = d_embeddingDim m"
  shows "itemForward be draw m (JsArray (map (\<lambda>j. int (a + j)) [0..<b - a]))
           (map (\<lambda>x. replicate (numGenres m) 0) (map (\<lambda>j. int (a + j)) [0..<b - a]))
         = (Inr (map (\<lambda>j. item_tower_row draw m (d_itemEmbeddings m ! j)
                              (replicate (numGenres m) 0)) [a..<b]),
            item_layers_built draw m)"
    and "tf_dot (map (\<lambda>j. item_tower_row draw m (d_itemEmbeddings m ! j)
                              (replicate (numGenres m) 0)) [a..<b]) u
         = Inr (map (item_score draw m u) [a..<b])"
proof -
  have idx: "map (\<lambda>j. int (a + j)) [0..<b - a] = map int [a..<b]"
    using assms(3) by (intro nth_equalityI) simp_all
  from assms(1) have len: "length (d_itemEmbeddings m) = d_numItems m"
    and small: "d_numItems m \<le> 2147483648"
    by (simp_all add: wf_deep_def has_shape_def)
  have conv: "map to_int32 (map int [a..<b]) = map int [a..<b]"
    using assms(2) small by (intro map_idI) (auto simp: to_int32_nat)
  have ok: "gather_ok be (d_itemEmbeddings m) (map to_int32 (map int [a..<b]))"
    unfolding conv using assms(2) len by (simp add: gather_ok_def list_all_iff in_table_def)
  have rows: "read_rows (d_embeddingDim m) (d_itemEmbeddings m) (map to_int32 (map int [a..<b]))
              = map (\<lambda>j. d_itemEmbeddings m ! j) [a..<b]"
    unfolding conv using assms(2) len by (simp add: read_rows_def in_table_def comp_def)
  have gf: "map (\<lambda>x. replicate (numGenres m) (0::real)) (map int [a..<b])
            = replicate (b - a) (replicate (numGenres m) 0)"
    by (simp add: map_replicate_const)
  have t: "tf_tensor2d (replicate (b - a) (replicate (numGenres m) 0))
             (Some (length (map int [a..<b]))) (numGenres m)
           = Inr (replicate (b - a) (replicate (numGenres m) 0))"
    using tf_tensor2d_zeros [of "b - a" "numGenres m"] by simp
  have z: "map2 (item_tower_row draw m) (map (\<lambda>j. d_itemEmbeddings m ! j) [a..<b])
             (replicate (b - a) (replicate (numGenres m) 0))
           = map (\<lambda>j. item_tower_row draw m (d_itemEmbeddings m ! j)
                         (replicate (numGenres m) 0)) [a..<b]"
    by (intro nth_equalityI) simp_all
  show "itemForward be draw m (JsArray (map (\<lambda>j. int (a + j)) [0..<b - a]))
           (map (\<lambda>x. replicate (numGenres m) 0) (map (\<lambda>j. int (a + j)) [0..<b - a]))
         = (Inr (map (\<lambda>j. item_tower_row draw m (d_itemEmbeddings m ! j)
                              (replicate (numGenres m) 0)) [a..<b]),
            item_layers_built draw m)"
    unfolding idx gf using itemForward_ok [OF assms(1) ok t, of draw] by (simp only: rows z)
  show "tf_dot (map (\<lambda>j. item_tower_row draw m (d_itemEmbeddings m ! j)
                              (replicate (numGenres m) 0)) [a..<b]) u
         = Inr (map (item_score draw m u) [a..<b])"
    using item_tower_row_width [OF assms(1), of draw] assms(4)
    by (simp add: tf_dot_def list_all_iff item_score_def)
qed

lemma scoreBatches_run:
  assumes "0 < bs" "length u = d_embeddingDim m" "wf_deep m" "nb = ceil_div (d_numItems m) bs"
  shows "scoreBatches be draw u bs nb i acc m
         = (Inr (acc @ map (item_score draw m u) [i * bs..<d_numItems m]),
            if i < nb then item_layers_built draw m else m)"
  using assms(2,3,4)
proof (induction "nb - i" arbitrary: i acc m)
  case 0
  then have e: "\<not> i < nb" by simp
  then have "d_numItems m \<le> i * bs" using ceil_div_end [OF assms(1)] 0 by simp
  then show ?case using e by (subst scoreBatches.simps) simp
next
  case (Suc k)
  then have lt: "i < nb" by simp
  let ?n = "d_numItems m"
  let ?a = "i * bs"
  let ?b = "min (?a + bs) ?n"
  let ?m1 = "item_layers_built draw m"
  have a: "?a < ?n" using ceil_div_start [OF assms(1)] lt Suc.prems by simp
  then have ab: "?a < ?b" "?b \<le> ?n" using assms(1) by simp_all
  note f = itemForward_zero_genres(1) [OF Suc.prems(2) ab(2) ab(1) Suc.prems(1), of be draw]
    itemForward_zero_genres(2) [OF Suc.prems(2) ab(2) ab(1) Suc.prems(1), of draw]
  have wf1: "wf_deep ?m1" by (rule wf_deep_item_layers_built [OF Suc.prems(2)])
  have nb1: "nb = ceil_div (d_numItems ?m1) bs" using Suc.prems(3) by simp
  have k: "k = nb - Suc i" using Suc.hyps(2) by simp
  have u1: "length u = d_embeddingDim ?m1" using Suc.prems(1) by simp
  have IH: "scoreBatches be draw u bs nb (Suc i) (acc @ map (item_score draw m u) [?a..<?b]) ?m1
      = (Inr ((acc @ map (item_score draw m u) [?a..<?b])
               @ map (item_score draw m u) [Suc i * bs..<?n]), ?m1)"
    using Suc.hyps(1) [OF k u1 wf1 nb1, of "acc @ map (item_score draw m u) [?a..<?b]"]
    by (simp add: item_layers_built_idem [OF Suc.prems(2)])
  have split: "[?a..<?b] @ [Suc i * bs..<?n] = [?a..<?n]"
  proof (cases "?a + bs \<le> ?n")
    case True
    then have b: "?b = ?a + bs" and s: "Suc i * bs = ?a + bs" by (simp_all add: min_def)
    from True obtain r where r: "?n = (?a + bs) + r" using le_Suc_ex by blast
    have "[?a..<(?a + bs) + r] = [?a..<?a + bs] @ [?a + bs..<(?a + bs) + r]"
      by (rule upt_add_eq_append) simp
    then show ?thesis unfolding b s using r by simp
  next
    case False
    then have "?b = ?n" "?n \<le> Suc i * bs" by (simp_all add: min_def)
    then show ?thesis by simp
  qed
  have "scoreBatches be draw u bs nb i acc m
        = scoreBatches be draw u bs nb (Suc i) (acc @ map (item_score draw m u) [?a..<?b]) ?m1"
    using lt
    by (subst scoreBatches.simps)
       (simp add: Let_def f del: mult_Suc map_map of_nat_add of_nat_mult)
  also note IH
  finally show ?case using lt split by (simp add: map_append [symmetric] del: map_append mult_Suc)
qed

lemma scoresInBatchesOf_value:
  assumes "0 < bs" "length u = d_embeddingDim m" "wf_deep m"
  shows "fst (scoresInBatchesOf bs be draw m u)
         = Inr (map (item_score draw m u) [0..<d_numItems m])"
  using scoreBatches_run [OF assms refl, of be draw 0 "[]"]
  by (simp add: scoresInBatchesOf_def)

lemma unchunked_scores_value:
  assumes "length u = d_embeddingDim m" "wf_deep m"
  shows "unchunked_scores be draw m u = Inr (map (item_score draw m u) [0..<d_numItems m])"
proof (cases "d_numItems m = 0")
  case True
  have "tf_tensor2d [] (Some (length ([] :: int list))) (numGenres m) = Inr []"
    by (simp add: tf_tensor2d_def)
  then have "itemForward be draw m (JsArray []) [] = (Inr [], item_layers_built draw m)"
    using itemForward_ok [OF assms(2), of be "[]" "[]" "[]" draw]
    by (simp add: gather_ok_def read_rows_def)
  then show ?thesis using True by (simp add: unchunked_scores_def tf_dot_def)
next
  case False
  then have n: "0 < d_numItems m" by simp
  note f = itemForward_zero_genres [OF assms(2) le_refl n assms(1)]
  have i: "map (\<lambda>j. int (0 + j)) [0..<d_numItems m - 0] = map int [0..<d_numItems m]" by simp
  have g: "map (\<lambda>x. replicate (numGenres m) (0::real)) (map int [0..<d_numItems m])
           = replicate (d_numItems m) (replicate (numGenres m) 0)"
    by (simp add: map_replicate_const)
  show ?thesis
    unfolding unchunked_scores_def
    using f(1) [of be draw] f(2) [of draw] unfolding i g by simp
qed

section \<open>Rows a training step leaves alone\<close>

lemma adam_newValue_elem_zero: "adam_newValue_elem opt x 0 v = x"
  by (simp add: adam_newValue_elem_def)

lemma grad_gather_length: "length (grad_gather n d idx rows) = n"
  by (simp add: grad_gather_def)

lemma grad_gather_untouched:
  assumes "r < n" "int r \<notin> set idx"
  shows "grad_gather n d idx rows ! r = replicate d 0"
proof -
  have "filter (\<lambda>(i, g). i = int r) (zip idx rows) = []"
    using assms(2) by (auto simp: filter_empty_conv dest: set_zip_leftD)
  then show ?thesis using assms(1) by (simp add: grad_gather_def)
qed

lemma adam_apply_var_other_slot:
  "name' \<noteq> name \<Longrightarrow> slots (snd (adam_apply_var opt name x g)) name' = slots opt name'"
  by (simp add: adam_apply_var_def Let_def split: option.splits prod.splits)

lemma adam_newValue_row:
  assumes "r < length x" "r < length m" "r < length v"
  shows "adam_newValue opt x m v ! r
         = map2 (\<lambda>xe (me, ve). adam_newValue_elem opt xe me ve) (x ! r) (zip (m ! r) (v ! r))"
  using assms by (simp add: adam_newValue_def)

lemma newFirstMoment_row:
  assumes "r < length m" "r < length g"
  shows "newFirstMoment opt m g ! r
         = map2 (\<lambda>a b. a * beta1 opt + b * (1 - beta1 opt)) (m ! r) (g ! r)"
  using assms by (simp add: newFirstMoment_def)

lemma newSecondMoment_row:
  assumes "r < length v" "r < length g"
  shows "newSecondMoment opt v g ! r
         = map2 (\<lambda>a b. a * beta2 opt + b * b * (1 - beta2 opt)) (v ! r) (g ! r)"
  using assms by (simp add: newSecondMoment_def)

lemma adam_row_unchanged:
  assumes x: "has_shape x n d" and g: "length g = n" "g ! r = replicate d 0" and r: "r < n"
    and s: "slot_shape opt name n d" and z: "first_moment_zero opt name r"
  shows "fst (adam_apply_var opt name x g) ! r = x ! r"
proof -
  obtain M V where MV: "(case slots opt name of None \<Rightarrow> (zerosLike x, zerosLike x) | Some s \<Rightarrow> s)
      = (M, V)" by force
  from x r have xr: "length x = n" "length (x ! r) = d"
    by (auto simp: has_shape_def list_all_iff)
  have shape: "length M = n \<and> length V = n \<and> M ! r = replicate d 0 \<and> length (V ! r) = d"
  proof (cases "slots opt name")
    case None
    with MV have "M = zerosLike x" "V = zerosLike x" by auto
    then show ?thesis using xr r by (simp add: zerosLike_def)
  next
    case (Some p)
    with MV have p: "p = (M, V)" by simp
    from s Some p have "has_shape M n d" "has_shape V n d" by (simp_all add: slot_shape_def)
    then have l: "length M = n" "length V = n" "length (M ! r) = d" "length (V ! r) = d"
      using r by (auto simp: has_shape_def list_all_iff)
    from z Some p have "list_all (\<lambda>x. x = 0) (M ! r)" by (simp add: first_moment_zero_def)
    then have "M ! r = replicate d 0"
      using l(3) by (intro nth_equalityI) (auto simp: list_all_iff)
    with l show ?thesis by simp
  qed
  let ?m = "newFirstMoment opt M g"
  let ?v = "newSecondMoment opt V g"
  have mr: "?m ! r = replicate d 0"
    using shape g r by (simp add: newFirstMoment_row)
  have vr: "length (?v ! r) = d"
    using shape g r by (simp add: newSecondMoment_row)
  have lens: "r < length x" "r < length ?m" "r < length ?v"
    using xr shape g r by (simp_all add: newFirstMoment_def newSecondMoment_def)
  have "adam_newValue opt x ?m ?v ! r = x ! r"
    unfolding adam_newValue_row [OF lens] mr
    using xr vr by (intro nth_equalityI) (simp_all add: adam_newValue_elem_zero)
  then show ?thesis by (simp add: adam_apply_var_def MV Let_def)
qed

lemma basic_grads_accepted:
  assumes "gather_ok be (userEmbeddings m) (index_values ut)"
    "gather_ok be (itemEmbeddings m) (index_values it)"
  shows "\<exists>dU dI. basic_grads be m ut it n
           = (grad_gather (length (userEmbeddings m)) (embeddingDim m) (index_values ut) dU,
              grad_gather (length (itemEmbeddings m)) (embeddingDim m) (index_values it) dI)"
  using assms
  by (auto simp: basic_grads_def basic_userForward_def basic_itemForward_def tf_gather_ok
      split: prod.splits)

lemma basic_gradients_accepted:
  assumes "accepted_batch be (userEmbeddings m) (itemEmbeddings m) us idx"
  shows "\<exists>dU. basic_user_gradient be m us idx
           = grad_gather (length (userEmbeddings m)) (embeddingDim m) (map to_int32 us) dU"
    and "\<exists>dI. basic_item_gradient be m us idx
           = grad_gather (length (itemEmbeddings m)) (embeddingDim m) (map to_int32 idx) dI"
proof -
  from assms have g: "gather_ok be (userEmbeddings m) (index_values (tf_tensor1d_int32 us))"
    "gather_ok be (itemEmbeddings m) (index_values (tf_tensor1d_int32 idx))"
    by (simp_all add: accepted_batch_def)
  from basic_grads_accepted [OF g, of "length us"]
  show "\<exists>dU. basic_user_gradient be m us idx
           = grad_gather (length (userEmbeddings m)) (embeddingDim m) (map to_int32 us) dU"
    and "\<exists>dI. basic_item_gradient be m us idx
           = grad_gather (length (itemEmbeddings m)) (embeddingDim m) (map to_int32 idx) dI"
    by (auto simp: basic_user_gradient_def basic_item_gradient_def)
qed

lemma basic_trainStep_accepted:
  assumes "wf_basic m" "accepted_batch be (userEmbeddings m) (itemEmbeddings m) us idx"
  shows "snd (basic_trainStep be m us idx)
         = basic_applyGradients m
             (basic_user_gradient be m us idx, basic_item_gradient be m us idx)"
  by (simp add: basic_trainStep_accepted_value [OF assms] basic_user_gradient_def
      basic_item_gradient_def)

lemma softmax_equal_pair: "softmax [a, a] = [1 / 2, 1 / 2]"
proof -
  have "logSumExp [a, a] = ln 2 + a"
    by (simp add: logSumExp_def ln_mult [symmetric] mult_2 [symmetric] del: ln_mult)
       (simp add: ln_mult)
  then show ?thesis by (simp add: softmax_def exp_diff exp_add field_simps)
qed

lemma example_indices [simp]:
  "to_int32 0 = 0" "to_int32 1 = 1" "to_int32 2 = 2" "to_int32 3 = 3" "to_int32 7 = 7"
  "to_int32 4294967296 = 0"
  by (simp_all add: to_int32_def)

lemma duplicate_item_user_gradient:
  "basic_user_gradient Cpu example_basic [0, 1] [0, 0] ! 0 = replicate 2 0"
  by (simp add: basic_user_gradient_def basic_grads_def basic_userForward_def
      basic_itemForward_def tf_gather_def in_table_def
      example_basic_fields in_batch_grads_def grad_logits_def grad_matMul_left_def
      grad_matMul_right_def grad_gather_def weighted_sum_def vadd_def vscale_def
      softmax_equal_pair dot_def Let_def upt_rec numeral_2_eq_2)


lemma example_basic_fresh:
  "slots (optimizer example_basic) name = None"
  by (simp add: example_basic_fields tf_train_adam_def)

lemma example_basic_duplicate_accepted:
  "accepted_batch Cpu (userEmbeddings example_basic) (itemEmbeddings example_basic) [0, 1] [0, 0]"
  by (simp add: accepted_batch_def gather_ok_def in_table_def example_basic_fields)

lemma basic_applyGradients_users:
  "userEmbeddings (basic_applyGradients m g)
     = fst (adam_apply_var (optimizer m) ''basic_user_embeddings'' (userEmbeddings m) (fst g))"
  by (simp add: basic_applyGradients_def split: prod.splits)

lemma softmax_pair: "\<exists>q. 0 < q \<and> q < 1 \<and> softmax [a, b] = [1 - q, q]"
proof -
  let ?s = "exp a + exp b"
  have s: "0 < ?s" by (simp add: add_pos_pos)
  have l: "logSumExp [a, b] = ln ?s" by (simp add: logSumExp_def)
  have e: "exp (x - ln ?s) = exp x / ?s" for x using s by (simp add: exp_diff)
  have "softmax [a, b] = [exp a / ?s, exp b / ?s]" by (simp add: softmax_def l e)
  moreover have "exp a / ?s = 1 - exp b / ?s" using s by (simp add: field_simps)
  moreover have "0 < exp b / ?s" using s by simp
  moreover have "exp b / ?s < 1" using s by (simp add: field_simps)
  ultimately show ?thesis by (intro exI [of _ "exp b / ?s"]) simp
qed

lemma has_shape_nth: "has_shape x n d \<Longrightarrow> r < n \<Longrightarrow> length (x ! r) = d"
  by (auto simp: has_shape_def list_all_iff)

lemma has_shapeI: "length x = n \<Longrightarrow> (\<And>r. r < n \<Longrightarrow> length (x ! r) = d) \<Longrightarrow> has_shape x n d"
  by (auto simp: has_shape_def list_all_iff in_set_conv_nth)

lemma has_shape_zerosLike: "has_shape x n d \<Longrightarrow> has_shape (zerosLike x) n d"
  by (auto simp: has_shape_def zerosLike_def list_all_iff)

lemma has_shape_newFirstMoment:
  assumes "has_shape m n d" "has_shape g n d"
  shows "has_shape (newFirstMoment opt m g) n d"
  using assms has_shape_nth [OF assms(1)] has_shape_nth [OF assms(2)]
  by (intro has_shapeI) (simp_all add: newFirstMoment_def has_shape_def)

lemma has_shape_newSecondMoment:
  assumes "has_shape v n d" "has_shape g n d"
  shows "has_shape (newSecondMoment opt v g) n d"
  using assms has_shape_nth [OF assms(1)] has_shape_nth [OF assms(2)]
  by (intro has_shapeI) (simp_all add: newSecondMoment_def has_shape_def)

lemma has_shape_adam_newValue:
  assumes "has_shape x n d" "has_shape m n d" "has_shape v n d"
  shows "has_shape (adam_newValue opt x m v) n d"
  using assms has_shape_nth [OF assms(1)] has_shape_nth [OF assms(2)] has_shape_nth [OF assms(3)]
  by (intro has_shapeI) (simp_all add: adam_newValue_def has_shape_def)

lemma length_foldr_vadd:
  "list_all (\<lambda>r. length r = d) rows \<Longrightarrow> length (foldr vadd rows (replicate d 0)) = d"
  by (induction rows) (simp_all add: length_vadd)

lemma has_shape_grad_gather:
  assumes "list_all (\<lambda>r. length r = d) rows"
  shows "has_shape (grad_gather n d idx rows) n d"
proof (intro has_shapeI)
  show "length (grad_gather n d idx rows) = n" by (rule grad_gather_length)
  fix r assume "r < n"
  have "list_all (\<lambda>r. length r = d) (map snd (filter (\<lambda>(i, g). i = int r) (zip idx rows)))"
    using assms by (auto simp: list_all_iff dest: set_zip_rightD)
  then show "length (grad_gather n d idx rows ! r) = d"
    using \<open>r < n\<close> by (simp add: grad_gather_def length_foldr_vadd)
qed

lemma in_batch_grads_widths:
  assumes "list_all (\<lambda>r. length r = d) a" "list_all (\<lambda>r. length r = d) b"
    "in_batch_grads d n a b = (dU, dI)"
  shows "list_all (\<lambda>r. length r = d) dU" "list_all (\<lambda>r. length r = d) dI"
  using assms
  by (auto simp: in_batch_grads_def Let_def grad_matMul_left_def grad_matMul_right_def
      list_all_iff length_weighted_sum)

lemma adam_apply_var_eq:
  "adam_apply_var opt name x g
   = (adam_newValue opt x (newFirstMoment opt (fst (slot_or_zeros opt name x)) g)
        (newSecondMoment opt (snd (slot_or_zeros opt name x)) g),
      opt\<lparr>slots := (slots opt)(name \<mapsto>
             (newFirstMoment opt (fst (slot_or_zeros opt name x)) g,
              newSecondMoment opt (snd (slot_or_zeros opt name x)) g))\<rparr>)"
  by (simp add: adam_apply_var_def slot_or_zeros_def Let_def split: option.splits prod.splits)

lemma slot_or_zeros_shape:
  assumes "has_shape x n d" "slot_shape opt name n d"
  shows "has_shape (fst (slot_or_zeros opt name x)) n d"
    "has_shape (snd (slot_or_zeros opt name x)) n d"
  using assms has_shape_zerosLike [OF assms(1)]
  by (auto simp: slot_or_zeros_def slot_shape_def split: option.splits)

lemma adam_apply_var_shape:
  assumes "has_shape x n d" "has_shape g n d" "slot_shape opt name n d"
  shows "has_shape (fst (adam_apply_var opt name x g)) n d"
    and "slot_shape (snd (adam_apply_var opt name x g)) name n d"
    and "name' \<noteq> name \<Longrightarrow> slot_shape opt name' n' d'
           \<Longrightarrow> slot_shape (snd (adam_apply_var opt name x g)) name' n' d'"
proof -
  note z = slot_or_zeros_shape [OF assms(1,3)]
  note m = has_shape_newFirstMoment [OF z(1) assms(2), of opt]
  note v = has_shape_newSecondMoment [OF z(2) assms(2), of opt]
  show "has_shape (fst (adam_apply_var opt name x g)) n d"
    by (simp add: adam_apply_var_eq has_shape_adam_newValue [OF assms(1) m v])
  show "slot_shape (snd (adam_apply_var opt name x g)) name n d"
    by (simp add: adam_apply_var_eq slot_shape_def m v)
  show "name' \<noteq> name \<Longrightarrow> slot_shape opt name' n' d'
           \<Longrightarrow> slot_shape (snd (adam_apply_var opt name x g)) name' n' d'"
    by (simp add: adam_apply_var_eq slot_shape_def)
qed

lemma slot_shape_adam_finish [simp]:
  "slot_shape (adam_finish opt) name n d = slot_shape opt name n d"
  by (simp add: slot_shape_def adam_finish_def)

lemma basic_grads_shape:
  assumes "wf_basic m"
  shows "has_shape (fst (basic_grads be m ut it n)) (numUsers m) (embeddingDim m)"
    and "has_shape (snd (basic_grads be m ut it n)) (numItems m) (embeddingDim m)"
proof -
  let ?d = "embeddingDim m"
  let ?us = "index_values ut"
  let ?is = "index_values it"
  from assms have su: "has_shape (userEmbeddings m) (numUsers m) ?d"
    and si: "has_shape (itemEmbeddings m) (numItems m) ?d" by (simp_all add: wf_basic_def)
  have both: "has_shape (fst (basic_grads be m ut it n)) (numUsers m) ?d
      \<and> has_shape (snd (basic_grads be m ut it n)) (numItems m) ?d"
  proof (cases "gather_ok be (userEmbeddings m) ?us \<and> gather_ok be (itemEmbeddings m) ?is")
    case True
    obtain dU dI where g: "in_batch_grads ?d n (read_rows ?d (userEmbeddings m) ?us)
        (read_rows ?d (itemEmbeddings m) ?is) = (dU, dI)" by force
    have "list_all (\<lambda>r. length r = ?d) (read_rows ?d (userEmbeddings m) ?us)"
      "list_all (\<lambda>r. length r = ?d) (read_rows ?d (itemEmbeddings m) ?is)"
      using read_rows_shape [OF su, of ?us] read_rows_shape [OF si, of ?is]
      by (simp_all add: has_shape_def)
    note w = in_batch_grads_widths [OF this g]
    show ?thesis
      using True su si has_shape_grad_gather [OF w(1)] has_shape_grad_gather [OF w(2)]
      by (simp add: basic_grads_def basic_userForward_def basic_itemForward_def tf_gather_ok g
          has_shape_def)
  next
    case False
    then show ?thesis
      using has_shape_zerosLike [OF su] has_shape_zerosLike [OF si]
      by (auto simp: basic_grads_def basic_userForward_def basic_itemForward_def tf_gather_fail
          split: sum.splits)
  qed
  then show "has_shape (fst (basic_grads be m ut it n)) (numUsers m) ?d"
    and "has_shape (snd (basic_grads be m ut it n)) (numItems m) ?d" by simp_all
qed

lemma basic_applyGradients_eq:
  "basic_applyGradients m g
   = m\<lparr>userEmbeddings :=
         fst (adam_apply_var (optimizer m) ''basic_user_embeddings'' (userEmbeddings m) (fst g)),
       itemEmbeddings :=
         fst (adam_apply_var
                (snd (adam_apply_var (optimizer m) ''basic_user_embeddings''
                        (userEmbeddings m) (fst g)))
                ''basic_item_embeddings'' (itemEmbeddings m) (snd g)),
       optimizer :=
         adam_finish
           (snd (adam_apply_var
                   (snd (adam_apply_var (optimizer m) ''basic_user_embeddings''
                           (userEmbeddings m) (fst g)))
                   ''basic_item_embeddings'' (itemEmbeddings m) (snd g)))\<rparr>"
  by (simp add: basic_applyGradients_def split: prod.splits)

lemma wf_basic_applyGradients:
  assumes "wf_basic m" "has_shape (fst g) (numUsers m) (embeddingDim m)"
    "has_shape (snd g) (numItems m) (embeddingDim m)"
  shows "wf_basic (basic_applyGradients m g)"
proof -
  from assms(1) have su: "has_shape (userEmbeddings m) (numUsers m) (embeddingDim m)"
    and si: "has_shape (itemEmbeddings m) (numItems m) (embeddingDim m)"
    and ou: "slot_shape (optimizer m) ''basic_user_embeddings'' (numUsers m) (embeddingDim m)"
    and oi: "slot_shape (optimizer m) ''basic_item_embeddings'' (numItems m) (embeddingDim m)"
    by (simp_all add: wf_basic_def)
  let ?o1 = "snd (adam_apply_var (optimizer m) ''basic_user_embeddings'' (userEmbeddings m) (fst g))"
  note u = adam_apply_var_shape [OF su assms(2) ou]
  have oi1: "slot_shape ?o1 ''basic_item_embeddings'' (numItems m) (embeddingDim m)"
    by (rule u(3) [OF _ oi]) simp
  note i = adam_apply_var_shape [OF si assms(3) oi1]
  have ou2: "slot_shape (snd (adam_apply_var ?o1 ''basic_item_embeddings'' (itemEmbeddings m) (snd g)))
      ''basic_user_embeddings'' (numUsers m) (embeddingDim m)"
    by (rule i(3) [OF _ u(2)]) simp
  show ?thesis
    unfolding basic_applyGradients_eq
    using u(1) i(1) i(2) ou2 by (simp add: wf_basic_def)
qed

lemma wf_basic_trainStep:
  assumes "wf_basic m"
  shows "wf_basic (snd (basic_trainStep be m us idx))"
  using assms wf_basic_applyGradients [OF assms basic_grads_shape [OF assms]]
  by (simp add: basic_trainStep_def Let_def split: sum.splits)

lemma basic_gradient_shapes:
  assumes "wf_basic m"
  shows "has_shape (basic_user_gradient be m us idx) (numUsers m) (embeddingDim m)"
    and "has_shape (basic_item_gradient be m us idx) (numItems m) (embeddingDim m)"
  using basic_grads_shape [OF assms]
  by (simp_all add: basic_user_gradient_def basic_item_gradient_def)

lemma adam_newValue_elem_changes:
  assumes "m \<noteq> 0" "0 \<le> v" "accBeta1 opt \<noteq> 1" "accBeta2 opt < 1" "0 < epsilon opt"
    "learningRate opt \<noteq> 0"
  shows "adam_newValue_elem opt x m v \<noteq> x"
proof -
  have "0 \<le> v / (1 - accBeta2 opt)" using assms(2,4) by simp
  then have "0 \<le> sqrt (v / (1 - accBeta2 opt))" by simp
  then have "0 < sqrt (v / (1 - accBeta2 opt)) + epsilon opt" using assms(5) by linarith
  then show ?thesis using assms(1,3,6) by (simp add: adam_newValue_elem_def)
qed

lemma second_moment_step_nonneg:
  fixes v b y :: real
  assumes "0 \<le> v" "0 \<le> b" "b \<le> 1"
  shows "0 \<le> v * b + y * y * (1 - b)"
proof -
  have "0 \<le> v * b" using assms(1,2) by (rule mult_nonneg_nonneg)
  moreover have "0 \<le> y * y * (1 - b)"
    by (intro mult_nonneg_nonneg zero_le_square) (use assms(3) in simp)
  ultimately show ?thesis by (rule add_nonneg_nonneg)
qed

lemma product_below_one:
  fixes a b :: real
  assumes "0 < a" "a < 1" "0 < b" "b < 1"
  shows "a * b < 1"
  using mult_strict_mono [of a 1 b 1] assms by simp

lemma adam_apply_var_elem:
  assumes x: "has_shape x n d" and g: "has_shape g n d" and r: "r < n" and c: "c < d"
    and z: "slot_or_zeros opt name x = (M, V)" and s: "has_shape M n d" "has_shape V n d"
  shows "fst (adam_apply_var opt name x g) ! r ! c
         = adam_newValue_elem opt (x ! r ! c)
             (M ! r ! c * beta1 opt + g ! r ! c * (1 - beta1 opt))
             (V ! r ! c * beta2 opt + g ! r ! c * g ! r ! c * (1 - beta2 opt))"
proof -
  have l: "length x = n" "length M = n" "length V = n" "length g = n" "length (x ! r) = d"
    "length (M ! r) = d" "length (V ! r) = d" "length (g ! r) = d"
    using x g s r by (auto simp: has_shape_def list_all_iff)
  let ?m = "newFirstMoment opt M g"
  let ?v = "newSecondMoment opt V g"
  have mr: "?m ! r ! c = M ! r ! c * beta1 opt + g ! r ! c * (1 - beta1 opt)"
    using l r c by (simp add: newFirstMoment_row)
  have vr: "?v ! r ! c = V ! r ! c * beta2 opt + g ! r ! c * g ! r ! c * (1 - beta2 opt)"
    using l r c by (simp add: newSecondMoment_row)
  have lm: "length (?m ! r) = d" "length (?v ! r) = d"
    using l r by (simp_all add: newFirstMoment_row newSecondMoment_row)
  have lens: "r < length x" "r < length ?m" "r < length ?v"
    using l r by (simp_all add: newFirstMoment_def newSecondMoment_def)
  show ?thesis
    unfolding adam_apply_var_eq z
    using l lm c by (simp add: adam_newValue_row [OF lens] mr vr)
qed

lemma adam_row_changes:
  assumes x: "has_shape x n d" and g: "has_shape g n d" "g ! r = replicate d 0"
    and r: "r < n" and c: "c < d"
    and s: "slots opt name = Some (M, V)" "has_shape M n d" "has_shape V n d"
    and m: "M ! r ! c \<noteq> 0" "0 \<le> V ! r ! c"
    and o: "beta1 opt \<noteq> 0" "0 \<le> beta2 opt" "accBeta1 opt \<noteq> 1" "accBeta2 opt < 1"
      "0 < epsilon opt" "learningRate opt \<noteq> 0"
  shows "fst (adam_apply_var opt name x g) ! r ! c \<noteq> x ! r ! c"
proof -
  have z: "slot_or_zeros opt name x = (M, V)" by (simp add: slot_or_zeros_def s(1))
  have g0: "g ! r ! c = 0" using g(2) c by simp
  have "M ! r ! c * beta1 opt \<noteq> 0" using m(1) o(1) by simp
  moreover have "0 \<le> V ! r ! c * beta2 opt" using m(2) o(2) by simp
  ultimately show ?thesis
    unfolding adam_apply_var_elem [OF x g(1) r c z s(2,3)] g0
    using adam_newValue_elem_changes [OF _ _ o(3,4,5,6)] by simp
qed

lemma adam_row_changes_by_gradient:
  assumes x: "has_shape x n d" and g: "has_shape g n d" "g ! r ! c \<noteq> 0"
    and r: "r < n" and c: "c < d"
    and s: "slot_shape opt name n d" and z: "first_moment_zero opt name r"
    and ms: "moments_sound opt name"
    and o: "beta1 opt \<noteq> 1" "0 \<le> beta2 opt" "beta2 opt \<le> 1" "accBeta1 opt \<noteq> 1"
      "accBeta2 opt < 1" "0 < epsilon opt" "learningRate opt \<noteq> 0"
  shows "fst (adam_apply_var opt name x g) ! r ! c \<noteq> x ! r ! c"
proof -
  obtain M V where MV: "slot_or_zeros opt name x = (M, V)" by force
  have sh: "has_shape M n d" "has_shape V n d"
    using slot_or_zeros_shape [OF x s] by (simp_all add: MV)
  from x r have xr: "length x = n" "length (x ! r) = d"
    by (auto simp: has_shape_def list_all_iff)
  have l: "length M = n" "length V = n" "length (M ! r) = d" "length (V ! r) = d"
    using sh r by (auto simp: has_shape_def list_all_iff)
  have M0: "M ! r ! c = 0" and V0: "0 \<le> V ! r ! c"
  proof -
    show "M ! r ! c = 0"
    proof (cases "slots opt name")
      case None
      with MV have "M = zerosLike x" by (auto simp: slot_or_zeros_def)
      then show ?thesis using xr r c by (simp add: zerosLike_def)
    next
      case (Some p)
      with MV have "p = (M, V)" by (simp add: slot_or_zeros_def)
      with z Some have "list_all (\<lambda>x. x = 0) (M ! r)" by (simp add: first_moment_zero_def)
      then show ?thesis using l(3) c by (simp add: list_all_length)
    qed
    show "0 \<le> V ! r ! c"
    proof (cases "slots opt name")
      case None
      with MV have "V = zerosLike x" by (auto simp: slot_or_zeros_def)
      then show ?thesis using xr r c by (simp add: zerosLike_def)
    next
      case (Some p)
      with MV have "p = (M, V)" by (simp add: slot_or_zeros_def)
      with ms Some have "list_all (list_all (\<lambda>x. 0 \<le> x)) V" by (simp add: moments_sound_def)
      then show ?thesis using l r c by (simp add: list_all_length)
    qed
  qed
  have "g ! r ! c * (1 - beta1 opt) \<noteq> 0" using g(2) o(1) by simp
  moreover have "0 \<le> V ! r ! c * beta2 opt + g ! r ! c * g ! r ! c * (1 - beta2 opt)"
    using V0 o(2,3) by (rule second_moment_step_nonneg)
  ultimately show ?thesis
    unfolding adam_apply_var_elem [OF x g(1) r c MV sh] M0
    using adam_newValue_elem_changes [OF _ _ o(4,5,6,7)] by simp
qed

text \<open>
  A row of a variable whose first moment is zero keeps its value exactly when the row
  of the gradient is zero.
\<close>

lemma adam_row_kept_iff:
  assumes x: "has_shape x n d" and g: "has_shape g n d" and r: "r < n"
    and s: "slot_shape opt name n d" and z: "first_moment_zero opt name r"
    and ms: "moments_sound opt name"
    and o: "beta1 opt \<noteq> 1" "0 \<le> beta2 opt" "beta2 opt \<le> 1" "accBeta1 opt \<noteq> 1"
      "accBeta2 opt < 1" "0 < epsilon opt" "learningRate opt \<noteq> 0"
  shows "fst (adam_apply_var opt name x g) ! r = x ! r \<longleftrightarrow> g ! r = replicate d 0"
proof
  assume "g ! r = replicate d 0"
  moreover have "length g = n" using g by (simp add: has_shape_def)
  ultimately show "fst (adam_apply_var opt name x g) ! r = x ! r"
    using adam_row_unchanged [OF x _ _ r s z] by blast
next
  assume same: "fst (adam_apply_var opt name x g) ! r = x ! r"
  have lg: "length (g ! r) = d" by (rule has_shape_nth [OF g r])
  show "g ! r = replicate d 0"
  proof (rule ccontr)
    assume "g ! r \<noteq> replicate d 0"
    then obtain c where c: "c < d" "g ! r ! c \<noteq> 0"
      using lg by (auto simp: list_eq_iff_nth_eq)
    from adam_row_changes_by_gradient [OF x g c(2) r c(1) s z ms o] same
    show False by simp
  qed
qed

lemma moments_sound_other:
  "name' \<noteq> name
   \<Longrightarrow> moments_sound (snd (adam_apply_var opt name x g)) name' = moments_sound opt name'"
  by (simp add: moments_sound_def adam_apply_var_other_slot)

lemma first_moment_zero_other:
  "name' \<noteq> name
   \<Longrightarrow> first_moment_zero (snd (adam_apply_var opt name x g)) name' r
       = first_moment_zero opt name' r"
  by (simp add: first_moment_zero_def adam_apply_var_other_slot)

lemma slot_shape_other:
  "name' \<noteq> name
   \<Longrightarrow> slot_shape (snd (adam_apply_var opt name x g)) name' n d = slot_shape opt name' n d"
  by (simp add: slot_shape_def adam_apply_var_other_slot)

lemma adam_apply_var_scalars [simp]:
  "learningRate (snd (adam_apply_var opt name x g)) = learningRate opt"
  "beta1 (snd (adam_apply_var opt name x g)) = beta1 opt"
  "beta2 (snd (adam_apply_var opt name x g)) = beta2 opt"
  "epsilon (snd (adam_apply_var opt name x g)) = epsilon opt"
  "accBeta1 (snd (adam_apply_var opt name x g)) = accBeta1 opt"
  "accBeta2 (snd (adam_apply_var opt name x g)) = accBeta2 opt"
  by (simp_all add: adam_apply_var_eq)

text \<open>
  The rows of the two tables of the basic model after a step on an accepted batch: a row
  whose first moment is zero keeps its value exactly when its row of the gradient is
  zero, and the gradient is zero in every row that no index of the batch names.
\<close>

lemma basic_rows_kept_iff:
  assumes wf: "wf_basic m" and os: "optimizer_sound (optimizer m)"
    and acc: "accepted_batch be (userEmbeddings m) (itemEmbeddings m) us idx"
  shows "r < numUsers m \<Longrightarrow> first_moment_zero (optimizer m) ''basic_user_embeddings'' r
           \<Longrightarrow> (userEmbeddings (snd (basic_trainStep be m us idx)) ! r = userEmbeddings m ! r
                \<longleftrightarrow> basic_user_gradient be m us idx ! r = replicate (embeddingDim m) 0)"
    and "r < numItems m \<Longrightarrow> first_moment_zero (optimizer m) ''basic_item_embeddings'' r
           \<Longrightarrow> (itemEmbeddings (snd (basic_trainStep be m us idx)) ! r = itemEmbeddings m ! r
                \<longleftrightarrow> basic_item_gradient be m us idx ! r = replicate (embeddingDim m) 0)"
proof -
  let ?gu = "basic_user_gradient be m us idx"
  let ?gi = "basic_item_gradient be m us idx"
  let ?o1 = "snd (adam_apply_var (optimizer m) ''basic_user_embeddings'' (userEmbeddings m) ?gu)"
  from wf have su: "has_shape (userEmbeddings m) (numUsers m) (embeddingDim m)"
    and si: "has_shape (itemEmbeddings m) (numItems m) (embeddingDim m)"
    and ou: "slot_shape (optimizer m) ''basic_user_embeddings'' (numUsers m) (embeddingDim m)"
    and oi: "slot_shape (optimizer m) ''basic_item_embeddings'' (numItems m) (embeddingDim m)"
    by (simp_all add: wf_basic_def)
  note gs = basic_gradient_shapes [OF wf, of be us idx]
  from os have o: "beta1 (optimizer m) \<noteq> 1" "0 \<le> beta2 (optimizer m)"
    "beta2 (optimizer m) \<le> 1" "accBeta1 (optimizer m) \<noteq> 1" "accBeta2 (optimizer m) < 1"
    "0 < epsilon (optimizer m)" "learningRate (optimizer m) \<noteq> 0"
    and mu: "moments_sound (optimizer m) ''basic_user_embeddings''"
    and mi: "moments_sound (optimizer m) ''basic_item_embeddings''"
    by (simp_all add: optimizer_sound_def)
  have after: "userEmbeddings (snd (basic_trainStep be m us idx))
                 = fst (adam_apply_var (optimizer m) ''basic_user_embeddings''
                          (userEmbeddings m) ?gu)"
    "itemEmbeddings (snd (basic_trainStep be m us idx))
                 = fst (adam_apply_var ?o1 ''basic_item_embeddings'' (itemEmbeddings m) ?gi)"
    by (simp_all add: basic_trainStep_accepted [OF wf acc] basic_applyGradients_eq)
  show "userEmbeddings (snd (basic_trainStep be m us idx)) ! r = userEmbeddings m ! r
          \<longleftrightarrow> ?gu ! r = replicate (embeddingDim m) 0"
    if "r < numUsers m" "first_moment_zero (optimizer m) ''basic_user_embeddings'' r"
    unfolding after by (rule adam_row_kept_iff [OF su gs(1) that(1) ou that(2) mu o])
  show "itemEmbeddings (snd (basic_trainStep be m us idx)) ! r = itemEmbeddings m ! r
          \<longleftrightarrow> ?gi ! r = replicate (embeddingDim m) 0"
    if "r < numItems m" "first_moment_zero (optimizer m) ''basic_item_embeddings'' r"
  proof -
    have p: "slot_shape ?o1 ''basic_item_embeddings'' (numItems m) (embeddingDim m)"
      "first_moment_zero ?o1 ''basic_item_embeddings'' r"
      "moments_sound ?o1 ''basic_item_embeddings''"
      using oi that(2) mi
      by (simp_all add: slot_shape_other first_moment_zero_other moments_sound_other)
    have o1: "beta1 ?o1 \<noteq> 1" "0 \<le> beta2 ?o1" "beta2 ?o1 \<le> 1" "accBeta1 ?o1 \<noteq> 1"
      "accBeta2 ?o1 < 1" "0 < epsilon ?o1" "learningRate ?o1 \<noteq> 0"
      using o by simp_all
    show ?thesis
      unfolding after by (rule adam_row_kept_iff [OF si gs(2) that(1) p o1])
  qed
qed

lemma basic_gradient_untouched:
  assumes wf: "wf_basic m"
    and acc: "accepted_batch be (userEmbeddings m) (itemEmbeddings m) us idx"
  shows "r < numUsers m \<Longrightarrow> int r \<notin> set (map to_int32 us)
           \<Longrightarrow> basic_user_gradient be m us idx ! r = replicate (embeddingDim m) 0"
    and "r < numItems m \<Longrightarrow> int r \<notin> set (map to_int32 idx)
           \<Longrightarrow> basic_item_gradient be m us idx ! r = replicate (embeddingDim m) 0"
proof -
  from wf have lu: "length (userEmbeddings m) = numUsers m"
    and li: "length (itemEmbeddings m) = numItems m" by (simp_all add: wf_basic_def has_shape_def)
  obtain dU where gu: "basic_user_gradient be m us idx
      = grad_gather (numUsers m) (embeddingDim m) (map to_int32 us) dU"
    using basic_gradients_accepted(1) [OF acc] lu by auto
  obtain dI where gi: "basic_item_gradient be m us idx
      = grad_gather (numItems m) (embeddingDim m) (map to_int32 idx) dI"
    using basic_gradients_accepted(2) [OF acc] li by auto
  show "r < numUsers m \<Longrightarrow> int r \<notin> set (map to_int32 us)
           \<Longrightarrow> basic_user_gradient be m us idx ! r = replicate (embeddingDim m) 0"
    unfolding gu by (rule grad_gather_untouched)
  show "r < numItems m \<Longrightarrow> int r \<notin> set (map to_int32 idx)
           \<Longrightarrow> basic_item_gradient be m us idx ! r = replicate (embeddingDim m) 0"
    unfolding gi by (rule grad_gather_untouched)
qed

text \<open>A training step keeps the optimizer sound.\<close>

lemma newSecondMoment_nonneg:
  assumes "list_all (list_all (\<lambda>x. 0 \<le> x)) V" "0 \<le> beta2 opt" "beta2 opt \<le> 1"
  shows "list_all (list_all (\<lambda>x. 0 \<le> x)) (newSecondMoment opt V g)"
proof -
  have "0 \<le> v * beta2 opt + y * y * (1 - beta2 opt)" if "0 \<le> v" for v y :: real
    using that assms(2,3) by (rule second_moment_step_nonneg)
  then show ?thesis
    using assms(1)
    by (auto simp: newSecondMoment_def list_all_iff dest!: set_zip_leftD)
qed

lemma zerosLike_nonneg: "list_all (list_all (\<lambda>x. 0 \<le> x)) (zerosLike x)"
  by (simp add: zerosLike_def list_all_iff)

lemma moments_sound_apply:
  assumes "moments_sound opt name" "0 \<le> beta2 opt" "beta2 opt \<le> 1"
  shows "moments_sound (snd (adam_apply_var opt name x g)) name"
proof -
  have "list_all (list_all (\<lambda>x. 0 \<le> x)) (snd (slot_or_zeros opt name x))"
    using assms(1) zerosLike_nonneg [of x]
    by (auto simp: slot_or_zeros_def moments_sound_def split: option.splits)
  then show ?thesis
    using newSecondMoment_nonneg [OF _ assms(2,3)]
    by (simp add: moments_sound_def adam_apply_var_eq)
qed

lemma optimizer_sound_trainStep:
  assumes "optimizer_sound (optimizer m)"
  shows "optimizer_sound (optimizer (snd (basic_trainStep be m us idx)))"
proof (cases "basic_loss be m (tf_tensor1d_int32 us) (tf_tensor1d_int32 idx) (length us)")
  case (Inl e)
  with assms show ?thesis by (simp add: basic_trainStep_def Let_def)
next
  case (Inr v)
  let ?g = "basic_grads be m (tf_tensor1d_int32 us) (tf_tensor1d_int32 idx) (length us)"
  let ?o1 = "snd (adam_apply_var (optimizer m) ''basic_user_embeddings'' (userEmbeddings m)
                    (fst ?g))"
  let ?o2 = "snd (adam_apply_var ?o1 ''basic_item_embeddings'' (itemEmbeddings m) (snd ?g))"
  from assms have b: "0 \<le> beta2 (optimizer m)" "beta2 (optimizer m) \<le> 1"
    and mu: "moments_sound (optimizer m) ''basic_user_embeddings''"
    and mi: "moments_sound (optimizer m) ''basic_item_embeddings''"
    by (simp_all add: optimizer_sound_def)
  have u1: "moments_sound ?o1 ''basic_user_embeddings''" by (rule moments_sound_apply [OF mu b])
  have i1: "moments_sound ?o1 ''basic_item_embeddings''" using mi by (simp add: moments_sound_other)
  have i2: "moments_sound ?o2 ''basic_item_embeddings''"
    by (rule moments_sound_apply [OF i1]) (simp_all add: b)
  have u2: "moments_sound ?o2 ''basic_user_embeddings''" using u1 by (simp add: moments_sound_other)
  have opt: "optimizer (snd (basic_trainStep be m us idx)) = adam_finish ?o2"
    by (simp add: basic_trainStep_def Let_def Inr basic_applyGradients_eq)
  have fin: "moments_sound (adam_finish ?o2) name = moments_sound ?o2 name" for name
    by (simp add: moments_sound_def adam_finish_def)
  have m: "moments_sound (adam_finish ?o2) ''basic_user_embeddings''"
    "moments_sound (adam_finish ?o2) ''basic_item_embeddings''"
    using u2 i2 by (simp_all only: fin)
  have s: "learningRate (adam_finish ?o2) = learningRate (optimizer m)"
    "beta1 (adam_finish ?o2) = beta1 (optimizer m)"
    "beta2 (adam_finish ?o2) = beta2 (optimizer m)"
    "epsilon (adam_finish ?o2) = epsilon (optimizer m)"
    "accBeta1 (adam_finish ?o2) = accBeta1 (optimizer m) * beta1 (optimizer m)"
    "accBeta2 (adam_finish ?o2) = accBeta2 (optimizer m) * beta2 (optimizer m)"
    by (simp_all add: adam_finish_def)
  from assms have a: "0 < learningRate (optimizer m)" "0 < beta1 (optimizer m)"
    "beta1 (optimizer m) < 1" "0 < beta2 (optimizer m)" "beta2 (optimizer m) < 1"
    "0 < accBeta1 (optimizer m)" "accBeta1 (optimizer m) < 1" "0 < accBeta2 (optimizer m)"
    "accBeta2 (optimizer m) < 1" "0 < epsilon (optimizer m)"
    by (simp_all add: optimizer_sound_def)
  show ?thesis
    unfolding opt optimizer_sound_def s
    using m a product_below_one [OF a(6,7,2,3)] product_below_one [OF a(8,9,4,5)]
    by (intro conjI) simp_all
qed

lemma optimizer_sound_constructor:
  "0 < eps \<Longrightarrow> optimizer_sound (optimizer (BasicTwoTowerModel rn eps nu ni d))"
  by (simp add: optimizer_sound_def moments_sound_def BasicTwoTowerModel_def tf_train_adam_def)

lemma optimizer_sound_example: "optimizer_sound (optimizer example_basic)"
  unfolding example_basic_def by (rule optimizer_sound_constructor) simp

section \<open>Two training steps on the example model\<close>

lemma first_step_user_gradient:
  "\<exists>q. 0 < q \<and> basic_user_gradient Cpu example_basic [0, 1] [0, 1] ! 0 ! 0 = q / 100"
proof -
  obtain q where q: "0 < q" "softmax [13 / 10000, 13 / 5000] = [1 - q, q]"
    using softmax_pair [of "13 / 10000" "13 / 5000"] by blast
  have "basic_user_gradient Cpu example_basic [0, 1] [0, 1] ! 0 ! 0 = q / 100"
    by (simp add: basic_user_gradient_def basic_grads_def basic_userForward_def
      basic_itemForward_def tf_gather_def in_table_def
      example_basic_fields in_batch_grads_def grad_logits_def grad_matMul_left_def
      grad_matMul_right_def grad_gather_def weighted_sum_def vadd_def vscale_def
      dot_def Let_def upt_rec numeral_2_eq_2 q(2))
  with q(1) show ?thesis by blast
qed

lemma example_basic_first_step_accepted:
  "accepted_batch Cpu (userEmbeddings example_basic) (itemEmbeddings example_basic) [0, 1] [0, 1]"
  by (simp add: accepted_batch_def gather_ok_def in_table_def example_basic_fields)

lemma example_basic_after_step_eq:
  "example_basic_after_step
   = basic_applyGradients example_basic
       (basic_user_gradient Cpu example_basic [0, 1] [0, 1],
        basic_item_gradient Cpu example_basic [0, 1] [0, 1])"
  unfolding example_basic_after_step_def
  by (rule basic_trainStep_accepted [OF wf_example_basic example_basic_first_step_accepted])

lemma wf_example_basic_after_step: "wf_basic example_basic_after_step"
  unfolding example_basic_after_step_def by (rule wf_basic_trainStep [OF wf_example_basic])

lemma example_basic_after_step_fields:
  "numUsers example_basic_after_step = 3" "numItems example_basic_after_step = 4"
  "embeddingDim example_basic_after_step = 2"
  "learningRate (optimizer example_basic_after_step) = 1 / 1000"
  "beta1 (optimizer example_basic_after_step) = 9 / 10"
  "beta2 (optimizer example_basic_after_step) = 999 / 1000"
  "epsilon (optimizer example_basic_after_step) = 1 / 10000000"
  "accBeta1 (optimizer example_basic_after_step) = 81 / 100"
  "accBeta2 (optimizer example_basic_after_step) = 998001 / 1000000"
  by (simp_all add: example_basic_after_step_eq basic_applyGradients_eq adam_finish_def
      example_basic_fields tf_train_adam_def)

lemma example_basic_after_step_slot:
  "slots (optimizer example_basic_after_step) ''basic_user_embeddings''
   = Some (newFirstMoment (optimizer example_basic) (zerosLike (userEmbeddings example_basic))
             (basic_user_gradient Cpu example_basic [0, 1] [0, 1]),
           newSecondMoment (optimizer example_basic) (zerosLike (userEmbeddings example_basic))
             (basic_user_gradient Cpu example_basic [0, 1] [0, 1]))"
  by (simp add: example_basic_after_step_eq basic_applyGradients_eq adam_finish_def
      adam_apply_var_eq slot_or_zeros_def example_basic_fresh)

lemma untouched_row_changes:
  "userEmbeddings (snd (basic_trainStep Cpu example_basic_after_step [1, 2] [1, 2])) ! 0 ! 0
     \<noteq> userEmbeddings example_basic_after_step ! 0 ! 0"
proof -
  let ?m = example_basic_after_step
  let ?g1 = "basic_user_gradient Cpu example_basic [0, 1] [0, 1]"
  let ?M = "newFirstMoment (optimizer example_basic) (zerosLike (userEmbeddings example_basic)) ?g1"
  let ?V = "newSecondMoment (optimizer example_basic) (zerosLike (userEmbeddings example_basic)) ?g1"
  note wf = wf_example_basic_after_step
  from wf have su: "has_shape (userEmbeddings ?m) 3 2" and si: "has_shape (itemEmbeddings ?m) 4 2"
    and sl: "slot_shape (optimizer ?m) ''basic_user_embeddings'' 3 2"
    by (simp_all add: wf_basic_def example_basic_after_step_fields)
  from sl have MV: "has_shape ?M 3 2" "has_shape ?V 3 2"
    by (simp_all add: slot_shape_def example_basic_after_step_slot)
  have acc: "accepted_batch Cpu (userEmbeddings ?m) (itemEmbeddings ?m) [1, 2] [1, 2]"
    using su si by (simp add: accepted_batch_def gather_ok_def has_shape_def in_table_def)
  let ?g2 = "basic_user_gradient Cpu ?m [1, 2] [1, 2]"
  have g2s: "has_shape ?g2 3 2"
    using basic_gradient_shapes(1) [OF wf, of Cpu "[1, 2]" "[1, 2]"]
    by (simp add: example_basic_after_step_fields)
  have g2z: "?g2 ! 0 = replicate 2 0"
    using basic_gradient_untouched(1) [OF wf acc, of 0]
    by (simp add: example_basic_after_step_fields)
  have after: "userEmbeddings (snd (basic_trainStep Cpu ?m [1, 2] [1, 2]))
      = fst (adam_apply_var (optimizer ?m) ''basic_user_embeddings'' (userEmbeddings ?m) ?g2)"
    by (simp only: basic_trainStep_accepted [OF wf acc] basic_applyGradients_users fst_conv)
  obtain q where q: "0 < q" "?g1 ! 0 ! 0 = q / 100"
    using first_step_user_gradient by blast
  have g1s: "has_shape ?g1 3 2"
    using basic_gradient_shapes(1) [OF wf_example_basic, of Cpu "[0, 1]" "[0, 1]"]
    by (simp add: example_basic_fields)
  have zs: "has_shape (zerosLike (userEmbeddings example_basic)) 3 2"
    using wf_example_basic
    by (intro has_shape_zerosLike) (simp add: wf_basic_def example_basic_fields(1,2,3))
  have z00: "zerosLike (userEmbeddings example_basic) ! 0 ! 0 = 0"
    by (simp add: zerosLike_def example_basic_fields)
  have l: "0 < length (zerosLike (userEmbeddings example_basic))" "0 < length ?g1"
    "0 < length (zerosLike (userEmbeddings example_basic) ! 0)" "0 < length (?g1 ! 0)"
    using zs g1s has_shape_nth [OF zs, of 0] has_shape_nth [OF g1s, of 0]
    by (simp_all add: has_shape_def)
  define g1 where "g1 = ?g1"
  define Z where "Z = zerosLike (userEmbeddings example_basic)"
  have b: "beta1 (optimizer example_basic) = 9 / 10" "beta2 (optimizer example_basic) = 999 / 1000"
    by (simp_all add: example_basic_fields tf_train_adam_def)
  have M00: "?M ! 0 ! 0 = q / 1000"
    using l z00 q(2) unfolding g1_def [symmetric] Z_def [symmetric]
    by (simp add: newFirstMoment_row b)
  have V00: "0 \<le> ?V ! 0 ! 0"
    using l z00 unfolding g1_def [symmetric] Z_def [symmetric]
    by (simp add: newSecondMoment_row b)
  have "fst (adam_apply_var (optimizer ?m) ''basic_user_embeddings'' (userEmbeddings ?m) ?g2) ! 0 ! 0
        \<noteq> userEmbeddings ?m ! 0 ! 0"
  proof (rule adam_row_changes [OF su g2s g2z _ _ example_basic_after_step_slot MV])
    show "?M ! 0 ! 0 \<noteq> 0" unfolding M00 using q(1) by simp
    show "0 \<le> ?V ! 0 ! 0" by (rule V00)
  qed (simp_all add: example_basic_after_step_fields)
  then show ?thesis unfolding after .
qed

lemma touched_row_unchanged:
  "userEmbeddings (snd (basic_trainStep Cpu example_basic [0, 1] [0, 0])) ! 0
     = userEmbeddings example_basic ! 0"
proof -
  have z: "first_moment_zero (optimizer example_basic) ''basic_user_embeddings'' 0"
    by (simp add: first_moment_zero_def example_basic_fresh)
  show ?thesis
    using basic_rows_kept_iff(1) [OF wf_example_basic optimizer_sound_example
        example_basic_duplicate_accepted, of 0] z duplicate_item_user_gradient
    by (simp add: example_basic_fields)
qed

lemma first_step_row_changes:
  "userEmbeddings (snd (basic_trainStep Cpu example_basic [0, 1] [0, 1])) ! 0
     \<noteq> userEmbeddings example_basic ! 0"
proof -
  have z: "first_moment_zero (optimizer example_basic) ''basic_user_embeddings'' 0"
    by (simp add: first_moment_zero_def example_basic_fresh)
  obtain q where q: "0 < q" "basic_user_gradient Cpu example_basic [0, 1] [0, 1] ! 0 ! 0 = q / 100"
    using first_step_user_gradient by blast
  have "basic_user_gradient Cpu example_basic [0, 1] [0, 1] ! 0 \<noteq> replicate 2 0"
  proof
    assume "basic_user_gradient Cpu example_basic [0, 1] [0, 1] ! 0 = replicate 2 0"
    then have "basic_user_gradient Cpu example_basic [0, 1] [0, 1] ! 0 ! 0 = 0" by simp
    with q show False by simp
  qed
  then show ?thesis
    using basic_rows_kept_iff(1) [OF wf_example_basic optimizer_sound_example
        example_basic_first_step_accepted, of 0] z
    by (simp add: example_basic_fields)
qed

section \<open>Every call keeps a deep model well-formed\<close>

lemma wf_deep_layer_update:
  assumes "wf_deep m"
  shows "wf_deep (m\<lparr>userHiddenLayer := built draw (userHiddenLayer m) (d_embeddingDim m)\<rparr>)"
    and "wf_deep (m\<lparr>itemHiddenLayer :=
                     built draw (itemHiddenLayer m) (d_embeddingDim m + numGenres m)\<rparr>)"
  using assms by (simp_all add: wf_deep_def configured_def wf_layer_built)

lemma forward_wf:
  assumes "wf_deep m"
  shows "wf_deep (snd (userForward be draw m us))"
    and "wf_deep (snd (itemForward be draw m idx gf))"
proof -
  from assms have un: "units (userHiddenLayer m) = d_embeddingDim m * 2"
    "units (itemHiddenLayer m) = d_embeddingDim m * 2" by (simp_all add: wf_deep_def configured_def)
  have u: "snd (userForward be draw m us) = m
      \<or> snd (userForward be draw m us)
          = m\<lparr>userHiddenLayer := built draw (userHiddenLayer m) (d_embeddingDim m)\<rparr>
      \<or> snd (userForward be draw m us) = user_layers_built draw m"
    by (auto simp: userForward_def user_layers_built_def un split: sum.splits prod.splits
        dest!: dense_apply_built)
  have i: "snd (itemForward be draw m idx gf) = m
      \<or> snd (itemForward be draw m idx gf)
          = m\<lparr>itemHiddenLayer := built draw (itemHiddenLayer m) (d_embeddingDim m + numGenres m)\<rparr>
      \<or> snd (itemForward be draw m idx gf) = item_layers_built draw m"
    by (auto simp: itemForward_def item_layers_built_def un split: sum.splits prod.splits
        dest!: dense_apply_built)
  show "wf_deep (snd (userForward be draw m us))"
    using u assms wf_deep_layer_update(1) [OF assms] wf_deep_user_layers_built [OF assms] by auto
  show "wf_deep (snd (itemForward be draw m idx gf))"
    using i assms wf_deep_layer_update(2) [OF assms] wf_deep_item_layers_built [OF assms] by auto
qed

lemma wf_deep_trainStep:
  assumes "wf_deep m"
  shows "wf_deep (snd (deep_trainStep be draw m us idx gf))"
proof -
  obtain ru m1 where u: "userForward be draw m (tf_tensor1d_int32 us) = (ru, m1)" by force
  have wf1: "wf_deep m1"
    using forward_wf(1) [OF assms, of be draw "tf_tensor1d_int32 us"] by (simp add: u)
  have "snd (deep_loss be draw m (tf_tensor1d_int32 us) (tf_tensor1d_int32 idx) (length us) gf)
        = m1"
    by (cases ru)
       (simp_all add: deep_loss_def u [unfolded tf_tensor1d_int32_def] tf_tensor1d_int32_def
          itemForward_of_tensor)
  then show ?thesis using wf1 by (simp add: deep_trainStep_eq_loss)
qed

lemma wf_deep_getUserEmbedding:
  assumes "wf_deep m"
  shows "wf_deep (snd (deep_getUserEmbedding be draw m i))"
proof -
  have "snd (deep_getUserEmbedding be draw m i) = snd (userForward be draw m (JsArray [i]))"
    by (simp add: deep_getUserEmbedding_def split: prod.splits sum.splits)
  then show ?thesis using forward_wf(1) [OF assms, of be draw "JsArray [i]"] by simp
qed

section \<open>The training step\<close>

text \<open>
  For every batch of \<open>B \<ge> 2\<close> index pairs on which the gathers do not raise,
  \<open>trainStep\<close> of the basic model computes the \<open>B\<close>-by-\<open>B\<close> matrix of logits whose
  entry \<open>(i, j)\<close> is the dot product of the \<open>i\<close>-th user embedding and the \<open>j\<close>-th
  item embedding, and returns the softmax cross-entropy of each row against the one-hot
  label at column \<open>i\<close>, averaged over the \<open>B\<close> rows.
\<close>

lemma basic_trainStep_loss:
  assumes "wf_basic m" "accepted_batch be (userEmbeddings m) (itemEmbeddings m) us idx"
  shows "\<exists>U V L. basic_userForward be m (tf_tensor1d_int32 us) = Inr U
           \<and> basic_itemForward be m (tf_tensor1d_int32 idx) = Inr V
           \<and> tf_matMul_transposeB U V = Inr L
           \<and> length L = length us
           \<and> (\<forall>i < length us. length (L ! i) = length us
                  \<and> (\<forall>j < length us. L ! i ! j = dot (U ! i) (V ! j)))
           \<and> fst (basic_trainStep be m us idx) = Inr (mean_diagonal_cross_entropy L)"
proof -
  let ?d = "embeddingDim m"
  let ?U = "read_rows ?d (userEmbeddings m) (map to_int32 us)"
  let ?V = "read_rows ?d (itemEmbeddings m) (map to_int32 idx)"
  let ?L = "map (\<lambda>u. map (\<lambda>v. dot u v) ?V) ?U"
  from assms(2) have a: "length idx = length us"
    "gather_ok be (userEmbeddings m) (index_values (tf_tensor1d_int32 us))"
    "gather_ok be (itemEmbeddings m) (index_values (tf_tensor1d_int32 idx))"
    by (simp_all add: accepted_batch_def)
  from assms(1) have su: "has_shape (userEmbeddings m) (numUsers m) ?d"
    and si: "has_shape (itemEmbeddings m) (numItems m) ?d" by (simp_all add: wf_basic_def)
  have "has_shape ?U (length (map to_int32 us)) ?d"
    "has_shape ?V (length (map to_int32 idx)) ?d"
    using read_rows_shape [OF su] read_rows_shape [OF si] by blast+
  then have wu: "list_all (\<lambda>r. length r = ?d) ?U" and wv: "list_all (\<lambda>r. length r = ?d) ?V"
    and lu: "length ?U = length us" and lv: "length ?V = length us"
    using a(1) by (simp_all add: has_shape_def)
  have "basic_userForward be m (tf_tensor1d_int32 us) = Inr ?U"
    "basic_itemForward be m (tf_tensor1d_int32 idx) = Inr ?V"
    using tf_gather_ok [OF a(2)] tf_gather_ok [OF a(3)]
    by (simp_all add: basic_userForward_def basic_itemForward_def)
  moreover have "tf_matMul_transposeB ?U ?V = Inr ?L" by (rule tf_matMul_same_width [OF wu wv])
  moreover have "length ?L = length us" using lu by simp
  moreover have "\<forall>i < length us. length (?L ! i) = length us
      \<and> (\<forall>j < length us. ?L ! i ! j = dot (?U ! i) (?V ! j))"
    using lu lv by simp
  moreover have "fst (basic_trainStep be m us idx) = Inr (mean_diagonal_cross_entropy ?L)"
    by (simp add: basic_trainStep_accepted_value [OF assms])
  ultimately show ?thesis by blast
qed

text \<open>
  On a batch of a single pair \<open>trainStep\<close> of the basic model raises, whatever the
  model and the pair: the labels are built by a one-hot encoding of depth 1, which the
  library rejects. The model is as before.
\<close>

lemma basic_trainStep_single_pair:
  "\<exists>e. basic_trainStep be m [u] [i] = (Inl e, m)"
proof -
  have "\<exists>e. basic_loss be m (tf_tensor1d_int32 [u]) (tf_tensor1d_int32 [i]) 1 = Inl e"
    by (rule basic_loss_rejects) simp_all
  then show ?thesis by (auto simp: basic_trainStep_def Let_def)
qed

text \<open>
  C1. A batch of one pair is a non-empty batch; the training loop of \<open>app.js\<close> slices
  one as the last batch of an epoch whenever the number of interactions is one more
  than a multiple of the batch size. On the basic example model the batch (0,0) makes
  \<open>trainStep\<close> raise at the one-hot encoding of the labels instead of returning the
  cross-entropy of the single row, and the model is not updated.
\<close>

theorem trainStep_single_pair_raises:
  "basic_trainStep Cpu example_basic [0] [0] = (Inl OneHotDepth, example_basic)"
  by (simp add: basic_trainStep_def basic_loss_def basic_userForward_def basic_itemForward_def
      tf_gather_def in_table_def example_basic_fields in_batch_loss_def
      tf_matMul_transposeB_def tf_range_def tf_oneHot_def Let_def)

text \<open>
  C3 (amended). An empty batch, index lists of different lengths, or an index whose
  int32 value lies outside its table on a backend that checks gather indices, makes
  \<open>trainStep\<close> of the basic model fail with the tensor library's error before any
  update is applied: the model is exactly as before.
\<close>

theorem rejected_batch_changes_nothing:
  "rejected_batch be (userEmbeddings m) (itemEmbeddings m) us idx
     \<longrightarrow> (\<exists>e. basic_trainStep be m us idx = (Inl e, m))"
proof
  assume r: "rejected_batch be (userEmbeddings m) (itemEmbeddings m) us idx"
  have "\<exists>e. basic_loss be m (tf_tensor1d_int32 us) (tf_tensor1d_int32 idx) (length us) = Inl e"
  proof (rule basic_loss_rejects)
    show "length (index_values (tf_tensor1d_int32 us)) = length us" by simp
    show "length us < 2 \<or> length (index_values (tf_tensor1d_int32 idx)) \<noteq> length us
      \<or> \<not> gather_ok be (userEmbeddings m) (index_values (tf_tensor1d_int32 us))
      \<or> \<not> gather_ok be (itemEmbeddings m) (index_values (tf_tensor1d_int32 idx))"
      using r by (auto simp: rejected_batch_def)
  qed
  then show "\<exists>e. basic_trainStep be m us idx = (Inl e, m)"
    by (auto simp: basic_trainStep_def Let_def)
qed

theorem rejected_batch_changes_nothing_witness:
  "rejected_batch Cpu (userEmbeddings example_basic) (itemEmbeddings example_basic) [7, 1] [0, 1]
   \<and> (\<exists>e. basic_trainStep Cpu example_basic [7, 1] [0, 1] = (Inl e, example_basic))
   \<and> rejected_batch Cpu (userEmbeddings example_basic) (itemEmbeddings example_basic) [] []
   \<and> (\<exists>e. basic_trainStep Cpu example_basic [] [] = (Inl e, example_basic))
   \<and> rejected_batch Cpu (userEmbeddings example_basic) (itemEmbeddings example_basic)
        [0, 1] [0, 1, 2]
   \<and> (\<exists>e. basic_trainStep Cpu example_basic [0, 1] [0, 1, 2] = (Inl e, example_basic))"
proof -
  have a: "rejected_batch Cpu (userEmbeddings example_basic) (itemEmbeddings example_basic)
             [7, 1] [0, 1]"
    by (simp add: rejected_batch_def gather_ok_def in_table_def example_basic_fields)
  have b: "rejected_batch Cpu (userEmbeddings example_basic) (itemEmbeddings example_basic) [] []"
    by (simp add: rejected_batch_def)
  have c: "rejected_batch Cpu (userEmbeddings example_basic) (itemEmbeddings example_basic)
             [0, 1] [0, 1, 2]"
    by (simp add: rejected_batch_def)
  show ?thesis
    using a b c
      rejected_batch_changes_nothing [of Cpu example_basic "[7, 1]" "[0, 1]"]
      rejected_batch_changes_nothing [of Cpu example_basic "[]" "[]"]
      rejected_batch_changes_nothing [of Cpu example_basic "[0, 1]" "[0, 1, 2]"]
    by blast
qed

text \<open>
  Two batches with a user index outside the table of three users that \<open>trainStep\<close>
  does not reject. On the WebGL backend the index 7 reads as a row of zeros, and the
  step goes on to return a loss. On every backend the index 4294967296 becomes the
  int32 number 0: the step is the step on the batch (0,0), (1,1), which returns a loss
  and applies the update.
\<close>

theorem out_of_range_index_accepted_counterexample:
  "\<not> isl (fst (basic_trainStep Webgl example_basic [7, 1] [0, 1]))
   \<and> basic_trainStep Cpu example_basic [4294967296, 1] [0, 1]
       = basic_trainStep Cpu example_basic [0, 1] [0, 1]
   \<and> \<not> isl (fst (basic_trainStep Cpu example_basic [0, 1] [0, 1]))
   \<and> snd (basic_trainStep Cpu example_basic [0, 1] [0, 1]) \<noteq> example_basic"
proof -
  have w: "accepted_batch Webgl (userEmbeddings example_basic) (itemEmbeddings example_basic)
             [7, 1] [0, 1]"
    by (simp add: accepted_batch_def gather_ok_def)
  have a: "\<not> isl (fst (basic_trainStep Webgl example_basic [7, 1] [0, 1]))"
    by (simp add: basic_trainStep_accepted_value [OF wf_example_basic w])
  have e: "tf_tensor1d_int32 [4294967296, 1] = tf_tensor1d_int32 [0, 1]"
    "length [4294967296, 1 :: int] = length [0, 1 :: int]"
    by (simp_all add: tf_tensor1d_int32_def)
  have b: "basic_trainStep Cpu example_basic [4294967296, 1] [0, 1]
       = basic_trainStep Cpu example_basic [0, 1] [0, 1]"
    unfolding basic_trainStep_def e by (rule refl)
  have c: "\<not> isl (fst (basic_trainStep Cpu example_basic [0, 1] [0, 1]))"
    by (simp add: basic_trainStep_accepted_value
        [OF wf_example_basic example_basic_first_step_accepted])
  have d: "snd (basic_trainStep Cpu example_basic [0, 1] [0, 1]) \<noteq> example_basic"
    using first_step_row_changes by auto
  from a b c d show ?thesis by (intro conjI)
qed

text \<open>
  Whenever \<open>trainStep\<close> of the basic model returns a loss, that loss is the value of
  the loss closure at the model as it was before the step, and the model after the step
  is that model with the gradients, computed at it, applied afterwards.
\<close>

lemma basic_trainStep_loss_before_update:
  assumes "basic_trainStep be m us idx = (Inr v, m')"
  shows "basic_loss be m (tf_tensor1d_int32 us) (tf_tensor1d_int32 idx) (length us) = Inr v"
    and "m' = basic_applyGradients m
                (basic_grads be m (tf_tensor1d_int32 us) (tf_tensor1d_int32 idx) (length us))"
  using assms by (auto simp: basic_trainStep_def Let_def split: sum.splits)

text \<open>
  \<open>trainStep\<close> of the deep model never returns a loss, and never reaches
  \<open>applyGradients\<close>: whatever the batch, its result is the error its loss closure
  raised, and the model is as the closure left it.
\<close>

lemma deep_trainStep_never_returns:
  "\<exists>e. deep_trainStep be draw m us idx gf
        = (Inl e, snd (deep_loss be draw m (tf_tensor1d_int32 us) (tf_tensor1d_int32 idx)
                         (length us) gf))"
  using deep_loss_raises [of be draw m "tf_tensor1d_int32 us" idx "length us" gf]
  by (cases "deep_loss be draw m (tf_tensor1d_int32 us) (tf_tensor1d_int32 idx) (length us) gf")
     (auto simp: deep_trainStep_eq_loss)

text \<open>
  C9. On the deep example model as constructed, the batch (0,0), (1,1) with two genre
  vectors of width 19 is a valid batch: both indices of either list are inside their
  table, and the genre features have the shape \<open>[2, numGenres]\<close>. \<open>trainStep\<close> does
  not return the loss on it. It raises when \<open>itemForward\<close> makes the genre tensor: the
  number of rows is read off \<open>itemIndices.length\<close>, and \<open>trainStep\<close> has passed the
  index tensor, which has no \<open>length\<close>. By then \<open>userForward\<close> has built the user
  layers; nothing else has changed, and no update is applied.
\<close>

theorem deep_trainStep_raises:
  "accepted_batch Cpu (d_userEmbeddings example_deep) (d_itemEmbeddings example_deep)
     [0, 1] [0, 1]
   \<and> tf_tensor2d (replicate 2 (replicate 19 0)) (Some 2) (numGenres example_deep)
       = Inr (replicate 2 (replicate 19 0))
   \<and> deep_trainStep Cpu example_draw example_deep [0, 1] [0, 1] (replicate 2 (replicate 19 0))
       = (Inl ShapeNotIntegers, user_layers_built example_draw example_deep)"
proof -
  have g: "gather_ok Cpu (d_userEmbeddings example_deep) (index_values (tf_tensor1d_int32 [0, 1]))"
    "gather_ok Cpu (d_itemEmbeddings example_deep) (map to_int32 [0, 1])"
    by (simp_all add: gather_ok_def in_table_def example_deep_fields)
  then have a: "accepted_batch Cpu (d_userEmbeddings example_deep) (d_itemEmbeddings example_deep)
     [0, 1] [0, 1]"
    by (simp add: accepted_batch_def)
  have t: "tf_tensor2d (replicate 2 (replicate 19 0)) (Some 2) (numGenres example_deep)
       = Inr (replicate 2 (replicate 19 0))"
    by (simp only: example_deep_fields tf_tensor2d_zeros)
  have "deep_trainStep Cpu example_draw example_deep [0, 1] [0, 1] (replicate 2 (replicate 19 0))
       = (Inl ShapeNotIntegers, user_layers_built example_draw example_deep)"
    unfolding deep_trainStep_eq_loss deep_loss_value [OF wf_example_deep g(1)]
    using g(2) by simp
  with a t show ?thesis by (intro conjI)
qed

section \<open>Rows a training step changes\<close>

text \<open>
  C4 (amended). For every batch the step accepts, on a well-formed basic model with a
  sound optimizer, and for every row of either table whose first moment in the optimizer
  is zero (on the first step after construction: every row): a row whose index does not
  appear among the int32 values of the batch's indices is unchanged by \<open>trainStep\<close>,
  and a row differs from its value before the call exactly when its row of the gradient
  is not zero. In the scenario of three users, four items and the batch (0,0), (1,1),
  (2,2), item row 3 is unchanged.
\<close>

theorem untouched_rows_unchanged:
  "(wf_basic m \<and> optimizer_sound (optimizer m)
    \<and> accepted_batch be (userEmbeddings m) (itemEmbeddings m) us idx
      \<longrightarrow> (r < numUsers m \<and> first_moment_zero (optimizer m) ''basic_user_embeddings'' r
            \<longrightarrow> (int r \<notin> set (map to_int32 us)
                   \<longrightarrow> userEmbeddings (snd (basic_trainStep be m us idx)) ! r
                         = userEmbeddings m ! r)
                \<and> (userEmbeddings (snd (basic_trainStep be m us idx)) ! r
                       \<noteq> userEmbeddings m ! r
                     \<longleftrightarrow> basic_user_gradient be m us idx ! r
                           \<noteq> replicate (embeddingDim m) 0))
          \<and> (r < numItems m \<and> first_moment_zero (optimizer m) ''basic_item_embeddings'' r
            \<longrightarrow> (int r \<notin> set (map to_int32 idx)
                   \<longrightarrow> itemEmbeddings (snd (basic_trainStep be m us idx)) ! r
                         = itemEmbeddings m ! r)
                \<and> (itemEmbeddings (snd (basic_trainStep be m us idx)) ! r
                       \<noteq> itemEmbeddings m ! r
                     \<longleftrightarrow> basic_item_gradient be m us idx ! r
                           \<noteq> replicate (embeddingDim m) 0)))
   \<and> first_moment_zero (optimizer (BasicTwoTowerModel rn eps nUsers nItems embDim)) name r
   \<and> (0 < eps \<longrightarrow> optimizer_sound (optimizer (BasicTwoTowerModel rn eps nUsers nItems embDim)))"
proof -
  have fresh:
    "first_moment_zero (optimizer (BasicTwoTowerModel rn eps nUsers nItems embDim)) name r"
    by (simp add: first_moment_zero_def BasicTwoTowerModel_def tf_train_adam_def)
  have rows: "(r < numUsers m \<and> first_moment_zero (optimizer m) ''basic_user_embeddings'' r
            \<longrightarrow> (int r \<notin> set (map to_int32 us)
                   \<longrightarrow> userEmbeddings (snd (basic_trainStep be m us idx)) ! r
                         = userEmbeddings m ! r)
                \<and> (userEmbeddings (snd (basic_trainStep be m us idx)) ! r
                       \<noteq> userEmbeddings m ! r
                     \<longleftrightarrow> basic_user_gradient be m us idx ! r
                           \<noteq> replicate (embeddingDim m) 0))
          \<and> (r < numItems m \<and> first_moment_zero (optimizer m) ''basic_item_embeddings'' r
            \<longrightarrow> (int r \<notin> set (map to_int32 idx)
                   \<longrightarrow> itemEmbeddings (snd (basic_trainStep be m us idx)) ! r
                         = itemEmbeddings m ! r)
                \<and> (itemEmbeddings (snd (basic_trainStep be m us idx)) ! r
                       \<noteq> itemEmbeddings m ! r
                     \<longleftrightarrow> basic_item_gradient be m us idx ! r
                           \<noteq> replicate (embeddingDim m) 0))"
    if wf: "wf_basic m" and os: "optimizer_sound (optimizer m)"
      and acc: "accepted_batch be (userEmbeddings m) (itemEmbeddings m) us idx"
    using basic_rows_kept_iff(1) [OF wf os acc, of r] basic_rows_kept_iff(2) [OF wf os acc, of r]
      basic_gradient_untouched(1) [OF wf acc, of r] basic_gradient_untouched(2) [OF wf acc, of r]
    by blast
  show ?thesis
    using rows fresh optimizer_sound_constructor [of eps rn nUsers nItems embDim]
    by blast
qed

theorem untouched_rows_unchanged_witness:
  "wf_basic example_basic \<and> optimizer_sound (optimizer example_basic)
   \<and> accepted_batch Cpu (userEmbeddings example_basic) (itemEmbeddings example_basic)
        [0, 1, 2] [0, 1, 2]
   \<and> 3 < numItems example_basic \<and> int 3 \<notin> set (map to_int32 [0, 1, 2])
   \<and> first_moment_zero (optimizer example_basic) ''basic_item_embeddings'' 3
   \<and> itemEmbeddings (snd (basic_trainStep Cpu example_basic [0, 1, 2] [0, 1, 2])) ! 3
       = itemEmbeddings example_basic ! 3
   \<and> accepted_batch Cpu (userEmbeddings example_basic) (itemEmbeddings example_basic)
        [0, 1] [0, 1]
   \<and> 0 < numUsers example_basic
   \<and> first_moment_zero (optimizer example_basic) ''basic_user_embeddings'' 0
   \<and> basic_user_gradient Cpu example_basic [0, 1] [0, 1] ! 0
       \<noteq> replicate (embeddingDim example_basic) 0
   \<and> userEmbeddings (snd (basic_trainStep Cpu example_basic [0, 1] [0, 1])) ! 0
       \<noteq> userEmbeddings example_basic ! 0"
proof -
  have a: "accepted_batch Cpu (userEmbeddings example_basic) (itemEmbeddings example_basic)
        [0, 1, 2] [0, 1, 2]"
    by (simp add: accepted_batch_def gather_ok_def in_table_def example_basic_fields)
  have n: "3 < numItems example_basic" "int 3 \<notin> set (map to_int32 [0, 1, 2])"
    "0 < numUsers example_basic"
    by (simp_all add: example_basic_fields)
  have z: "first_moment_zero (optimizer example_basic) ''basic_item_embeddings'' 3"
    "first_moment_zero (optimizer example_basic) ''basic_user_embeddings'' 0"
    by (simp_all add: first_moment_zero_def example_basic_fresh)
  obtain q where q: "0 < q" "basic_user_gradient Cpu example_basic [0, 1] [0, 1] ! 0 ! 0 = q / 100"
    using first_step_user_gradient by blast
  have g: "basic_user_gradient Cpu example_basic [0, 1] [0, 1] ! 0
       \<noteq> replicate (embeddingDim example_basic) 0"
  proof
    assume "basic_user_gradient Cpu example_basic [0, 1] [0, 1] ! 0
       = replicate (embeddingDim example_basic) 0"
    then have "basic_user_gradient Cpu example_basic [0, 1] [0, 1] ! 0 ! 0 = 0"
      by (simp add: example_basic_fields)
    with q show False by simp
  qed
  show ?thesis
    using untouched_rows_unchanged [of example_basic Cpu "[0, 1, 2]" "[0, 1, 2]" 3]
      untouched_rows_unchanged [of example_basic Cpu "[0, 1]" "[0, 1]" 0]
      wf_example_basic optimizer_sound_example a example_basic_first_step_accepted n z g
    by blast
qed

text \<open>
  The claim fails in both directions. A row of the batch can keep its value: in the batch
  (0,0), (1,0) both pairs name item 0, the gradient of user row 0 vanishes, and the row
  is unchanged. A row outside the batch can change: after a first step on (0,0), (1,1),
  a second step on (1,1), (2,2) moves user row 0, whose first moment the first step left
  non-zero.
\<close>

theorem trainStep_rows_counterexample:
  "userEmbeddings (snd (basic_trainStep Cpu example_basic [0, 1] [0, 0])) ! 0
     = userEmbeddings example_basic ! 0
   \<and> userEmbeddings (snd (basic_trainStep Cpu example_basic_after_step [1, 2] [1, 2])) ! 0
       \<noteq> userEmbeddings example_basic_after_step ! 0"
  using touched_row_unchanged untouched_row_changes by auto

section \<open>The item tower of the deep model\<close>

text \<open>
  Handed the item indices as an array, on a well-formed deep model, for a batch on which
  the gathers do not raise and whose genre features make a tensor of width
  \<open>numGenres\<close>: the item tower gathers the base embeddings of width \<open>d\<close>, appends the
  genre vector (input width \<open>d + g\<close>), and applies a hidden layer of \<open>2d\<close> units with
  ReLU and bias, then an output layer of \<open>d\<close> units with identity activation and bias;
  the user tower is the same on the base embedding alone (input width \<open>d\<close>). A layer
  that had no weights is built with a kernel of the shape its input fixes, drawn by the
  Glorot-normal initializer, and a bias of zeros; the constructor builds no layer.
\<close>

lemma deep_towers_forward_on_array:
  assumes "wf_deep m" "gather_ok be (d_userEmbeddings m) (index_values us)"
    "gather_ok be (d_itemEmbeddings m) (map to_int32 idx)"
    "tf_tensor2d gf (Some (length idx)) (numGenres m) = Inr gt"
    "d = d_embeddingDim m" "g = numGenres m"
    "ih = weights_or_build draw (itemHiddenLayer m) (d + g)"
    "io = weights_or_build draw (itemOutputLayer m) (d * 2)"
    "uh = weights_or_build draw (userHiddenLayer m) d"
    "uo = weights_or_build draw (userOutputLayer m) (d * 2)"
  shows "fst (itemForward be draw m (JsArray idx) gf)
           = Inr (map2 (\<lambda>e genres. two_layer_row ih io (d * 2) d (e @ genres))
                    (read_rows d (d_itemEmbeddings m) (map to_int32 idx)) gt)
         \<and> has_shape (kernel ih) (d + g) (d * 2) \<and> length (bias ih) = d * 2
         \<and> has_shape (kernel io) (d * 2) d \<and> length (bias io) = d
         \<and> weights (itemHiddenLayer (snd (itemForward be draw m (JsArray idx) gf))) = Some ih
         \<and> weights (itemOutputLayer (snd (itemForward be draw m (JsArray idx) gf))) = Some io
         \<and> fst (userForward be draw m us)
             = Inr (map (\<lambda>e. two_layer_row uh uo (d * 2) d e)
                      (read_rows d (d_userEmbeddings m) (index_values us)))
         \<and> has_shape (kernel uh) d (d * 2) \<and> length (bias uh) = d * 2
         \<and> has_shape (kernel uo) (d * 2) d \<and> length (bias uo) = d
         \<and> weights (userHiddenLayer (snd (userForward be draw m us))) = Some uh
         \<and> weights (userOutputLayer (snd (userForward be draw m us))) = Some uo
         \<and> (weights (itemHiddenLayer m) = None
              \<longrightarrow> ih = \<lparr>kernel = table_of (draw GlorotNormal ''dense_Dense3'') (d + g) (d * 2),
                         bias = replicate (d * 2) 0\<rparr>)
         \<and> (weights (itemOutputLayer m) = None
              \<longrightarrow> io = \<lparr>kernel = table_of (draw GlorotNormal ''dense_Dense4'') (d * 2) d,
                         bias = replicate d 0\<rparr>)
         \<and> (weights (userHiddenLayer m) = None
              \<longrightarrow> uh = \<lparr>kernel = table_of (draw GlorotNormal ''dense_Dense1'') d (d * 2),
                         bias = replicate (d * 2) 0\<rparr>)
         \<and> (weights (userOutputLayer m) = None
              \<longrightarrow> uo = \<lparr>kernel = table_of (draw GlorotNormal ''dense_Dense2'') (d * 2) d,
                         bias = replicate d 0\<rparr>)
         \<and> weights (userHiddenLayer (DeepTwoTowerModel rn eps nUsers nItems embDim nGenres)) = None
         \<and> weights (userOutputLayer (DeepTwoTowerModel rn eps nUsers nItems embDim nGenres)) = None
         \<and> weights (itemHiddenLayer (DeepTwoTowerModel rn eps nUsers nItems embDim nGenres)) = None
         \<and> weights (itemOutputLayer (DeepTwoTowerModel rn eps nUsers nItems embDim nGenres)) = None"
proof -
  from assms(1) have cfg:
    "configured (userHiddenLayer m) ''dense_Dense1'' (d * 2) Relu"
    "configured (userOutputLayer m) ''dense_Dense2'' d Linear"
    "configured (itemHiddenLayer m) ''dense_Dense3'' (d * 2) Relu"
    "configured (itemOutputLayer m) ''dense_Dense4'' d Linear"
    and wl: "wf_layer (userHiddenLayer m) d" "wf_layer (userOutputLayer m) (d * 2)"
    "wf_layer (itemHiddenLayer m) (d + g)" "wf_layer (itemOutputLayer m) (d * 2)"
    by (simp_all add: wf_deep_def assms(5,6))
  have item: "fst (itemForward be draw m (JsArray idx) gf)
      = Inr (map2 (\<lambda>e genres. two_layer_row ih io (d * 2) d (e @ genres))
               (read_rows d (d_itemEmbeddings m) (map to_int32 idx)) gt)"
    unfolding itemForward_ok [OF assms(1,3,4)] assms(5-10)
    using item_tower_row_two_layer [OF assms(1), of draw] by auto
  have user: "fst (userForward be draw m us)
      = Inr (map (\<lambda>e. two_layer_row uh uo (d * 2) d e) (read_rows d (d_userEmbeddings m) (index_values us)))"
    unfolding userForward_ok [OF assms(1,2)] assms(5-10)
    using user_tower_row_two_layer [OF assms(1), of draw] by auto
  have shapes: "has_shape (kernel ih) (d + g) (d * 2)" "length (bias ih) = d * 2"
    "has_shape (kernel io) (d * 2) d" "length (bias io) = d"
    "has_shape (kernel uh) d (d * 2)" "length (bias uh) = d * 2"
    "has_shape (kernel uo) (d * 2) d" "length (bias uo) = d"
    using weights_or_build_shape [OF wl(1), of draw] weights_or_build_shape [OF wl(2), of draw]
      weights_or_build_shape [OF wl(3), of draw] weights_or_build_shape [OF wl(4), of draw] cfg
    by (simp_all add: assms(7-10) configured_def)
  have after: "weights (itemHiddenLayer (snd (itemForward be draw m (JsArray idx) gf))) = Some ih"
    "weights (itemOutputLayer (snd (itemForward be draw m (JsArray idx) gf))) = Some io"
    "weights (userHiddenLayer (snd (userForward be draw m us))) = Some uh"
    "weights (userOutputLayer (snd (userForward be draw m us))) = Some uo"
    using cfg
    by (simp_all add: itemForward_ok [OF assms(1,3,4)] userForward_ok [OF assms(1,2)]
        item_layers_built_def user_layers_built_def assms(5-10) configured_def)
  have fresh:
    "weights (itemHiddenLayer m) = None
       \<longrightarrow> ih = \<lparr>kernel = table_of (draw GlorotNormal ''dense_Dense3'') (d + g) (d * 2),
                  bias = replicate (d * 2) 0\<rparr>"
    "weights (itemOutputLayer m) = None
       \<longrightarrow> io = \<lparr>kernel = table_of (draw GlorotNormal ''dense_Dense4'') (d * 2) d,
                  bias = replicate d 0\<rparr>"
    "weights (userHiddenLayer m) = None
       \<longrightarrow> uh = \<lparr>kernel = table_of (draw GlorotNormal ''dense_Dense1'') d (d * 2),
                  bias = replicate (d * 2) 0\<rparr>"
    "weights (userOutputLayer m) = None
       \<longrightarrow> uo = \<lparr>kernel = table_of (draw GlorotNormal ''dense_Dense2'') (d * 2) d,
                  bias = replicate d 0\<rparr>"
    using cfg by (simp_all add: assms(7-10) weights_or_build_def build_def configured_def)
  have new: "weights (userHiddenLayer (DeepTwoTowerModel rn eps nUsers nItems embDim nGenres)) = None"
    "weights (userOutputLayer (DeepTwoTowerModel rn eps nUsers nItems embDim nGenres)) = None"
    "weights (itemHiddenLayer (DeepTwoTowerModel rn eps nUsers nItems embDim nGenres)) = None"
    "weights (itemOutputLayer (DeepTwoTowerModel rn eps nUsers nItems embDim nGenres)) = None"
    by (simp_all add: DeepTwoTowerModel_def tf_layers_dense_def)
  show ?thesis
    using item user shapes after fresh new
    by (intro conjI)
qed

text \<open>
  C5. \<open>trainStep\<close> hands \<open>itemForward\<close> the item indices as an int32 tensor, and it is
  the only caller with genre vectors of its own. On the deep example model as
  constructed, with the indices 0 and 3 and two genre vectors of width 19, the forward
  pass of the item tower stops after the gather: making the genre tensor raises, since
  its number of rows is read off the \<open>length\<close> of the index tensor, and a tensor has
  none. Nothing is concatenated, no layer is applied, and the two layers of the item
  tower are left without weights.
\<close>

theorem itemForward_raises_on_index_tensor:
  "gather_ok Cpu (d_itemEmbeddings example_deep) (index_values (tf_tensor1d_int32 [0, 3]))
   \<and> tf_tensor2d (replicate 2 (replicate 19 0)) (Some 2) (numGenres example_deep)
       = Inr (replicate 2 (replicate 19 0))
   \<and> itemForward Cpu example_draw example_deep (tf_tensor1d_int32 [0, 3])
        (replicate 2 (replicate 19 0))
       = (Inl ShapeNotIntegers, example_deep)
   \<and> weights (itemHiddenLayer example_deep) = None
   \<and> weights (itemOutputLayer example_deep) = None"
proof -
  have g: "gather_ok Cpu (d_itemEmbeddings example_deep) (map to_int32 [0, 3])"
    by (simp add: gather_ok_def in_table_def example_deep_fields)
  have t: "tf_tensor2d (replicate 2 (replicate 19 0)) (Some 2) (numGenres example_deep)
       = Inr (replicate 2 (replicate 19 0))"
    by (simp only: example_deep_fields tf_tensor2d_zeros)
  have a: "itemForward Cpu example_draw example_deep (tf_tensor1d_int32 [0, 3])
        (replicate 2 (replicate 19 0))
       = (Inl ShapeNotIntegers, example_deep)"
    using g by (simp add: tf_tensor1d_int32_def itemForward_of_tensor)
  have g': "gather_ok Cpu (d_itemEmbeddings example_deep)
              (index_values (tf_tensor1d_int32 [0, 3]))"
    using g by simp
  from g' t a example_deep_unbuilt(1,2) show ?thesis by (intro conjI)
qed

text \<open>
  Handed the item indices as an array, with as many genre vectors as indices: when the
  first genre vector has the width \<open>numGenres\<close>, \<open>itemForward\<close> succeeds and returns
  one row of width \<open>embeddingDim\<close> per index; when it has any other width,
  \<open>itemForward\<close> fails when the genre tensor is made, with the library's shape error,
  and the model is as before. The widths of the other genre vectors are not checked.
\<close>

lemma itemForward_genre_width_on_array:
  assumes "wf_deep m" "gather_ok be (d_itemEmbeddings m) (map to_int32 idx)" "idx \<noteq> []"
    "length gf = length idx"
  shows "length (hd gf) = numGenres m
           \<Longrightarrow> \<exists>out. fst (itemForward be draw m (JsArray idx) gf) = Inr out
                   \<and> has_shape out (length idx) (d_embeddingDim m)"
    and "length (hd gf) \<noteq> numGenres m
           \<Longrightarrow> itemForward be draw m (JsArray idx) gf = (Inl InferredShapeMismatch, m)"
proof -
  from assms(3,4) obtain first rest where gf: "gf = first # rest" by (cases gf) auto
  show "\<exists>out. fst (itemForward be draw m (JsArray idx) gf) = Inr out
          \<and> has_shape out (length idx) (d_embeddingDim m)"
    if w: "length (hd gf) = numGenres m"
  proof -
    let ?gt = "rows_of (length idx) (numGenres m) (concat gf)"
    have t: "tf_tensor2d gf (Some (length idx)) (numGenres m) = Inr ?gt"
      using w assms(4) by (simp add: tf_tensor2d_def gf)
    let ?out = "map2 (item_tower_row draw m)
                  (read_rows (d_embeddingDim m) (d_itemEmbeddings m) (map to_int32 idx)) ?gt"
    have "fst (itemForward be draw m (JsArray idx) gf) = Inr ?out"
      by (simp add: itemForward_ok [OF assms(1,2) t])
    moreover have "has_shape ?out (length idx) (d_embeddingDim m)"
      using item_tower_row_width [OF assms(1)]
      by (auto simp: has_shape_def read_rows_def list_all_iff)
    ultimately show ?thesis by blast
  qed
  show "itemForward be draw m (JsArray idx) gf = (Inl InferredShapeMismatch, m)"
    if w: "length (hd gf) \<noteq> numGenres m"
  proof -
    have "tf_tensor2d gf (Some (length idx)) (numGenres m) = Inl InferredShapeMismatch"
      using w by (simp add: tf_tensor2d_def gf)
    then show ?thesis by (rule itemForward_bad_genres [OF assms(2)])
  qed
qed

text \<open>
  C7. \<open>trainStep\<close> hands \<open>itemForward\<close> the item indices as an int32 tensor. On the deep
  example model, with the indices 0 and 1 and two genre vectors of width 19 =
  \<open>numGenres\<close>, \<open>itemForward\<close> does not succeed: it raises when it makes the genre
  tensor, whose number of rows it reads off the \<open>length\<close> of the index tensor, and a
  tensor has none. The same call with the indices as an array succeeds.
\<close>

theorem itemForward_width_19_raises_on_index_tensor:
  "numGenres example_deep_built = 19
   \<and> list_all (\<lambda>r. length r = 19) (replicate 2 (replicate 19 (1::real)))
   \<and> itemForward Cpu example_draw example_deep_built (tf_tensor1d_int32 [0, 1])
        (replicate 2 (replicate 19 1))
       = (Inl ShapeNotIntegers, example_deep_built)
   \<and> \<not> isl (fst (itemForward Cpu example_draw example_deep_built (JsArray [0, 1])
                     (replicate 2 (replicate 19 1))))"
proof -
  have g: "gather_ok Cpu (d_itemEmbeddings example_deep_built) (map to_int32 [0, 1])"
    by (simp add: gather_ok_def in_table_def example_deep_built_fields example_deep_fields)
  have w: "list_all (\<lambda>r. length r = 19) (replicate 2 (replicate 19 (1::real)))"
    by (simp add: list_all_iff)
  have a: "itemForward Cpu example_draw example_deep_built (tf_tensor1d_int32 [0, 1])
        (replicate 2 (replicate 19 1))
       = (Inl ShapeNotIntegers, example_deep_built)"
    using g by (simp add: tf_tensor1d_int32_def itemForward_of_tensor)
  have "\<exists>out. fst (itemForward Cpu example_draw example_deep_built (JsArray [0, 1])
                     (replicate 2 (replicate 19 1))) = Inr out
          \<and> has_shape out (length [0, 1 :: int]) (d_embeddingDim example_deep_built)"
    by (rule itemForward_genre_width_on_array(1) [OF wf_example_deep_built g])
       (simp_all add: example_deep_built_fields)
  then have b: "\<not> isl (fst (itemForward Cpu example_draw example_deep_built (JsArray [0, 1])
                     (replicate 2 (replicate 19 1))))" by auto
  from a b w show ?thesis by (simp add: example_deep_built_fields)
qed

section \<open>Inference\<close>

text \<open>
  C6 (amended). \<open>getUserEmbedding\<close> and \<open>getScoresForAllItems\<close> change no parameter
  that exists. The basic model is exactly the same after either call. In the deep model
  both embedding tables, the optimizer and the sizes are the same after either call, and
  every feed-forward layer is the same or has been built: a layer that had weights keeps
  them, and a layer that was never applied has the weights the initializer draws for
  it. So a deep model whose four layers are built is exactly the same after either call.
\<close>

theorem inference_is_read_only:
  "snd (basic_getUserEmbedding be m i) = m
   \<and> snd (basic_getScoresForAllItems m u) = m
   \<and> params_kept draw dm (snd (deep_getUserEmbedding be draw dm i))
   \<and> params_kept draw dm (snd (deep_getScoresForAllItems be draw dm u))
   \<and> (all_built dm \<longrightarrow> snd (deep_getUserEmbedding be draw dm i) = dm
                      \<and> snd (deep_getScoresForAllItems be draw dm u) = dm)"
proof -
  have a: "snd (basic_getUserEmbedding be m i) = m"
    by (simp add: basic_getUserEmbedding_def split: sum.splits)
  have b: "snd (basic_getScoresForAllItems m u) = m"
    by (simp add: basic_getScoresForAllItems_def)
  have c: "params_kept draw dm (snd (deep_getUserEmbedding be draw dm i))"
  proof (cases "userForward be draw dm (JsArray [i])")
    case (Pair r m1)
    then show ?thesis
      using userForward_kept(1) [OF Pair]
      by (cases r) (simp_all add: deep_getUserEmbedding_def)
  qed
  have d: "params_kept draw dm (snd (deep_getScoresForAllItems be draw dm u))"
    using scoreBatches_kept [of be draw u 100 "ceil_div (d_numItems dm) 100" 0 "[]" dm]
    by (cases "deep_getScoresForAllItems be draw dm u")
       (simp add: deep_getScoresForAllItems_def scoresInBatchesOf_def)
  show ?thesis
    using a b c d params_kept_all_built [OF c] params_kept_all_built [OF d] by blast
qed

theorem inference_is_read_only_witness:
  "snd (basic_getUserEmbedding Cpu example_basic 1) = example_basic
   \<and> snd (basic_getScoresForAllItems example_basic [1, 2]) = example_basic
   \<and> params_kept example_draw example_deep
        (snd (deep_getUserEmbedding Cpu example_draw example_deep 1))
   \<and> params_kept example_draw example_deep
        (snd (deep_getScoresForAllItems Cpu example_draw example_deep [1, 2]))
   \<and> all_built example_deep_built
   \<and> snd (deep_getUserEmbedding Cpu example_draw example_deep_built 1) = example_deep_built
   \<and> snd (deep_getScoresForAllItems Cpu example_draw example_deep_built [1, 2])
       = example_deep_built"
  using inference_is_read_only [of Cpu example_basic 1 "[1, 2]" example_draw example_deep]
    inference_is_read_only [of Cpu example_basic 1 "[1, 2]" example_draw example_deep_built]
    all_built_example_deep_built
  by blast

text \<open>
  The deep model as constructed is not the same after \<open>getUserEmbedding\<close>: no layer
  has weights before the call, and the two layers of the user tower have weights after
  it.
\<close>

theorem first_inference_builds_layers_counterexample:
  "weights (userHiddenLayer example_deep) = None
   \<and> weights (userHiddenLayer (snd (deep_getUserEmbedding Cpu example_draw example_deep 1)))
       \<noteq> None
   \<and> snd (deep_getUserEmbedding Cpu example_draw example_deep 1) \<noteq> example_deep"
proof -
  have g: "gather_ok Cpu (d_userEmbeddings example_deep) (index_values (JsArray [1]))"
    by (simp add: gather_ok_def in_table_def example_deep_fields)
  have s: "snd (deep_getUserEmbedding Cpu example_draw example_deep 1)
           = user_layers_built example_draw example_deep"
    by (simp add: deep_getUserEmbedding_def userForward_ok [OF wf_example_deep g])
  have a: "weights (userHiddenLayer example_deep) = None" by (rule example_deep_unbuilt(3))
  have b: "weights (userHiddenLayer (user_layers_built example_draw example_deep)) \<noteq> None"
    by (simp add: user_layers_built_def)
  from a b have "user_layers_built example_draw example_deep \<noteq> example_deep" by auto
  with a b show ?thesis unfolding s by (intro conjI)
qed

text \<open>
  C2. For every well-formed model and every user embedding of width \<open>embeddingDim\<close>,
  \<open>getScoresForAllItems\<close> returns a vector of exactly \<open>numItems\<close> scores, entry
  \<open>j\<close> being the score of item \<open>j\<close>. The deep variant walks the item indices in
  contiguous chunks (of 100) with zero genre features and appends the chunks' scores in
  order; the result is the same for every positive chunk size, and equals the scores
  computed in one piece.
\<close>

theorem scores_do_not_depend_on_chunk_size:
  assumes "wf_deep dm" "length u = d_embeddingDim dm" "0 < bs"
    "wf_basic m" "length v = embeddingDim m"
  shows "fst (scoresInBatchesOf bs be draw dm u) = unchunked_scores be draw dm u
         \<and> fst (deep_getScoresForAllItems be draw dm u) = fst (scoresInBatchesOf bs be draw dm u)
         \<and> (\<exists>s. fst (deep_getScoresForAllItems be draw dm u) = Inr s
                \<and> length s = d_numItems dm
                \<and> (\<forall>j < d_numItems dm. s ! j = item_score draw dm u j))
         \<and> (\<exists>s. fst (basic_getScoresForAllItems m v) = Inr s
                \<and> length s = numItems m
                \<and> (\<forall>j < numItems m. s ! j = dot (itemEmbeddings m ! j) v))"
proof -
  have a: "fst (scoresInBatchesOf bs be draw dm u) = unchunked_scores be draw dm u"
    by (simp add: scoresInBatchesOf_value [OF assms(3,2,1)]
        unchunked_scores_value [OF assms(2,1)])
  have d: "fst (deep_getScoresForAllItems be draw dm u)
           = Inr (map (item_score draw dm u) [0..<d_numItems dm])"
    unfolding deep_getScoresForAllItems_def
    by (rule scoresInBatchesOf_value [OF _ assms(2,1)]) simp
  have b: "fst (deep_getScoresForAllItems be draw dm u) = fst (scoresInBatchesOf bs be draw dm u)"
    by (simp add: d scoresInBatchesOf_value [OF assms(3,2,1)])
  have c: "\<exists>s. fst (deep_getScoresForAllItems be draw dm u) = Inr s
                \<and> length s = d_numItems dm
                \<and> (\<forall>j < d_numItems dm. s ! j = item_score draw dm u j)"
    unfolding d by simp
  from assms(4,5) have "list_all (\<lambda>r. length r = length v) (itemEmbeddings m)"
    and "length (itemEmbeddings m) = numItems m"
    by (simp_all add: wf_basic_def has_shape_def)
  then have e: "\<exists>s. fst (basic_getScoresForAllItems m v) = Inr s
                \<and> length s = numItems m
                \<and> (\<forall>j < numItems m. s ! j = dot (itemEmbeddings m ! j) v)"
    by (simp add: basic_getScoresForAllItems_def tf_dot_def)
  show ?thesis using a b c e by (intro conjI)
qed

theorem scores_do_not_depend_on_chunk_size_witness:
  "wf_deep example_deep \<and> length [1, 2 :: real] = d_embeddingDim example_deep \<and> 0 < (3::nat)
   \<and> wf_basic example_basic \<and> length [1, 2 :: real] = embeddingDim example_basic
   \<and> fst (scoresInBatchesOf 3 Cpu example_draw example_deep [1, 2])
       = unchunked_scores Cpu example_draw example_deep [1, 2]
   \<and> fst (deep_getScoresForAllItems Cpu example_draw example_deep [1, 2])
       = fst (scoresInBatchesOf 3 Cpu example_draw example_deep [1, 2])
   \<and> (\<exists>s. fst (deep_getScoresForAllItems Cpu example_draw example_deep [1, 2]) = Inr s
          \<and> length s = d_numItems example_deep)
   \<and> (\<exists>s. fst (basic_getScoresForAllItems example_basic [1, 2]) = Inr s
          \<and> length s = numItems example_basic)"
proof -
  have p: "0 < (3::nat)" by simp
  show ?thesis
    using scores_do_not_depend_on_chunk_size [OF wf_example_deep example_lengths(1) p
        wf_example_basic example_lengths(2), of Cpu example_draw]
      wf_example_deep wf_example_basic example_lengths p
    by blast
qed

text \<open>
  C10. In the deep variant's \<open>getScoresForAllItems\<close> the genre features given to the
  item tower are zeros of width \<open>numGenres\<close> for every item (the function takes no
  genre data at all), so the scores are those of each item's base embedding followed by
  zeros, and two models with the same item table and item layers give the same scores,
  whatever else differs between them.
\<close>

theorem all_items_scores_use_zero_genres:
  assumes "wf_deep m" "length u = d_embeddingDim m"
  shows "fst (deep_getScoresForAllItems be draw m u)
           = Inr (map (\<lambda>j. dot (item_tower_row draw m (d_itemEmbeddings m ! j)
                                   (replicate (numGenres m) 0)) u)
                    [0..<d_numItems m])
         \<and> (wf_deep m' \<and> same_item_tower m m'
              \<longrightarrow> fst (deep_getScoresForAllItems be draw m' u)
                    = fst (deep_getScoresForAllItems be draw m u))"
proof -
  have v: "fst (deep_getScoresForAllItems be draw x u)
           = Inr (map (item_score draw x u) [0..<d_numItems x])"
    if "wf_deep x" "length u = d_embeddingDim x" for x
    unfolding deep_getScoresForAllItems_def
    by (rule scoresInBatchesOf_value [OF _ that(2,1)]) simp
  have s: "item_score draw m' u = item_score draw m u" if "same_item_tower m m'"
    using that
    by (intro ext) (simp add: item_score_def item_tower_row_def item_layers_built_def
        same_item_tower_def)
  have "fst (deep_getScoresForAllItems be draw m' u) = fst (deep_getScoresForAllItems be draw m u)"
    if "wf_deep m'" "same_item_tower m m'"
    using v [OF that(1)] v [OF assms] s [OF that(2)] that(2) assms(2)
    by (simp add: same_item_tower_def)
  then show ?thesis using v [OF assms] by (auto simp: item_score_def)
qed

theorem all_items_scores_use_zero_genres_witness:
  "wf_deep example_deep \<and> length [1, 2 :: real] = d_embeddingDim example_deep
   \<and> wf_deep (user_layers_built example_draw example_deep)
   \<and> same_item_tower example_deep (user_layers_built example_draw example_deep)
   \<and> fst (deep_getScoresForAllItems Cpu example_draw example_deep [1, 2])
       = Inr (map (\<lambda>j. dot (item_tower_row example_draw example_deep
                                (d_itemEmbeddings example_deep ! j)
                                (replicate (numGenres example_deep) 0)) [1, 2])
                [0..<d_numItems example_deep])
   \<and> fst (deep_getScoresForAllItems Cpu example_draw
             (user_layers_built example_draw example_deep) [1, 2])
       = fst (deep_getScoresForAllItems Cpu example_draw example_deep [1, 2])"
proof -
  have w: "wf_deep (user_layers_built example_draw example_deep)"
    by (rule wf_deep_user_layers_built [OF wf_example_deep])
  have s: "same_item_tower example_deep (user_layers_built example_draw example_deep)"
    by (simp add: same_item_tower_def)
  show ?thesis
    using all_items_scores_use_zero_genres [OF wf_example_deep example_lengths(1),
        of Cpu example_draw "user_layers_built example_draw example_deep"]
      w s wf_example_deep example_lengths(1)
    by blast
qed


end
